theory Spec2Isabelle
  imports Main "HOL-Library.Sublist"
begin

section \<open>Values, exceptions and repository calls\<close>

text \<open>
  The tasks of \<^verbatim>\<open>octavia/controller/worker/v2/tasks/database_tasks.py\<close> are
  methods that talk to a persistence layer through repository objects. Python values that
  travel through the tasks (identifiers, status constants, \<^verbatim>\<open>None\<close>) are values
  of \<open>val\<close>; \<open>truthy\<close> is Python's truth test.
\<close>

datatype val = VNone | VStr string | VInt int | VBool bool


text \<open>
  The exception classes the source names in an \<^verbatim>\<open>except\<close> clause, the
  \<^verbatim>\<open>AttributeError\<close> of reading an attribute of \<^verbatim>\<open>None\<close>, and any
  other subclass of \<^verbatim>\<open>Exception\<close>.
\<close>

datatype exn = NoResultFound | UnmappedInstanceError | AttributeError | OtherException string

text \<open>
  What the workflow engine hands to \<^verbatim>\<open>revert\<close> as \<^verbatim>\<open>result\<close>: a
  \<^verbatim>\<open>taskflow.types.failure.Failure\<close> when the task's own execute failed, the
  value execute returned otherwise.
\<close>

datatype task_result = Failure | Returned val

text \<open>The repositories of \<^verbatim>\<open>BaseDatabaseTask.__init__\<close>.\<close>

datatype repo =
    amphora_repo | health_mon_repo | listener_repo | loadbalancer_repo | member_repo
  | pool_repo | amp_health_repo | l7policy_repo | l7rule_repo

text \<open>The classes of \<^verbatim>\<open>data_models\<close> that name a quota counter.\<close>

datatype kind = HealthMonitor | Listener | LoadBalancer | Member | Pool | L7Policy | L7Rule

text \<open>
  The strings of \<^verbatim>\<open>octavia.common.constants\<close> that the modelled tasks write.
\<close>

definition ACTIVE :: val where "ACTIVE = VStr ''ACTIVE''"
definition ERROR :: val where "ERROR = VStr ''ERROR''"
definition ONLINE :: val where "ONLINE = VStr ''ONLINE''"
definition OFFLINE :: val where "OFFLINE = VStr ''OFFLINE''"
definition PENDING_DELETE :: val where "PENDING_DELETE = VStr ''PENDING_DELETE''"

text \<open>
  Every call a task makes on the persistence layer, with its arguments. Keyword arguments
  of \<^verbatim>\<open>update\<close> are a list of (column, value) pairs. A session is named by the
  position in the trace of the \<open>GetSession\<close> call that opened it; the flag of
  \<open>GetSession\<close> is the \<^verbatim>\<open>autocommit\<close> argument.
\<close>

datatype call =
    Delete repo val
  | Update repo val "(string \<times> val) list"
  | Get repo val
  | ProvStatusActiveIfNotError val
  | GetSession bool
  | DecrementQuota nat kind val int
  | CheckQuotaMet nat nat kind val
  | Commit nat
  | Rollback nat

section \<open>Database objects and task inputs\<close>

text \<open>
  The ORM objects a \<^verbatim>\<open>get\<close> returns, with the attributes the tasks read:
  the load balancer tree walked by \<^verbatim>\<open>MarkLBActiveInDB\<close>, the
  \<^verbatim>\<open>enabled\<close> column, and the project of an L7 policy.
\<close>

record db_member =
  member_id :: val

record db_health_monitor =
  health_monitor_id :: val
  hm_enabled :: bool

record db_pool =
  pool_id :: val
  health_monitor :: "db_health_monitor option"
  members :: "db_member list"

record db_l7rule =
  l7rule_id :: val
  l7rule_enabled :: bool

record db_l7policy =
  l7policy_id :: val
  l7policy_project_id :: val
  l7policy_enabled :: bool
  l7rules :: "db_l7rule list"
  redirect_pool :: "db_pool option"

record db_listener =
  listener_id :: val
  l7policies :: "db_l7policy list"
  default_pool :: "db_pool option"

record db_loadbalancer =
  loadbalancer_id :: val
  listeners :: "db_listener list"

text \<open>
  The provider dictionaries the workflow passes to the tasks. The tasks subscript them with
  keys of \<^verbatim>\<open>constants\<close>; a dictionary built by the provider layer carries these
  keys, so the model is a record with one field per key that the modelled tasks read.
\<close>

record provider_dict =
  ID :: val
  HEALTHMONITOR_ID :: val
  MEMBER_ID :: val
  L7POLICY_ID :: val
  L7RULE_ID :: val
  LISTENER_ID :: val
  LOADBALANCER_ID :: val
  COMPUTE_ID :: val
  PROJECT_ID :: val

text \<open>The dictionary returned by \<^verbatim>\<open>CountPoolChildrenForQuota\<close>.\<close>

record pool_child_count =
  HM :: int
  member :: int

section \<open>The persistence layer as a parameter\<close>

text \<open>
  The repositories, the session factory and the task utilities are not part of the file
  under verification, so the behaviour of the persistence layer is a parameter of every
  task:
  \<^item> \<open>faults\<close> lets the environment make any call raise: the call issued when
    \<open>n\<close> calls have been made raises \<open>e\<close> when \<open>faults n c = Some e\<close>;
  \<^item> the other fields say what a call that is not made to fail does on the stored
    state \<open>'s\<close> of the entities and on the quota counters \<open>'q\<close>; each may
    raise as well.
\<close>

record ('s, 'q) env =
  faults :: "nat \<Rightarrow> call \<Rightarrow> exn option"
  update_row :: "repo \<Rightarrow> val \<Rightarrow> (string \<times> val) list \<Rightarrow> 's \<Rightarrow> exn + 's"
  delete_row :: "repo \<Rightarrow> val \<Rightarrow> 's \<Rightarrow> exn + 's"
  active_if_not_error :: "val \<Rightarrow> 's \<Rightarrow> exn + 's"
  get_health_mon :: "val \<Rightarrow> 's \<Rightarrow> exn + db_health_monitor option"
  get_l7policy :: "val \<Rightarrow> 's \<Rightarrow> exn + db_l7policy option"
  get_l7rule :: "val \<Rightarrow> 's \<Rightarrow> exn + db_l7rule option"
  get_pool :: "val \<Rightarrow> 's \<Rightarrow> exn + db_pool option"
  get_loadbalancer :: "val \<Rightarrow> 's \<Rightarrow> exn + db_loadbalancer option"
  decrement_quota_sem :: "kind \<Rightarrow> val \<Rightarrow> int \<Rightarrow> 'q \<Rightarrow> exn + 'q"
  check_quota_met_sem :: "kind \<Rightarrow> val \<Rightarrow> 'q \<Rightarrow> exn + 'q"

text \<open>
  The world a task runs in: the committed rows of the entities, the committed quota
  counters, and the trace of the calls made so far.
\<close>

record ('s, 'q) world =
  store :: 's
  quota :: 'q
  trace :: "call list"

text \<open>
  A task is a function of the world that returns a value or raises, and the world it
  leaves behind. \<open>try_except\<close> is \<^verbatim>\<open>try: m except Exception as e: h e\<close>.
  The \<^verbatim>\<open>LOG\<close> calls of the source touch nothing that is stored and are left
  out. Where a repository call takes \<^verbatim>\<open>db_apis.get_session()\<close> as its
  argument, opening that session is part of the call; the sessions that the quota tasks
  open in a statement of their own are calls of their own.
\<close>

type_synonym ('s, 'q, 'a) task = "('s, 'q) world \<Rightarrow> (exn + 'a) \<times> ('s, 'q) world"

definition returnM :: "'a \<Rightarrow> ('s, 'q, 'a) task" where
  "returnM x w = (Inr x, w)"

definition raiseM :: "exn \<Rightarrow> ('s, 'q, 'a) task" where
  "raiseM e w = (Inl e, w)"

definition bindM :: "('s, 'q, 'a) task \<Rightarrow> ('a \<Rightarrow> ('s, 'q, 'b) task) \<Rightarrow> ('s, 'q, 'b) task" where
  "bindM m f w = (case m w of (Inl e, w') \<Rightarrow> (Inl e, w') | (Inr x, w') \<Rightarrow> f x w')"

definition seqM :: "('s, 'q, 'a) task \<Rightarrow> ('s, 'q, 'b) task \<Rightarrow> ('s, 'q, 'b) task" where
  "seqM m1 m2 = bindM m1 (\<lambda>_. m2)"

definition try_except :: "('s, 'q, 'a) task \<Rightarrow> (exn \<Rightarrow> ('s, 'q, 'a) task) \<Rightarrow> ('s, 'q, 'a) task" where
  "try_except m h w = (case m w of (Inl e, w') \<Rightarrow> h e w' | (Inr x, w') \<Rightarrow> (Inr x, w'))"

fun for_each :: "'a list \<Rightarrow> ('a \<Rightarrow> ('s, 'q, unit) task) \<Rightarrow> ('s, 'q, unit) task" where
  "for_each [] body = returnM ()"
| "for_each (x # xs) body = seqM (body x) (for_each xs body)"

text \<open>
  What the call \<open>c\<close>, issued when \<open>n\<close> calls have been made, comes to: the
  exception the environment injects there, or else what the persistence layer does on
  \<open>x\<close>.
\<close>

definition attempt ::
  "('s, 'q) env \<Rightarrow> nat \<Rightarrow> call \<Rightarrow> ('a \<Rightarrow> exn + 'b) \<Rightarrow> 'a \<Rightarrow> exn + 'b" where
  "attempt env n c sem x = (case faults env n c of Some e \<Rightarrow> Inl e | None \<Rightarrow> sem x)"

text \<open>
  A call that writes rows: it is appended to the trace; when it raises, the rows are as
  before (the persistence layer updates a row atomically); otherwise the rows are the ones
  the repository returns.
\<close>

definition write_call ::
  "('s, 'q) env \<Rightarrow> call \<Rightarrow> ('s \<Rightarrow> exn + 's) \<Rightarrow> ('s, 'q, unit) task" where
  "write_call env c sem w =
     (let w1 = w\<lparr>trace := trace w @ [c]\<rparr> in
      case attempt env (length (trace w)) c sem (store w) of
        Inl e \<Rightarrow> (Inl e, w1)
      | Inr s' \<Rightarrow> (Inr (), w1\<lparr>store := s'\<rparr>))"

text \<open>A call that reads: the rows are unchanged.\<close>

definition read_call ::
  "('s, 'q) env \<Rightarrow> call \<Rightarrow> ('s \<Rightarrow> exn + 'a) \<Rightarrow> ('s, 'q, 'a) task" where
  "read_call env c sem w =
     (let w1 = w\<lparr>trace := trace w @ [c]\<rparr> in
      case attempt env (length (trace w)) c sem (store w) of
        Inl e \<Rightarrow> (Inl e, w1)
      | Inr x \<Rightarrow> (Inr x, w1))"

definition repo_update ::
  "('s, 'q) env \<Rightarrow> repo \<Rightarrow> val \<Rightarrow> (string \<times> val) list \<Rightarrow> ('s, 'q, unit) task" where
  "repo_update env r i kwargs = write_call env (Update r i kwargs) (update_row env r i kwargs)"

definition repo_delete :: "('s, 'q) env \<Rightarrow> repo \<Rightarrow> val \<Rightarrow> ('s, 'q, unit) task" where
  "repo_delete env r i = write_call env (Delete r i) (delete_row env r i)"

text \<open>The calls the tasks make since the world \<open>w\<close>, read off the world \<open>w'\<close>.\<close>

definition calls_since :: "('s, 'q) world \<Rightarrow> ('s, 'q) world \<Rightarrow> call list" where
  "calls_since w w' = drop (length (trace w)) (trace w')"

section \<open>Amphora role and priority\<close>

text \<open>
  \<^verbatim>\<open>_MarkAmphoraRoleAndPriorityInDB._revert\<close>, and the \<^verbatim>\<open>revert\<close> of
  its three subclasses, which pass \<^verbatim>\<open>amphora[constants.ID]\<close> to it.
\<close>

definition MarkAmphoraRoleAndPriorityInDB_revert ::
  "('s, 'q) env \<Rightarrow> task_result \<Rightarrow> val \<Rightarrow> ('s, 'q, unit) task" where
  "MarkAmphoraRoleAndPriorityInDB_revert env result amphora_id =
     (if result = Failure then returnM ()
      else try_except
             (repo_update env amphora_repo amphora_id
                [(''role'', VNone), (''vrrp_priority'', VNone)])
             (\<lambda>e. returnM ()))"

definition MarkAmphoraMasterInDB_revert ::
  "('s, 'q) env \<Rightarrow> task_result \<Rightarrow> provider_dict \<Rightarrow> ('s, 'q, unit) task" where
  "MarkAmphoraMasterInDB_revert env result amphora =
     MarkAmphoraRoleAndPriorityInDB_revert env result (ID amphora)"

definition MarkAmphoraBackupInDB_revert ::
  "('s, 'q) env \<Rightarrow> task_result \<Rightarrow> provider_dict \<Rightarrow> ('s, 'q, unit) task" where
  "MarkAmphoraBackupInDB_revert env result amphora =
     MarkAmphoraRoleAndPriorityInDB_revert env result (ID amphora)"

definition MarkAmphoraStandAloneInDB_revert ::
  "('s, 'q) env \<Rightarrow> task_result \<Rightarrow> provider_dict \<Rightarrow> ('s, 'q, unit) task" where
  "MarkAmphoraStandAloneInDB_revert env result amphora =
     MarkAmphoraRoleAndPriorityInDB_revert env result (ID amphora)"

section \<open>Amphora creation and amphora status\<close>

text \<open>
  Modelled from the spec: \<^verbatim>\<open>task_utils.TaskUtils\<close> is not in the file under
  verification. Its \<^verbatim>\<open>mark_*_status_error\<close> helpers are compensation steps,
  and the spec (4.1, 7) has every compensation failure caught, logged and swallowed: the
  helper updates the status column to \<^verbatim>\<open>ERROR\<close> and catches what the update
  raises.
\<close>

definition mark_amphora_status_error :: "('s, 'q) env \<Rightarrow> val \<Rightarrow> ('s, 'q, unit) task" where
  "mark_amphora_status_error env amphora_id =
     try_except (repo_update env amphora_repo amphora_id [(''status'', ERROR)])
                (\<lambda>e. returnM ())"

definition mark_prov_status_error :: "('s, 'q) env \<Rightarrow> repo \<Rightarrow> val \<Rightarrow> ('s, 'q, unit) task" where
  "mark_prov_status_error env r i =
     try_except (repo_update env r i [(''provisioning_status'', ERROR)])
                (\<lambda>e. returnM ())"

definition mark_loadbalancer_prov_status_error ::
  "('s, 'q) env \<Rightarrow> val \<Rightarrow> ('s, 'q, unit) task" where
  "mark_loadbalancer_prov_status_error env lb_id = mark_prov_status_error env loadbalancer_repo lb_id"

text \<open>\<^verbatim>\<open>CreateAmphoraInDB.revert\<close>: \<open>result\<close> is the id of the created amphora.\<close>

definition CreateAmphoraInDB_revert :: "('s, 'q) env \<Rightarrow> task_result \<Rightarrow> ('s, 'q, unit) task" where
  "CreateAmphoraInDB_revert env result =
     (case result of
        Failure \<Rightarrow> returnM ()
      | Returned amp_id \<Rightarrow>
          try_except (repo_delete env amphora_repo amp_id) (\<lambda>e. returnM ()))"

text \<open>\<^verbatim>\<open>MarkAmphoraAllocatedInDB.revert\<close>.\<close>

definition MarkAmphoraAllocatedInDB_revert ::
  "('s, 'q) env \<Rightarrow> task_result \<Rightarrow> provider_dict \<Rightarrow> val \<Rightarrow> ('s, 'q, unit) task" where
  "MarkAmphoraAllocatedInDB_revert env result amphora lb_id =
     (if result = Failure then returnM ()
      else mark_amphora_status_error env (ID amphora))"

text \<open>\<^verbatim>\<open>MarkAmphoraBootingInDB.revert\<close>.\<close>

definition MarkAmphoraBootingInDB_revert ::
  "('s, 'q) env \<Rightarrow> task_result \<Rightarrow> val \<Rightarrow> val \<Rightarrow> ('s, 'q, unit) task" where
  "MarkAmphoraBootingInDB_revert env result amphora_id compute_id =
     (if result = Failure then returnM ()
      else try_except
             (repo_update env amphora_repo amphora_id
                [(''status'', ERROR), (''compute_id'', compute_id)])
             (\<lambda>e. returnM ()))"

section \<open>Deleting entities\<close>

text \<open>
  \<^verbatim>\<open>BaseDatabaseTask._delete_from_amp_health\<close> (the leading underscore is not
  part of an Isabelle name) and \<^verbatim>\<open>DisableAmphoraHealthMonitoring.execute\<close>. The
  \<^verbatim>\<open>except\<close> clause names two classes; anything else propagates.
\<close>

definition delete_from_amp_health :: "('s, 'q) env \<Rightarrow> val \<Rightarrow> ('s, 'q, unit) task" where
  "delete_from_amp_health env amphora_id =
     try_except (repo_delete env amp_health_repo amphora_id)
       (\<lambda>e. if e = NoResultFound \<or> e = UnmappedInstanceError then returnM () else raiseM e)"

definition DisableAmphoraHealthMonitoring_execute ::
  "('s, 'q) env \<Rightarrow> provider_dict \<Rightarrow> ('s, 'q, unit) task" where
  "DisableAmphoraHealthMonitoring_execute env amphora = delete_from_amp_health env (ID amphora)"

text \<open>\<^verbatim>\<open>BaseDatabaseTask._mark_amp_health_busy\<close>.\<close>

definition mark_amp_health_busy :: "('s, 'q) env \<Rightarrow> val \<Rightarrow> ('s, 'q, unit) task" where
  "mark_amp_health_busy env amphora_id =
     try_except (repo_update env amp_health_repo amphora_id [(''busy'', VBool True)])
       (\<lambda>e. if e = NoResultFound \<or> e = UnmappedInstanceError then returnM () else raiseM e)"

text \<open>
  \<^verbatim>\<open>DeleteHealthMonitorInDB\<close>. Its \<^verbatim>\<open>revert(self, health_mon, *args,
  **kwargs)\<close> receives the engine's \<^verbatim>\<open>result\<close> among the keyword arguments and
  never looks at it; the update is not inside a \<^verbatim>\<open>try\<close>.
\<close>

definition DeleteHealthMonitorInDB_execute ::
  "('s, 'q) env \<Rightarrow> provider_dict \<Rightarrow> ('s, 'q, unit) task" where
  "DeleteHealthMonitorInDB_execute env health_mon =
     try_except (repo_delete env health_mon_repo (HEALTHMONITOR_ID health_mon))
       (\<lambda>e. if e = NoResultFound then returnM () else raiseM e)"

definition DeleteHealthMonitorInDB_revert ::
  "('s, 'q) env \<Rightarrow> provider_dict \<Rightarrow> task_result \<Rightarrow> ('s, 'q, unit) task" where
  "DeleteHealthMonitorInDB_revert env health_mon result =
     repo_update env health_mon_repo (HEALTHMONITOR_ID health_mon)
       [(''provisioning_status'', ERROR)]"

text \<open>
  \<^verbatim>\<open>DeleteHealthMonitorInDBByPool.revert\<close>. The pool is read outside any
  \<^verbatim>\<open>try\<close>; a missing pool or a pool without health monitor is an attribute
  read of \<^verbatim>\<open>None\<close>. The provider dictionary built from the health monitor
  carries its id.
\<close>

definition provider_hm_of :: "db_health_monitor \<Rightarrow> provider_dict" where
  "provider_hm_of hm =
     \<lparr>ID = VNone, HEALTHMONITOR_ID = health_monitor_id hm, MEMBER_ID = VNone,
      L7POLICY_ID = VNone, L7RULE_ID = VNone, LISTENER_ID = VNone, LOADBALANCER_ID = VNone,
      COMPUTE_ID = VNone, PROJECT_ID = VNone\<rparr>"

definition DeleteHealthMonitorInDBByPool_revert ::
  "('s, 'q) env \<Rightarrow> val \<Rightarrow> task_result \<Rightarrow> ('s, 'q, unit) task" where
  "DeleteHealthMonitorInDBByPool_revert env pool_id' result =
     bindM (read_call env (Get pool_repo pool_id') (get_pool env pool_id'))
       (\<lambda>db_pool. case db_pool of
            None \<Rightarrow> raiseM AttributeError
          | Some p \<Rightarrow> (case health_monitor p of
                None \<Rightarrow> raiseM AttributeError
              | Some hm \<Rightarrow> DeleteHealthMonitorInDB_revert env (provider_hm_of hm) result))"

text \<open>
  \<^verbatim>\<open>DeleteMemberInDB\<close>, \<^verbatim>\<open>DeletePoolInDB\<close>,
  \<^verbatim>\<open>DeleteL7PolicyInDB\<close>, \<^verbatim>\<open>DeleteL7RuleInDB\<close> and
  \<^verbatim>\<open>DeleteListenerInDB\<close>: execute deletes with no \<^verbatim>\<open>try\<close>; revert
  (which ignores \<^verbatim>\<open>result\<close>) marks the row \<^verbatim>\<open>ERROR\<close> inside a
  \<^verbatim>\<open>try\<close>, except for the listener, whose revert only logs.
\<close>

definition DeleteMemberInDB_execute :: "('s, 'q) env \<Rightarrow> provider_dict \<Rightarrow> ('s, 'q, unit) task" where
  "DeleteMemberInDB_execute env member' = repo_delete env member_repo (MEMBER_ID member')"

definition DeleteMemberInDB_revert ::
  "('s, 'q) env \<Rightarrow> provider_dict \<Rightarrow> task_result \<Rightarrow> ('s, 'q, unit) task" where
  "DeleteMemberInDB_revert env member' result =
     try_except
       (repo_update env member_repo (MEMBER_ID member') [(''provisioning_status'', ERROR)])
       (\<lambda>e. returnM ())"

definition DeletePoolInDB_execute :: "('s, 'q) env \<Rightarrow> val \<Rightarrow> ('s, 'q, unit) task" where
  "DeletePoolInDB_execute env pool_id' = repo_delete env pool_repo pool_id'"

definition DeletePoolInDB_revert ::
  "('s, 'q) env \<Rightarrow> val \<Rightarrow> task_result \<Rightarrow> ('s, 'q, unit) task" where
  "DeletePoolInDB_revert env pool_id' result =
     try_except
       (repo_update env pool_repo pool_id' [(''provisioning_status'', ERROR)])
       (\<lambda>e. returnM ())"

definition DeleteL7PolicyInDB_execute :: "('s, 'q) env \<Rightarrow> provider_dict \<Rightarrow> ('s, 'q, unit) task" where
  "DeleteL7PolicyInDB_execute env l7policy = repo_delete env l7policy_repo (L7POLICY_ID l7policy)"

definition DeleteL7RuleInDB_execute :: "('s, 'q) env \<Rightarrow> provider_dict \<Rightarrow> ('s, 'q, unit) task" where
  "DeleteL7RuleInDB_execute env l7rule = repo_delete env l7rule_repo (L7RULE_ID l7rule)"

definition DeleteListenerInDB_execute :: "('s, 'q) env \<Rightarrow> provider_dict \<Rightarrow> ('s, 'q, unit) task" where
  "DeleteListenerInDB_execute env listener = repo_delete env listener_repo (LISTENER_ID listener)"

definition DeleteL7PolicyInDB_revert ::
  "('s, 'q) env \<Rightarrow> provider_dict \<Rightarrow> task_result \<Rightarrow> ('s, 'q, unit) task" where
  "DeleteL7PolicyInDB_revert env l7policy result =
     try_except
       (repo_update env l7policy_repo (L7POLICY_ID l7policy) [(''provisioning_status'', ERROR)])
       (\<lambda>e. returnM ())"

definition DeleteL7RuleInDB_revert ::
  "('s, 'q) env \<Rightarrow> provider_dict \<Rightarrow> task_result \<Rightarrow> ('s, 'q, unit) task" where
  "DeleteL7RuleInDB_revert env l7rule result =
     try_except
       (repo_update env l7rule_repo (L7RULE_ID l7rule) [(''provisioning_status'', ERROR)])
       (\<lambda>e. returnM ())"

text \<open>
  \<^verbatim>\<open>DeleteListenerInDB.revert\<close>: its body is one \<^verbatim>\<open>LOG.warning\<close>
  (the source says of it that it does not revert anything).
\<close>

definition DeleteListenerInDB_revert ::
  "('s, 'q) env \<Rightarrow> provider_dict \<Rightarrow> task_result \<Rightarrow> ('s, 'q, unit) task" where
  "DeleteListenerInDB_revert env listener result = returnM ()"

section \<open>Marking entities ACTIVE\<close>

text \<open>
  \<^verbatim>\<open>MarkHealthMonitorActiveInDB.execute\<close>, \<^verbatim>\<open>MarkL7PolicyActiveInDB.execute\<close>
  and \<^verbatim>\<open>MarkL7RuleActiveInDB.execute\<close> read the row and derive
  \<^verbatim>\<open>op_status\<close> from its \<^verbatim>\<open>enabled\<close> column;
  \<^verbatim>\<open>MarkMemberActiveInDB.execute\<close> and \<^verbatim>\<open>MarkPoolActiveInDB.execute\<close>
  read nothing and pass \<^verbatim>\<open>provisioning_status\<close> alone.
\<close>

definition MarkHealthMonitorActiveInDB_execute ::
  "('s, 'q) env \<Rightarrow> provider_dict \<Rightarrow> ('s, 'q, unit) task" where
  "MarkHealthMonitorActiveInDB_execute env health_mon =
     bindM (read_call env (Get health_mon_repo (HEALTHMONITOR_ID health_mon))
              (get_health_mon env (HEALTHMONITOR_ID health_mon)))
       (\<lambda>db_health_mon. case db_health_mon of
            None \<Rightarrow> raiseM AttributeError
          | Some hm \<Rightarrow>
              (let op_status = (if hm_enabled hm then ONLINE else OFFLINE) in
               repo_update env health_mon_repo (HEALTHMONITOR_ID health_mon)
                 [(''provisioning_status'', ACTIVE), (''operating_status'', op_status)]))"

definition MarkL7PolicyActiveInDB_execute ::
  "('s, 'q) env \<Rightarrow> provider_dict \<Rightarrow> ('s, 'q, unit) task" where
  "MarkL7PolicyActiveInDB_execute env l7policy =
     bindM (read_call env (Get l7policy_repo (L7POLICY_ID l7policy))
              (get_l7policy env (L7POLICY_ID l7policy)))
       (\<lambda>db_l7policy. case db_l7policy of
            None \<Rightarrow> raiseM AttributeError
          | Some p \<Rightarrow>
              (let op_status = (if l7policy_enabled p then ONLINE else OFFLINE) in
               repo_update env l7policy_repo (L7POLICY_ID l7policy)
                 [(''provisioning_status'', ACTIVE), (''operating_status'', op_status)]))"

definition MarkL7RuleActiveInDB_execute ::
  "('s, 'q) env \<Rightarrow> provider_dict \<Rightarrow> ('s, 'q, unit) task" where
  "MarkL7RuleActiveInDB_execute env l7rule =
     bindM (read_call env (Get l7rule_repo (L7RULE_ID l7rule))
              (get_l7rule env (L7RULE_ID l7rule)))
       (\<lambda>db_rule. case db_rule of
            None \<Rightarrow> raiseM AttributeError
          | Some r \<Rightarrow>
              (let op_status = (if l7rule_enabled r then ONLINE else OFFLINE) in
               repo_update env l7rule_repo (L7RULE_ID l7rule)
                 [(''provisioning_status'', ACTIVE), (''operating_status'', op_status)]))"

definition MarkMemberActiveInDB_execute ::
  "('s, 'q) env \<Rightarrow> provider_dict \<Rightarrow> ('s, 'q, unit) task" where
  "MarkMemberActiveInDB_execute env member' =
     repo_update env member_repo (MEMBER_ID member') [(''provisioning_status'', ACTIVE)]"

definition MarkPoolActiveInDB_execute :: "('s, 'q) env \<Rightarrow> val \<Rightarrow> ('s, 'q, unit) task" where
  "MarkPoolActiveInDB_execute env pool_id' =
     repo_update env pool_repo pool_id' [(''provisioning_status'', ACTIVE)]"

section \<open>The cascading status walk\<close>

text \<open>
  \<^verbatim>\<open>MarkLBActiveInDB\<close> and its helpers \<^verbatim>\<open>_mark_member_status\<close>,
  \<^verbatim>\<open>_mark_hm_status\<close>, \<^verbatim>\<open>_mark_pool_status\<close>,
  \<^verbatim>\<open>_mark_l7rule_status\<close>, \<^verbatim>\<open>_mark_l7policy_status\<close> and
  \<^verbatim>\<open>_mark_listener_status\<close>. Each update is a call of its own on a session of
  its own. An ORM object is true, so \<^verbatim>\<open>if pool.health_monitor:\<close> asks whether
  there is one.
\<close>

definition mark_member_status :: "('s, 'q) env \<Rightarrow> db_member \<Rightarrow> val \<Rightarrow> ('s, 'q, unit) task" where
  "mark_member_status env member' status =
     repo_update env member_repo (member_id member') [(''provisioning_status'', status)]"

definition mark_hm_status ::
  "('s, 'q) env \<Rightarrow> db_health_monitor \<Rightarrow> val \<Rightarrow> ('s, 'q, unit) task" where
  "mark_hm_status env hm status =
     repo_update env health_mon_repo (health_monitor_id hm) [(''provisioning_status'', status)]"

definition mark_pool_status :: "('s, 'q) env \<Rightarrow> db_pool \<Rightarrow> val \<Rightarrow> ('s, 'q, unit) task" where
  "mark_pool_status env pool status =
     seqM (repo_update env pool_repo (pool_id pool) [(''provisioning_status'', status)])
    (seqM (case health_monitor pool of
             Some hm \<Rightarrow> mark_hm_status env hm status
           | None \<Rightarrow> returnM ())
          (for_each (members pool) (\<lambda>member'. mark_member_status env member' status)))"

definition mark_l7rule_status :: "('s, 'q) env \<Rightarrow> db_l7rule \<Rightarrow> val \<Rightarrow> ('s, 'q, unit) task" where
  "mark_l7rule_status env l7rule status =
     repo_update env l7rule_repo (l7rule_id l7rule) [(''provisioning_status'', status)]"

definition mark_l7policy_status ::
  "('s, 'q) env \<Rightarrow> db_l7policy \<Rightarrow> val \<Rightarrow> ('s, 'q, unit) task" where
  "mark_l7policy_status env l7policy status =
     seqM (repo_update env l7policy_repo (l7policy_id l7policy)
             [(''provisioning_status'', status)])
    (seqM (for_each (l7rules l7policy) (\<lambda>l7rule. mark_l7rule_status env l7rule status))
          (case redirect_pool l7policy of
             Some pool \<Rightarrow> mark_pool_status env pool status
           | None \<Rightarrow> returnM ()))"

definition mark_listener_status ::
  "('s, 'q) env \<Rightarrow> db_listener \<Rightarrow> val \<Rightarrow> ('s, 'q, unit) task" where
  "mark_listener_status env listener status =
     seqM (repo_update env listener_repo (listener_id listener)
             [(''provisioning_status'', status)])
    (seqM (for_each (l7policies listener)
             (\<lambda>l7policy. mark_l7policy_status env l7policy status))
          (case default_pool listener of
             Some pool \<Rightarrow> mark_pool_status env pool status
           | None \<Rightarrow> returnM ()))"

text \<open>
  Reading the load balancer: \<^verbatim>\<open>db_lb.listeners\<close> on a \<^verbatim>\<open>None\<close> is an
  attribute error.
\<close>

definition get_db_lb :: "('s, 'q) env \<Rightarrow> val \<Rightarrow> ('s, 'q, db_loadbalancer) task" where
  "get_db_lb env lb_id =
     bindM (read_call env (Get loadbalancer_repo lb_id) (get_loadbalancer env lb_id))
       (\<lambda>db_lb. case db_lb of None \<Rightarrow> raiseM AttributeError | Some lb \<Rightarrow> returnM lb)"

definition MarkLBActiveInDB_execute ::
  "('s, 'q) env \<Rightarrow> bool \<Rightarrow> provider_dict \<Rightarrow> ('s, 'q, unit) task" where
  "MarkLBActiveInDB_execute env mark_subobjects loadbalancer =
     seqM (if mark_subobjects
           then bindM (get_db_lb env (LOADBALANCER_ID loadbalancer))
                  (\<lambda>db_lb. for_each (listeners db_lb)
                     (\<lambda>listener. mark_listener_status env listener ACTIVE))
           else returnM ())
          (repo_update env loadbalancer_repo (LOADBALANCER_ID loadbalancer)
             [(''provisioning_status'', ACTIVE)])"

definition MarkLBActiveInDB_revert ::
  "('s, 'q) env \<Rightarrow> bool \<Rightarrow> provider_dict \<Rightarrow> task_result \<Rightarrow> ('s, 'q, unit) task" where
  "MarkLBActiveInDB_revert env mark_subobjects loadbalancer result =
     seqM (if mark_subobjects
           then bindM (get_db_lb env (LOADBALANCER_ID loadbalancer))
                  (\<lambda>db_lb. for_each (listeners db_lb)
                     (\<lambda>listener. try_except (mark_listener_status env listener ERROR)
                                    (\<lambda>e. returnM ())))
           else returnM ())
          (mark_loadbalancer_prov_status_error env (LOADBALANCER_ID loadbalancer))"

section \<open>Load balancer and listeners ACTIVE\<close>



section \<open>Sessions and the quota ledger\<close>

text \<open>
  Modelled from the spec: the session factory \<^verbatim>\<open>db_apis.get_session\<close> and the
  session methods are not in the file under verification. The spec (4.4, 6) asks for a
  locked-session factory with an \<^verbatim>\<open>autocommit=False\<close> mode offering explicit
  commit and rollback: what is done on such a session is pending until the commit, which
  makes it the committed state in one step, and a rollback discards it. A session is its
  name and its pending quota counters. Each of the calls may raise.
\<close>

record 'q session =
  sid :: nat
  pending :: 'q

definition get_session :: "('s, 'q) env \<Rightarrow> bool \<Rightarrow> ('s, 'q, 'q session) task" where
  "get_session env autocommit w =
     (let c = GetSession autocommit; w1 = w\<lparr>trace := trace w @ [c]\<rparr> in
      case attempt env (length (trace w)) c Inr \<lparr>sid = length (trace w), pending = quota w\<rparr> of
        Inl e \<Rightarrow> (Inl e, w1)
      | Inr s \<Rightarrow> (Inr s, w1))"

definition commit :: "('s, 'q) env \<Rightarrow> 'q session \<Rightarrow> ('s, 'q, unit) task" where
  "commit env lock_session w =
     (let c = Commit (sid lock_session); w1 = w\<lparr>trace := trace w @ [c]\<rparr> in
      case attempt env (length (trace w)) c Inr (pending lock_session) of
        Inl e \<Rightarrow> (Inl e, w1)
      | Inr q' \<Rightarrow> (Inr (), w1\<lparr>quota := q'\<rparr>))"

definition rollback :: "('s, 'q) env \<Rightarrow> 'q session \<Rightarrow> ('s, 'q, unit) task" where
  "rollback env lock_session w =
     (let c = Rollback (sid lock_session); w1 = w\<lparr>trace := trace w @ [c]\<rparr> in
      case attempt env (length (trace w)) c Inr () of
        Inl e \<Rightarrow> (Inl e, w1)
      | Inr u \<Rightarrow> (Inr (), w1))"

text \<open>
  \<^verbatim>\<open>repos.decrement_quota(lock_session, kind, project_id, quantity=1)\<close> and
  \<^verbatim>\<open>repos.check_quota_met(session, lock_session, kind, project_id)\<close> work on the
  pending counters of the lock session; the session that comes back is the same session
  with the new pending counters. The boolean that \<^verbatim>\<open>check_quota_met\<close> returns
  is dropped by every caller.
\<close>

definition decrement_quota ::
  "('s, 'q) env \<Rightarrow> 'q session \<Rightarrow> kind \<Rightarrow> val \<Rightarrow> int \<Rightarrow> ('s, 'q, 'q session) task" where
  "decrement_quota env lock_session k project_id quantity w =
     (let c = DecrementQuota (sid lock_session) k project_id quantity;
          w1 = w\<lparr>trace := trace w @ [c]\<rparr> in
      case attempt env (length (trace w)) c (decrement_quota_sem env k project_id quantity)
             (pending lock_session) of
        Inl e \<Rightarrow> (Inl e, w1)
      | Inr q' \<Rightarrow> (Inr (lock_session\<lparr>pending := q'\<rparr>), w1))"

definition check_quota_met ::
  "('s, 'q) env \<Rightarrow> 'q session \<Rightarrow> 'q session \<Rightarrow> kind \<Rightarrow> val \<Rightarrow> ('s, 'q, 'q session) task" where
  "check_quota_met env session lock_session k project_id w =
     (let c = CheckQuotaMet (sid session) (sid lock_session) k project_id;
          w1 = w\<lparr>trace := trace w @ [c]\<rparr> in
      case attempt env (length (trace w)) c (check_quota_met_sem env k project_id)
             (pending lock_session) of
        Inl e \<Rightarrow> (Inl e, w1)
      | Inr q' \<Rightarrow> (Inr (lock_session\<lparr>pending := q'\<rparr>), w1))"

text \<open>
  \<^verbatim>\<open>with excutils.save_and_reraise_exception(): ...; lock_session.rollback()\<close>:
  the body runs and the saved exception is raised again; an exception of the body itself
  takes its place.
\<close>

definition save_and_reraise_exception :: "exn \<Rightarrow> ('s, 'q, unit) task \<Rightarrow> ('s, 'q, 'a) task" where
  "save_and_reraise_exception e body = seqM body (raiseM e)"

text \<open>
  The execute of \<^verbatim>\<open>DecrementHealthMonitorQuota\<close>,
  \<^verbatim>\<open>DecrementListenerQuota\<close>, \<^verbatim>\<open>DecrementLoadBalancerQuota\<close> and
  \<^verbatim>\<open>DecrementMemberQuota\<close> is the same text up to the class of
  \<^verbatim>\<open>data_models\<close>: the lock session is opened before the \<^verbatim>\<open>try\<close>.
\<close>

definition decrement_one ::
  "('s, 'q) env \<Rightarrow> kind \<Rightarrow> val \<Rightarrow> ('s, 'q, unit) task" where
  "decrement_one env k project_id =
     bindM (get_session env False)
       (\<lambda>lock_session.
          try_except
            (bindM (decrement_quota env lock_session k project_id 1)
               (\<lambda>ls. commit env ls))
            (\<lambda>e. save_and_reraise_exception e (rollback env lock_session)))"

definition DecrementHealthMonitorQuota_execute :: "('s, 'q) env \<Rightarrow> val \<Rightarrow> ('s, 'q, unit) task" where
  "DecrementHealthMonitorQuota_execute env project_id = decrement_one env HealthMonitor project_id"

definition DecrementListenerQuota_execute :: "('s, 'q) env \<Rightarrow> val \<Rightarrow> ('s, 'q, unit) task" where
  "DecrementListenerQuota_execute env project_id = decrement_one env Listener project_id"

definition DecrementLoadBalancerQuota_execute :: "('s, 'q) env \<Rightarrow> val \<Rightarrow> ('s, 'q, unit) task" where
  "DecrementLoadBalancerQuota_execute env project_id = decrement_one env LoadBalancer project_id"

definition DecrementMemberQuota_execute :: "('s, 'q) env \<Rightarrow> val \<Rightarrow> ('s, 'q, unit) task" where
  "DecrementMemberQuota_execute env project_id = decrement_one env Member project_id"

text \<open>
  The block that every quota revert repeats: a lock session of its own, the check, the
  commit, and a rollback when either raises.
\<close>

definition check_and_commit ::
  "('s, 'q) env \<Rightarrow> 'q session \<Rightarrow> kind \<Rightarrow> val \<Rightarrow> ('s, 'q, unit) task" where
  "check_and_commit env session k project_id =
     bindM (get_session env False)
       (\<lambda>lock_session.
          try_except
            (bindM (check_quota_met env session lock_session k project_id)
               (\<lambda>ls. commit env ls))
            (\<lambda>e. rollback env lock_session))"

text \<open>
  The revert of the same four tasks, again one text up to the class: nothing happens on a
  \<^verbatim>\<open>Failure\<close>; otherwise the outer \<^verbatim>\<open>try\<close> swallows whatever the
  inner block lets through.
\<close>

definition reincrement_one ::
  "('s, 'q) env \<Rightarrow> kind \<Rightarrow> val \<Rightarrow> task_result \<Rightarrow> ('s, 'q, unit) task" where
  "reincrement_one env k project_id result =
     (if result \<noteq> Failure
      then try_except
             (bindM (get_session env True)
                (\<lambda>session. check_and_commit env session k project_id))
             (\<lambda>e. returnM ())
      else returnM ())"

definition DecrementHealthMonitorQuota_revert ::
  "('s, 'q) env \<Rightarrow> val \<Rightarrow> task_result \<Rightarrow> ('s, 'q, unit) task" where
  "DecrementHealthMonitorQuota_revert env project_id result =
     reincrement_one env HealthMonitor project_id result"

definition DecrementListenerQuota_revert ::
  "('s, 'q) env \<Rightarrow> val \<Rightarrow> task_result \<Rightarrow> ('s, 'q, unit) task" where
  "DecrementListenerQuota_revert env project_id result =
     reincrement_one env Listener project_id result"

definition DecrementLoadBalancerQuota_revert ::
  "('s, 'q) env \<Rightarrow> val \<Rightarrow> task_result \<Rightarrow> ('s, 'q, unit) task" where
  "DecrementLoadBalancerQuota_revert env project_id result =
     reincrement_one env LoadBalancer project_id result"

definition DecrementMemberQuota_revert ::
  "('s, 'q) env \<Rightarrow> val \<Rightarrow> task_result \<Rightarrow> ('s, 'q, unit) task" where
  "DecrementMemberQuota_revert env project_id result =
     reincrement_one env Member project_id result"

text \<open>
  \<^verbatim>\<open>DecrementPoolQuota\<close>. In execute the three decrements share the lock session
  and its one commit. In revert \<^verbatim>\<open>range(pool_child_count['member'])\<close> is empty
  for a count that is not positive.
\<close>

definition DecrementPoolQuota_execute ::
  "('s, 'q) env \<Rightarrow> val \<Rightarrow> pool_child_count \<Rightarrow> ('s, 'q, unit) task" where
  "DecrementPoolQuota_execute env project_id pcc =
     bindM (get_session env False)
       (\<lambda>lock_session.
          try_except
            (bindM (decrement_quota env lock_session Pool project_id 1)
               (\<lambda>ls1.
             bindM (if HM pcc > 0
                    then decrement_quota env ls1 HealthMonitor project_id 1
                    else returnM ls1)
               (\<lambda>ls2.
             bindM (if member pcc > 0
                    then decrement_quota env ls2 Member project_id (member pcc)
                    else returnM ls2)
               (\<lambda>ls3. commit env ls3))))
            (\<lambda>e. save_and_reraise_exception e (rollback env lock_session)))"

definition DecrementPoolQuota_revert ::
  "('s, 'q) env \<Rightarrow> val \<Rightarrow> pool_child_count \<Rightarrow> task_result \<Rightarrow> ('s, 'q, unit) task" where
  "DecrementPoolQuota_revert env project_id pcc result =
     (if result \<noteq> Failure
      then try_except
             (bindM (get_session env True)
                (\<lambda>session.
                   seqM (check_and_commit env session Pool project_id)
                  (seqM (if HM pcc > 0
                         then check_and_commit env session HealthMonitor project_id
                         else returnM ())
                        (for_each [0..<nat (member pcc)]
                           (\<lambda>i. check_and_commit env session Member project_id)))))
             (\<lambda>e. returnM ())
      else returnM ())"

text \<open>
  \<^verbatim>\<open>DecrementL7ruleQuota\<close> is the same text again, with the project read from
  the dictionary of the rule.
\<close>

definition DecrementL7ruleQuota_execute ::
  "('s, 'q) env \<Rightarrow> provider_dict \<Rightarrow> ('s, 'q, unit) task" where
  "DecrementL7ruleQuota_execute env l7rule = decrement_one env L7Rule (PROJECT_ID l7rule)"

definition DecrementL7ruleQuota_revert ::
  "('s, 'q) env \<Rightarrow> provider_dict \<Rightarrow> task_result \<Rightarrow> ('s, 'q, unit) task" where
  "DecrementL7ruleQuota_revert env l7rule result =
     reincrement_one env L7Rule (PROJECT_ID l7rule) result"

text \<open>
  \<^verbatim>\<open>DecrementL7policyQuota\<close>. Execute reads the policy inside the
  \<^verbatim>\<open>try\<close> and decrements the rule counter by the number of its rules when
  there is a policy with rules. Revert reads the policy after the first block and makes
  one block per rule, on the project of the stored policy.
\<close>

definition DecrementL7policyQuota_execute ::
  "('s, 'q) env \<Rightarrow> provider_dict \<Rightarrow> ('s, 'q, unit) task" where
  "DecrementL7policyQuota_execute env l7policy =
     bindM (get_session env False)
       (\<lambda>lock_session.
          try_except
            (bindM (decrement_quota env lock_session L7Policy (PROJECT_ID l7policy) 1)
               (\<lambda>ls1.
             bindM (read_call env (Get l7policy_repo (L7POLICY_ID l7policy))
                      (get_l7policy env (L7POLICY_ID l7policy)))
               (\<lambda>db_l7policy.
             bindM (case db_l7policy of
                      None \<Rightarrow> returnM ls1
                    | Some p \<Rightarrow>
                        if l7rules p \<noteq> []
                        then decrement_quota env ls1 L7Rule (PROJECT_ID l7policy)
                               (int (length (l7rules p)))
                        else returnM ls1)
               (\<lambda>ls2. commit env ls2))))
            (\<lambda>e. save_and_reraise_exception e (rollback env lock_session)))"

definition DecrementL7policyQuota_revert ::
  "('s, 'q) env \<Rightarrow> provider_dict \<Rightarrow> task_result \<Rightarrow> ('s, 'q, unit) task" where
  "DecrementL7policyQuota_revert env l7policy result =
     (if result \<noteq> Failure
      then try_except
             (bindM (get_session env True)
                (\<lambda>session.
                   seqM (check_and_commit env session L7Policy (PROJECT_ID l7policy))
                  (bindM (read_call env (Get l7policy_repo (L7POLICY_ID l7policy))
                            (get_l7policy env (L7POLICY_ID l7policy)))
                     (\<lambda>db_l7policy. case db_l7policy of
                          None \<Rightarrow> returnM ()
                        | Some p \<Rightarrow>
                            for_each [0..<length (l7rules p)]
                              (\<lambda>i. check_and_commit env session L7Rule
                                     (l7policy_project_id p))))))
             (\<lambda>e. returnM ())
      else returnM ())"

section \<open>Reading a trace\<close>

text \<open>
  What the forward pass of \<^verbatim>\<open>DecrementPoolQuota\<close> is to do, written without the
  sessions: the three decrements applied in turn to the counters, the children only for a
  positive count; and the calls of a pass that goes through, on the session \<open>n\<close>.
\<close>

definition cascade_decrement ::
  "('s, 'q) env \<Rightarrow> val \<Rightarrow> pool_child_count \<Rightarrow> 'q \<Rightarrow> exn + 'q" where
  "cascade_decrement env project_id pcc q =
     (case decrement_quota_sem env Pool project_id 1 q of
        Inl e \<Rightarrow> Inl e
      | Inr q1 \<Rightarrow>
          (case (if HM pcc > 0 then decrement_quota_sem env HealthMonitor project_id 1 q1
                 else Inr q1) of
             Inl e \<Rightarrow> Inl e
           | Inr q2 \<Rightarrow>
               (if member pcc > 0
                then decrement_quota_sem env Member project_id (member pcc) q2
                else Inr q2)))"

definition pool_decrement_calls :: "nat \<Rightarrow> val \<Rightarrow> pool_child_count \<Rightarrow> call list" where
  "pool_decrement_calls n project_id pcc =
     [GetSession False, DecrementQuota n Pool project_id 1]
     @ (if HM pcc > 0 then [DecrementQuota n HealthMonitor project_id 1] else [])
     @ (if member pcc > 0 then [DecrementQuota n Member project_id (member pcc)] else [])
     @ [Commit n]"

fun is_check_quota_met :: "call \<Rightarrow> bool" where
  "is_check_quota_met (CheckQuotaMet s l k p) = True"
| "is_check_quota_met c = False"

fun is_get_session :: "call \<Rightarrow> bool" where
  "is_get_session (GetSession a) = True"
| "is_get_session c = False"

fun is_commit :: "call \<Rightarrow> bool" where
  "is_commit (Commit s) = True"
| "is_commit c = False"


text \<open>The sessions that a trace ends, by commit or by rollback, in order.\<close>

fun ended_sessions :: "call list \<Rightarrow> nat list" where
  "ended_sessions [] = []"
| "ended_sessions (Commit s # cs) = s # ended_sessions cs"
| "ended_sessions (Rollback s # cs) = s # ended_sessions cs"
| "ended_sessions (c # cs) = ended_sessions cs"

text \<open>The columns that the updates of a trace write.\<close>

fun written_columns :: "call list \<Rightarrow> string list" where
  "written_columns [] = []"
| "written_columns (Update r i kwargs # cs) = map fst kwargs @ written_columns cs"
| "written_columns (c # cs) = written_columns cs"

text \<open>
  The status walk of \<^verbatim>\<open>MarkLBActiveInDB\<close> written as the list of its updates,
  depth first as the helpers go: a pool, its health monitor, its members; an L7 policy, its
  rules, its redirect pool; a listener, its L7 policies, its default pool; the listeners of
  the load balancer in order.
\<close>

definition pool_walk :: "db_pool \<Rightarrow> val \<Rightarrow> call list" where
  "pool_walk pool status =
     Update pool_repo (pool_id pool) [(''provisioning_status'', status)]
     # (case health_monitor pool of
          Some hm \<Rightarrow> [Update health_mon_repo (health_monitor_id hm)
                        [(''provisioning_status'', status)]]
        | None \<Rightarrow> [])
     @ map (\<lambda>member'. Update member_repo (member_id member')
                         [(''provisioning_status'', status)]) (members pool)"

definition l7policy_walk :: "db_l7policy \<Rightarrow> val \<Rightarrow> call list" where
  "l7policy_walk l7policy status =
     Update l7policy_repo (l7policy_id l7policy) [(''provisioning_status'', status)]
     # map (\<lambda>l7rule. Update l7rule_repo (l7rule_id l7rule)
                        [(''provisioning_status'', status)]) (l7rules l7policy)
     @ (case redirect_pool l7policy of
          Some pool \<Rightarrow> pool_walk pool status
        | None \<Rightarrow> [])"

definition listener_walk :: "db_listener \<Rightarrow> val \<Rightarrow> call list" where
  "listener_walk listener status =
     Update listener_repo (listener_id listener) [(''provisioning_status'', status)]
     # concat (map (\<lambda>l7policy. l7policy_walk l7policy status) (l7policies listener))
     @ (case default_pool listener of
          Some pool \<Rightarrow> pool_walk pool status
        | None \<Rightarrow> [])"

definition lb_walk :: "db_loadbalancer \<Rightarrow> val \<Rightarrow> call list" where
  "lb_walk db_lb status = concat (map (\<lambda>listener. listener_walk listener status) (listeners db_lb))"

text \<open>
  A row write (an update or a delete) as a task, and a list of them made one after the
  other: the first that raises ends the list and its exception is the one of the list. The
  walks above hold updates only; a call that writes no row is no step of such a list.
\<close>

fun perform :: "('s, 'q) env \<Rightarrow> call \<Rightarrow> ('s, 'q, unit) task" where
  "perform env (Update r i kwargs) = repo_update env r i kwargs"
| "perform env (Delete r i) = repo_delete env r i"
| "perform env c = returnM ()"

definition perform_all :: "('s, 'q) env \<Rightarrow> call list \<Rightarrow> ('s, 'q, unit) task" where
  "perform_all env cs = for_each cs (perform env)"

text \<open>
  What one re-increment attempt of a quota revert comes to, written without the monad, when
  opening the session and rolling back do not raise. The attempt starts when \<open>n\<close>
  calls have been made, so its lock session is \<open>n\<close>; \<open>s\<close> is the
  autocommit session and \<open>q\<close> the committed counters. The result is the calls of
  the attempt and the committed counters after it: the check on the lock session, then the
  commit when the check went through, which installs the counters of the check; a rollback
  when the check raised, and a rollback after a commit that raised, with the counters as
  before. \<open>reincrement_calls\<close> is a row of attempts, one per kind listed, each
  starting where the one before stopped.
\<close>

definition check_and_commit_calls ::
  "('s, 'q) env \<Rightarrow> nat \<Rightarrow> kind \<Rightarrow> val \<Rightarrow> nat \<Rightarrow> 'q \<Rightarrow> call list \<times> 'q" where
  "check_and_commit_calls env s k project_id n q =
     (case attempt env (n + 1) (CheckQuotaMet s n k project_id)
             (check_quota_met_sem env k project_id) q of
        Inl e \<Rightarrow>
          ([GetSession False, CheckQuotaMet s n k project_id, Rollback n], q)
      | Inr q' \<Rightarrow>
          (case faults env (n + 2) (Commit n) of
             None \<Rightarrow> ([GetSession False, CheckQuotaMet s n k project_id, Commit n], q')
           | Some e \<Rightarrow>
               ([GetSession False, CheckQuotaMet s n k project_id, Commit n, Rollback n], q)))"

fun reincrement_calls ::
  "('s, 'q) env \<Rightarrow> nat \<Rightarrow> val \<Rightarrow> kind list \<Rightarrow> nat \<Rightarrow> 'q \<Rightarrow> call list \<times> 'q" where
  "reincrement_calls env s project_id [] n q = ([], q)"
| "reincrement_calls env s project_id (k # ks) n q =
     (let (cs, q1) = check_and_commit_calls env s k project_id n q;
          (cs', q2) = reincrement_calls env s project_id ks (n + length cs) q1
      in (cs @ cs', q2))"

text \<open>
  What a forward decrement raises from its handler when the body of the \<^verbatim>\<open>try\<close>
  raised \<open>e\<close> and the rollback of the session \<open>s\<close> is the call number
  \<open>n\<close>: \<open>e\<close>, or what the rollback raises.
\<close>

definition raised_after_rollback :: "('s, 'q) env \<Rightarrow> nat \<Rightarrow> nat \<Rightarrow> exn \<Rightarrow> exn" where
  "raised_after_rollback env n s e =
     (case faults env n (Rollback s) of None \<Rightarrow> e | Some e' \<Rightarrow> e')"

section \<open>A reference persistence layer\<close>

text \<open>
  Modelled from the spec: the repositories (\<^verbatim>\<open>octavia.db.repositories\<close>) are not in
  the file under verification. The spec (6) asks for per-entity
  \<^verbatim>\<open>get(id)\<close>, \<^verbatim>\<open>update(id, field_map)\<close>, \<^verbatim>\<open>delete(id)\<close> and
  the quota primitives \<^verbatim>\<open>decrement\<close> and \<^verbatim>\<open>check_quota_met\<close>
  (which re-validates and increments); a decrement below zero must fail (8). This
  in-memory layer instantiates the parameter for concrete runs: a table per repository,
  from id to row, a row from column to value; the related objects that a loaded load
  balancer or pool carries are kept beside the tables.
\<close>

record ref_store =
  rows :: "repo \<Rightarrow> val \<Rightarrow> (string \<Rightarrow> val option) option"
  lb_objects :: "val \<Rightarrow> db_loadbalancer option"
  pool_objects :: "val \<Rightarrow> db_pool option"

type_synonym ref_quota = "kind \<Rightarrow> val \<Rightarrow> int"

definition set_row :: "repo \<Rightarrow> val \<Rightarrow> (string \<Rightarrow> val option) option \<Rightarrow> ref_store \<Rightarrow> ref_store" where
  "set_row r i row s = s\<lparr>rows := (rows s)(r := (rows s r)(i := row))\<rparr>"

definition ref_update :: "repo \<Rightarrow> val \<Rightarrow> (string \<times> val) list \<Rightarrow> ref_store \<Rightarrow> exn + ref_store" where
  "ref_update r i kwargs s =
     (case rows s r i of
        None \<Rightarrow> Inr s
      | Some row \<Rightarrow> Inr (set_row r i (Some (row ++ map_of kwargs)) s))"

definition ref_delete :: "repo \<Rightarrow> val \<Rightarrow> ref_store \<Rightarrow> exn + ref_store" where
  "ref_delete r i s =
     (case rows s r i of
        None \<Rightarrow> Inl NoResultFound
      | Some row \<Rightarrow> Inr (set_row r i None s))"

text \<open>
  Modelled from the spec: \<^verbatim>\<open>ListenerRepository.prov_status_active_if_not_error\<close>
  is not in the file under verification; as its name says, it sets the provisioning status
  of the listener to \<^verbatim>\<open>ACTIVE\<close> unless the listener is in \<^verbatim>\<open>ERROR\<close>.
\<close>

definition ref_active_if_not_error :: "val \<Rightarrow> ref_store \<Rightarrow> exn + ref_store" where
  "ref_active_if_not_error i s =
     (case rows s listener_repo i of
        None \<Rightarrow> Inr s
      | Some row \<Rightarrow>
          if row ''provisioning_status'' = Some ERROR then Inr s
          else Inr (set_row listener_repo i (Some (row(''provisioning_status'' \<mapsto> ACTIVE))) s))"

definition ref_enabled :: "repo \<Rightarrow> val \<Rightarrow> ref_store \<Rightarrow> bool option" where
  "ref_enabled r i s =
     (case rows s r i of
        None \<Rightarrow> None
      | Some row \<Rightarrow> Some (row ''enabled'' = Some (VBool True)))"

definition ref_decrement :: "kind \<Rightarrow> val \<Rightarrow> int \<Rightarrow> ref_quota \<Rightarrow> exn + ref_quota" where
  "ref_decrement k p n q =
     (if q k p < n then Inl (OtherException ''quota would go negative'')
      else Inr (q(k := (q k)(p := q k p - n))))"

definition ref_check_quota_met :: "kind \<Rightarrow> val \<Rightarrow> ref_quota \<Rightarrow> exn + ref_quota" where
  "ref_check_quota_met k p q = Inr (q(k := (q k)(p := q k p + 1)))"

definition ref_env :: "(nat \<Rightarrow> call \<Rightarrow> exn option) \<Rightarrow> (ref_store, ref_quota) env" where
  "ref_env f =
     \<lparr>faults = f,
      update_row = ref_update,
      delete_row = ref_delete,
      active_if_not_error = ref_active_if_not_error,
      get_health_mon = (\<lambda>i s. Inr (map_option
          (\<lambda>b. \<lparr>health_monitor_id = i, hm_enabled = b\<rparr>) (ref_enabled health_mon_repo i s))),
      get_l7policy = (\<lambda>i s. Inr (map_option
          (\<lambda>b. \<lparr>l7policy_id = i, l7policy_project_id = VNone, l7policy_enabled = b,
                l7rules = [], redirect_pool = None\<rparr>)
          (ref_enabled l7policy_repo i s))),
      get_l7rule = (\<lambda>i s. Inr (map_option
          (\<lambda>b. \<lparr>l7rule_id = i, l7rule_enabled = b\<rparr>) (ref_enabled l7rule_repo i s))),
      get_pool = (\<lambda>i s. Inr (pool_objects s i)),
      get_loadbalancer = (\<lambda>i s. Inr (lb_objects s i)),
      decrement_quota_sem = ref_decrement,
      check_quota_met_sem = ref_check_quota_met\<rparr>"

definition no_faults :: "nat \<Rightarrow> call \<Rightarrow> exn option" where
  "no_faults n c = None"

text \<open>An empty database with every counter at zero, before any call.\<close>

definition empty_world :: "(ref_store, ref_quota) world" where
  "empty_world =
     \<lparr>store = \<lparr>rows = (\<lambda>r i. None), lb_objects = (\<lambda>i. None), pool_objects = (\<lambda>i. None)\<rparr>,
      quota = (\<lambda>k p. 0),
      trace = []\<rparr>"

definition provider_dict_of :: "val \<Rightarrow> provider_dict" where
  "provider_dict_of i =
     \<lparr>ID = i, HEALTHMONITOR_ID = i, MEMBER_ID = i, L7POLICY_ID = i, L7RULE_ID = i,
      LISTENER_ID = i, LOADBALANCER_ID = i, COMPUTE_ID = VNone, PROJECT_ID = VNone\<rparr>"

section \<open>Tasks only add to the trace\<close>

text \<open>A task extends the trace when every run of it leaves the calls made before in place.\<close>

definition extends_trace :: "('s, 'q, 'a) task \<Rightarrow> bool" where
  "extends_trace m = (\<forall>w. \<exists>t. trace (snd (m w)) = trace w @ t)"

section \<open>Concrete scenarios\<close>

text \<open>A database holding one health monitor that is being deleted.\<close>

definition hm_world :: "(ref_store, ref_quota) world" where
  "hm_world = empty_world\<lparr>store := set_row health_mon_repo (VStr ''hm1'')
       (Some [''provisioning_status'' \<mapsto> PENDING_DELETE]) (store empty_world)\<rparr>"

text \<open>A persistence layer in which every call raises.\<close>

definition db_down :: "nat \<Rightarrow> call \<Rightarrow> exn option" where
  "db_down n c = Some (OtherException ''database is down'')"

text \<open>A persistence layer in which every quota decrement raises.\<close>

definition quota_outage :: "nat \<Rightarrow> call \<Rightarrow> exn option" where
  "quota_outage n c =
     (case c of DecrementQuota s k p q \<Rightarrow> Some (OtherException ''deadlock'') | _ \<Rightarrow> None)"

text \<open>A project with five of every resource in use.\<close>

definition pool_world :: "(ref_store, ref_quota) world" where
  "pool_world = empty_world\<lparr>quota := (\<lambda>k p. 5)\<rparr>"

text \<open>
  A load balancer with two listeners, the first with a default pool of one member, and a
  persistence layer in which every update of the first listener raises.
\<close>

definition lb1_tree :: db_loadbalancer where
  "lb1_tree =
     \<lparr>loadbalancer_id = VStr ''lb1'',
      listeners =
        [\<lparr>listener_id = VStr ''listener1'', l7policies = [],
          default_pool = Some \<lparr>pool_id = VStr ''pool1'', health_monitor = None,
                               members = [\<lparr>member_id = VStr ''member1''\<rparr>]\<rparr>\<rparr>,
         \<lparr>listener_id = VStr ''listener2'', l7policies = [], default_pool = None\<rparr>]\<rparr>"

definition lb_world :: "(ref_store, ref_quota) world" where
  "lb_world = empty_world\<lparr>store := (store empty_world)
       \<lparr>lb_objects := (\<lambda>i. if i = VStr ''lb1'' then Some lb1_tree else None)\<rparr>\<rparr>"

definition listener1_fails :: "nat \<Rightarrow> call \<Rightarrow> exn option" where
  "listener1_fails n c =
     (case c of
        Update r i kwargs \<Rightarrow>
          if r = listener_repo \<and> i = VStr ''listener1''
          then Some (OtherException ''update failed'') else None
      | _ \<Rightarrow> None)"


text \<open>A persistence layer in which every update of the member under the first listener raises.\<close>

definition member1_fails :: "nat \<Rightarrow> call \<Rightarrow> exn option" where
  "member1_fails n c =
     (case c of
        Update r i kwargs \<Rightarrow>
          if r = member_repo \<and> i = VStr ''member1''
          then Some (OtherException ''update failed'') else None
      | _ \<Rightarrow> None)"

text \<open>
  A persistence layer in which every decrement of the member counter raises, and one in
  which every decrement raises and every rollback raises as well.
\<close>

definition member_quota_outage :: "nat \<Rightarrow> call \<Rightarrow> exn option" where
  "member_quota_outage n c =
     (case c of
        DecrementQuota s k p q \<Rightarrow> if k = Member then Some (OtherException ''deadlock'') else None
      | _ \<Rightarrow> None)"

definition outage_and_lost_connection :: "nat \<Rightarrow> call \<Rightarrow> exn option" where
  "outage_and_lost_connection n c =
     (case c of
        DecrementQuota s k p q \<Rightarrow> Some (OtherException ''deadlock'')
      | Rollback s \<Rightarrow> Some (OtherException ''connection lost'')
      | _ \<Rightarrow> None)"

text \<open>A persistence layer in which the fifth call made raises, whatever it is.\<close>

definition fifth_call_fails :: "nat \<Rightarrow> call \<Rightarrow> exn option" where
  "fifth_call_fails n c = (if n = 4 then Some (OtherException ''connection lost'') else None)"

section \<open>Unfolding the model\<close>

lemmas monad_defs = returnM_def raiseM_def bindM_def seqM_def try_except_def

lemmas call_defs = write_call_def read_call_def repo_update_def repo_delete_def
  calls_since_def

lemmas ref_defs = ref_env_def no_faults_def attempt_def provider_dict_of_def empty_world_def
  set_row_def ref_update_def ref_delete_def Let_def

lemma write_call_simps:
  "trace (snd (write_call env c sem w)) = trace w @ [c]"
  "quota (snd (write_call env c sem w)) = quota w"
  "fst (write_call env c sem w) =
     (case attempt env (length (trace w)) c sem (store w) of Inl e \<Rightarrow> Inl e | Inr s' \<Rightarrow> Inr ())"
  "store (snd (write_call env c sem w)) =
     (case attempt env (length (trace w)) c sem (store w) of Inl e \<Rightarrow> store w | Inr s' \<Rightarrow> s')"
  by (simp_all add: write_call_def Let_def split: sum.split)

lemma read_call_eq:
  "read_call env c sem w =
     (attempt env (length (trace w)) c sem (store w), w\<lparr>trace := trace w @ [c]\<rparr>)"
  by (simp add: read_call_def Let_def split: sum.split)

lemma write_call_fails:
  "attempt env (length (trace w)) c sem (store w) = Inl e \<Longrightarrow>
   write_call env c sem w = (Inl e, w\<lparr>trace := trace w @ [c]\<rparr>)"
  by (simp add: write_call_def Let_def)

lemma get_session_eq:
  "get_session env a w =
     (attempt env (length (trace w)) (GetSession a) Inr
        \<lparr>sid = length (trace w), pending = quota w\<rparr>,
      w\<lparr>trace := trace w @ [GetSession a]\<rparr>)"
  by (simp add: get_session_def Let_def split: sum.split)

lemma rollback_eq:
  "rollback env ls w =
     (attempt env (length (trace w)) (Rollback (sid ls)) Inr (),
      w\<lparr>trace := trace w @ [Rollback (sid ls)]\<rparr>)"
  by (simp add: rollback_def Let_def split: sum.split)

lemma decrement_quota_eq:
  "decrement_quota env ls k p n w =
     (map_sum id (\<lambda>q'. ls\<lparr>pending := q'\<rparr>)
        (attempt env (length (trace w)) (DecrementQuota (sid ls) k p n)
           (decrement_quota_sem env k p n) (pending ls)),
      w\<lparr>trace := trace w @ [DecrementQuota (sid ls) k p n]\<rparr>)"
  by (simp add: decrement_quota_def Let_def split: sum.split)

lemma check_quota_met_eq:
  "check_quota_met env s ls k p w =
     (map_sum id (\<lambda>q'. ls\<lparr>pending := q'\<rparr>)
        (attempt env (length (trace w)) (CheckQuotaMet (sid s) (sid ls) k p)
           (check_quota_met_sem env k p) (pending ls)),
      w\<lparr>trace := trace w @ [CheckQuotaMet (sid s) (sid ls) k p]\<rparr>)"
  by (simp add: check_quota_met_def Let_def split: sum.split)

lemma commit_eq:
  "commit env ls w =
     (case attempt env (length (trace w)) (Commit (sid ls)) Inr (pending ls) of
        Inl e \<Rightarrow> (Inl e, w\<lparr>trace := trace w @ [Commit (sid ls)]\<rparr>)
      | Inr q' \<Rightarrow> (Inr (), w\<lparr>trace := trace w @ [Commit (sid ls)], quota := q'\<rparr>))"
  by (simp add: commit_def Let_def split: sum.split)

lemma attempt_Inr:
  "attempt env n c Inr x = (case faults env n c of Some e \<Rightarrow> Inl e | None \<Rightarrow> Inr x)"
  by (simp add: attempt_def)

lemma attempt_Inr_sem:
  "(attempt env n c sem x = Inr y) = (faults env n c = None \<and> sem x = Inr y)"
  by (simp add: attempt_def split: option.split)

lemma get_session_spec:
  assumes "get_session env a w = (r, w')"
  shows "store w' = store w" "quota w' = quota w" "trace w' = trace w @ [GetSession a]"
    "r = Inr s \<Longrightarrow> s = \<lparr>sid = length (trace w), pending = quota w\<rparr>"
  using assms by (auto simp: get_session_eq attempt_Inr_sem)

lemma opt_decrement_spec:
  assumes "(if c then decrement_quota env ls k p n else returnM ls) w = (r, w')"
  shows "store w' = store w" "quota w' = quota w"
    "trace w' = trace w @ (if c then [DecrementQuota (sid ls) k p n] else [])"
    "r = Inr ls' \<Longrightarrow> sid ls' = sid ls \<and>
       (if c then decrement_quota_sem env k p n (pending ls) else Inr (pending ls))
         = Inr (pending ls')"
  using assms
  by (auto simp: decrement_quota_eq returnM_def attempt_Inr_sem map_sum_def
      split: if_splits sum.splits)

lemma decrement_spec:
  assumes "decrement_quota env ls k p n w = (r, w')"
  shows "store w' = store w" "quota w' = quota w"
    "trace w' = trace w @ [DecrementQuota (sid ls) k p n]"
    "r = Inr ls' \<Longrightarrow> sid ls' = sid ls \<and>
       decrement_quota_sem env k p n (pending ls) = Inr (pending ls')"
  using assms
  by (auto simp: decrement_quota_def Let_def attempt_Inr_sem split: sum.splits)

lemma commit_spec:
  assumes "commit env ls w = (r, w')"
  shows "store w' = store w" "trace w' = trace w @ [Commit (sid ls)]"
    "isl r \<Longrightarrow> quota w' = quota w" "\<not> isl r \<Longrightarrow> quota w' = pending ls"
  using assms by (auto simp: commit_eq attempt_Inr split: sum.splits option.splits)

lemma reraise_rollback_spec:
  assumes "save_and_reraise_exception e (rollback env ls) w = (r, w')"
  shows "store w' = store w" "quota w' = quota w" "trace w' = trace w @ [Rollback (sid ls)]"
    "isl r"
  using assms
  by (auto simp: save_and_reraise_exception_def seqM_def bindM_def raiseM_def rollback_eq
      split: sum.splits)

lemma pool_world_simps:
  "trace pool_world = []" "quota pool_world = (\<lambda>k p. 5)"
  by (simp_all add: pool_world_def empty_world_def)

section \<open>Reverting a task whose own execute failed\<close>

text \<open>
  Claim C1, as amended.
  \<^item> The tasks whose revert tests its \<^verbatim>\<open>result\<close> for a
    \<^verbatim>\<open>Failure\<close> (amphora creation, the three amphora role tasks, amphora
    allocated and booting, and the seven quota decrements) return at once on a failure
    marker: no call is made on the persistence layer and the world, trace included, is the
    one before the call. So does \<^verbatim>\<open>DeleteListenerInDB.revert\<close>, which only
    logs.
  \<^item> The revert of \<^verbatim>\<open>DeleteHealthMonitorInDB\<close>,
    \<^verbatim>\<open>DeleteMemberInDB\<close>, \<^verbatim>\<open>DeletePoolInDB\<close>,
    \<^verbatim>\<open>DeleteL7PolicyInDB\<close> and \<^verbatim>\<open>DeleteL7RuleInDB\<close> never
    looks at the result: on a failure marker it is the task it is on any other result, and
    it makes one call, the update that sets \<^verbatim>\<open>provisioning_status\<close> of the
    row to \<^verbatim>\<open>ERROR\<close>.
\<close>

theorem revert_of_failed_execute_is_noop:
  "CreateAmphoraInDB_revert env Failure w = (Inr (), w)
 \<and> MarkAmphoraMasterInDB_revert env Failure amphora w = (Inr (), w)
 \<and> MarkAmphoraBackupInDB_revert env Failure amphora w = (Inr (), w)
 \<and> MarkAmphoraStandAloneInDB_revert env Failure amphora w = (Inr (), w)
 \<and> MarkAmphoraAllocatedInDB_revert env Failure amphora lb_id w = (Inr (), w)
 \<and> MarkAmphoraBootingInDB_revert env Failure amphora_id compute_id w = (Inr (), w)
 \<and> DecrementHealthMonitorQuota_revert env project_id Failure w = (Inr (), w)
 \<and> DecrementListenerQuota_revert env project_id Failure w = (Inr (), w)
 \<and> DecrementLoadBalancerQuota_revert env project_id Failure w = (Inr (), w)
 \<and> DecrementMemberQuota_revert env project_id Failure w = (Inr (), w)
 \<and> DecrementPoolQuota_revert env project_id pcc Failure w = (Inr (), w)
 \<and> DecrementL7policyQuota_revert env l7policy Failure w = (Inr (), w)
 \<and> DecrementL7ruleQuota_revert env l7rule Failure w = (Inr (), w)
 \<and> DeleteListenerInDB_revert env d Failure w = (Inr (), w)
 \<and> DeleteHealthMonitorInDB_revert env d Failure = DeleteHealthMonitorInDB_revert env d result
 \<and> calls_since w (snd (DeleteHealthMonitorInDB_revert env d Failure w)) =
      [Update health_mon_repo (HEALTHMONITOR_ID d) [(''provisioning_status'', ERROR)]]
 \<and> DeleteMemberInDB_revert env d Failure = DeleteMemberInDB_revert env d result
 \<and> calls_since w (snd (DeleteMemberInDB_revert env d Failure w)) =
      [Update member_repo (MEMBER_ID d) [(''provisioning_status'', ERROR)]]
 \<and> DeletePoolInDB_revert env pool_id' Failure = DeletePoolInDB_revert env pool_id' result
 \<and> calls_since w (snd (DeletePoolInDB_revert env pool_id' Failure w)) =
      [Update pool_repo pool_id' [(''provisioning_status'', ERROR)]]
 \<and> DeleteL7PolicyInDB_revert env d Failure = DeleteL7PolicyInDB_revert env d result
 \<and> calls_since w (snd (DeleteL7PolicyInDB_revert env d Failure w)) =
      [Update l7policy_repo (L7POLICY_ID d) [(''provisioning_status'', ERROR)]]
 \<and> DeleteL7RuleInDB_revert env d Failure = DeleteL7RuleInDB_revert env d result
 \<and> calls_since w (snd (DeleteL7RuleInDB_revert env d Failure w)) =
      [Update l7rule_repo (L7RULE_ID d) [(''provisioning_status'', ERROR)]]"
proof -
  have noop: "CreateAmphoraInDB_revert env Failure w = (Inr (), w)
 \<and> MarkAmphoraMasterInDB_revert env Failure amphora w = (Inr (), w)
 \<and> MarkAmphoraBackupInDB_revert env Failure amphora w = (Inr (), w)
 \<and> MarkAmphoraStandAloneInDB_revert env Failure amphora w = (Inr (), w)
 \<and> MarkAmphoraAllocatedInDB_revert env Failure amphora lb_id w = (Inr (), w)
 \<and> MarkAmphoraBootingInDB_revert env Failure amphora_id compute_id w = (Inr (), w)
 \<and> DecrementHealthMonitorQuota_revert env project_id Failure w = (Inr (), w)
 \<and> DecrementListenerQuota_revert env project_id Failure w = (Inr (), w)
 \<and> DecrementLoadBalancerQuota_revert env project_id Failure w = (Inr (), w)
 \<and> DecrementMemberQuota_revert env project_id Failure w = (Inr (), w)
 \<and> DecrementPoolQuota_revert env project_id pcc Failure w = (Inr (), w)
 \<and> DecrementL7policyQuota_revert env l7policy Failure w = (Inr (), w)
 \<and> DecrementL7ruleQuota_revert env l7rule Failure w = (Inr (), w)
 \<and> DeleteListenerInDB_revert env d Failure w = (Inr (), w)"
    by (simp add: CreateAmphoraInDB_revert_def DecrementL7policyQuota_revert_def
      DecrementL7ruleQuota_revert_def MarkAmphoraMasterInDB_revert_def
      MarkAmphoraBackupInDB_revert_def MarkAmphoraStandAloneInDB_revert_def
      MarkAmphoraRoleAndPriorityInDB_revert_def MarkAmphoraAllocatedInDB_revert_def
      MarkAmphoraBootingInDB_revert_def DecrementHealthMonitorQuota_revert_def
      DecrementListenerQuota_revert_def DecrementLoadBalancerQuota_revert_def
      DecrementMemberQuota_revert_def DecrementPoolQuota_revert_def reincrement_one_def
      DeleteListenerInDB_revert_def returnM_def)
  have same: "DeleteHealthMonitorInDB_revert env d Failure = DeleteHealthMonitorInDB_revert env d result"
    "DeleteMemberInDB_revert env d Failure = DeleteMemberInDB_revert env d result"
    "DeletePoolInDB_revert env pool_id' Failure = DeletePoolInDB_revert env pool_id' result"
    "DeleteL7PolicyInDB_revert env d Failure = DeleteL7PolicyInDB_revert env d result"
    "DeleteL7RuleInDB_revert env d Failure = DeleteL7RuleInDB_revert env d result"
    by (simp_all add: DeleteHealthMonitorInDB_revert_def DeleteMemberInDB_revert_def
        DeletePoolInDB_revert_def DeleteL7PolicyInDB_revert_def DeleteL7RuleInDB_revert_def)
  have guarded: "calls_since w (snd (try_except (repo_update env r i kw) (\<lambda>e. returnM ()) w))
      = [Update r i kw]" for r i kw
    by (simp add: try_except_def returnM_def repo_update_def write_call_def Let_def
        calls_since_def split: sum.split)
  have calls: "calls_since w (snd (DeleteHealthMonitorInDB_revert env d Failure w)) =
      [Update health_mon_repo (HEALTHMONITOR_ID d) [(''provisioning_status'', ERROR)]]"
    "calls_since w (snd (DeleteMemberInDB_revert env d Failure w)) =
      [Update member_repo (MEMBER_ID d) [(''provisioning_status'', ERROR)]]"
    "calls_since w (snd (DeletePoolInDB_revert env pool_id' Failure w)) =
      [Update pool_repo pool_id' [(''provisioning_status'', ERROR)]]"
    "calls_since w (snd (DeleteL7PolicyInDB_revert env d Failure w)) =
      [Update l7policy_repo (L7POLICY_ID d) [(''provisioning_status'', ERROR)]]"
    "calls_since w (snd (DeleteL7RuleInDB_revert env d Failure w)) =
      [Update l7rule_repo (L7RULE_ID d) [(''provisioning_status'', ERROR)]]"
    by (simp_all add: DeleteHealthMonitorInDB_revert_def DeleteMemberInDB_revert_def
        DeletePoolInDB_revert_def DeleteL7PolicyInDB_revert_def DeleteL7RuleInDB_revert_def
        guarded) (simp add: repo_update_def write_call_simps calls_since_def)
  from noop same calls show ?thesis by simp
qed

text \<open>
  The amended claim on the database that holds the health monitor: handed the failure
  marker, the revert of the pool quota task makes no call, and the revert of the health
  monitor delete task makes its update.
\<close>

theorem revert_of_failed_execute_is_noop_witness:
  "DecrementPoolQuota_revert (ref_env no_faults) (VStr ''project1'') \<lparr>HM = 1, member = 3\<rparr>
     Failure hm_world = (Inr (), hm_world)
 \<and> calls_since hm_world (snd (DeleteHealthMonitorInDB_revert (ref_env no_faults)
       (provider_dict_of (VStr ''hm1'')) Failure hm_world)) =
      [Update health_mon_repo (VStr ''hm1'') [(''provisioning_status'', ERROR)]]"
  using revert_of_failed_execute_is_noop
    [where env = "ref_env no_faults" and w = hm_world and project_id = "VStr ''project1''"
       and pcc = "\<lparr>HM = 1, member = 3\<rparr>" and d = "provider_dict_of (VStr ''hm1'')"]
  by (simp add: provider_dict_of_def)

text \<open>
  Claim C1 as stated fails. \<^verbatim>\<open>DeleteHealthMonitorInDB.revert\<close> never looks at the
  result: handed the failure marker, on a database whose health monitor is in
  \<^verbatim>\<open>PENDING_DELETE\<close>, it calls \<^verbatim>\<open>health_mon_repo.update\<close> and the row
  ends in \<^verbatim>\<open>ERROR\<close>.
\<close>

theorem revert_of_failed_execute_is_noop_counterexample:
  "trace hm_world = []
 \<and> trace (snd (DeleteHealthMonitorInDB_revert (ref_env no_faults)
                 (provider_dict_of (VStr ''hm1'')) Failure hm_world))
     = [Update health_mon_repo (VStr ''hm1'') [(''provisioning_status'', ERROR)]]
 \<and> rows (store hm_world) health_mon_repo (VStr ''hm1'')
     = Some [''provisioning_status'' \<mapsto> PENDING_DELETE]
 \<and> rows (store (snd (DeleteHealthMonitorInDB_revert (ref_env no_faults)
                 (provider_dict_of (VStr ''hm1'')) Failure hm_world)))
      health_mon_repo (VStr ''hm1'')
     = Some [''provisioning_status'' \<mapsto> ERROR]"
  by (simp add: DeleteHealthMonitorInDB_revert_def call_defs ref_defs hm_world_def)

section \<open>Amphora role and priority are cleared together\<close>

text \<open>
  Claim C8. Reverting \<^verbatim>\<open>MarkAmphoraMasterInDB\<close>, \<^verbatim>\<open>MarkAmphoraBackupInDB\<close>
  or \<^verbatim>\<open>MarkAmphoraStandAloneInDB\<close> with a result that is not a failure marker
  makes exactly one call, the update of the amphora that sets both
  \<^verbatim>\<open>role\<close> and \<^verbatim>\<open>vrrp_priority\<close> to \<^verbatim>\<open>None\<close>. The stored
  rows afterwards are those that this one update produced, or the rows before when the
  update raised: never one column without the other. The revert returns normally either
  way and the quota counters are untouched.
\<close>

theorem revert_clears_role_and_priority_together:
  assumes "result \<noteq> Failure"
    and "t \<in> {MarkAmphoraMasterInDB_revert, MarkAmphoraBackupInDB_revert,
               MarkAmphoraStandAloneInDB_revert}"
  shows "case t env result amphora w of (r, w') \<Rightarrow>
           r = Inr ()
         \<and> calls_since w w' =
             [Update amphora_repo (ID amphora) [(''role'', VNone), (''vrrp_priority'', VNone)]]
         \<and> store w' =
             (case attempt env (length (trace w))
                     (Update amphora_repo (ID amphora)
                        [(''role'', VNone), (''vrrp_priority'', VNone)])
                     (update_row env amphora_repo (ID amphora)
                        [(''role'', VNone), (''vrrp_priority'', VNone)])
                     (store w) of
                Inl e \<Rightarrow> store w
              | Inr s' \<Rightarrow> s')
         \<and> quota w' = quota w"
  using assms
  by (auto simp: MarkAmphoraMasterInDB_revert_def MarkAmphoraBackupInDB_revert_def
      MarkAmphoraStandAloneInDB_revert_def MarkAmphoraRoleAndPriorityInDB_revert_def
      monad_defs call_defs Let_def split: sum.splits)

theorem revert_clears_role_and_priority_together_witness:
  "Returned VNone \<noteq> Failure
 \<and> (case MarkAmphoraMasterInDB_revert (ref_env no_faults) (Returned VNone)
          (provider_dict_of (VStr ''amp1'')) empty_world of (r, w') \<Rightarrow>
           r = Inr ()
         \<and> calls_since empty_world w' =
             [Update amphora_repo (VStr ''amp1'')
                [(''role'', VNone), (''vrrp_priority'', VNone)]])"
  using revert_clears_role_and_priority_together
    [where result = "Returned VNone" and t = MarkAmphoraMasterInDB_revert
       and env = "ref_env no_faults"
       and amphora = "provider_dict_of (VStr ''amp1'')" and w = empty_world]
  by (simp add: provider_dict_of_def split: prod.splits)

section \<open>Operating status on the ACTIVE transition\<close>

lemma hm_active:
  assumes "attempt env (length (trace w)) (Get health_mon_repo (HEALTHMONITOR_ID d))
       (get_health_mon env (HEALTHMONITOR_ID d)) (store w) = Inr (Some hm)"
  shows "calls_since w (snd (MarkHealthMonitorActiveInDB_execute env d w)) =
        [Get health_mon_repo (HEALTHMONITOR_ID d),
         Update health_mon_repo (HEALTHMONITOR_ID d)
           [(''provisioning_status'', ACTIVE),
            (''operating_status'', if hm_enabled hm then ONLINE else OFFLINE)]]"
  using assms
  by (simp add: MarkHealthMonitorActiveInDB_execute_def bindM_def read_call_eq
      repo_update_def write_call_simps calls_since_def Let_def)

lemma l7policy_active:
  assumes "attempt env (length (trace w)) (Get l7policy_repo (L7POLICY_ID d))
       (get_l7policy env (L7POLICY_ID d)) (store w) = Inr (Some l7p)"
  shows "calls_since w (snd (MarkL7PolicyActiveInDB_execute env d w)) =
        [Get l7policy_repo (L7POLICY_ID d),
         Update l7policy_repo (L7POLICY_ID d)
           [(''provisioning_status'', ACTIVE),
            (''operating_status'', if l7policy_enabled l7p then ONLINE else OFFLINE)]]"
  using assms
  by (simp add: MarkL7PolicyActiveInDB_execute_def bindM_def read_call_eq
      repo_update_def write_call_simps calls_since_def Let_def)

lemma l7rule_active:
  assumes "attempt env (length (trace w)) (Get l7rule_repo (L7RULE_ID d))
       (get_l7rule env (L7RULE_ID d)) (store w) = Inr (Some l7r)"
  shows "calls_since w (snd (MarkL7RuleActiveInDB_execute env d w)) =
        [Get l7rule_repo (L7RULE_ID d),
         Update l7rule_repo (L7RULE_ID d)
           [(''provisioning_status'', ACTIVE),
            (''operating_status'', if l7rule_enabled l7r then ONLINE else OFFLINE)]]"
  using assms
  by (simp add: MarkL7RuleActiveInDB_execute_def bindM_def read_call_eq
      repo_update_def write_call_simps calls_since_def Let_def)

lemma member_pool_active:
  "calls_since w (snd (MarkMemberActiveInDB_execute env d w)) =
        [Update member_repo (MEMBER_ID d) [(''provisioning_status'', ACTIVE)]]"
  "calls_since w (snd (MarkPoolActiveInDB_execute env pool_id' w)) =
        [Update pool_repo pool_id' [(''provisioning_status'', ACTIVE)]]"
  by (simp_all add: MarkMemberActiveInDB_execute_def MarkPoolActiveInDB_execute_def
      repo_update_def write_call_simps calls_since_def)

text \<open>
  Claim C5, as amended. For a health monitor, an L7 policy and an L7 rule, the mark-ACTIVE
  task reads the stored row and, when the read gives a row, makes one update that sets
  \<^verbatim>\<open>provisioning_status\<close> to \<^verbatim>\<open>ACTIVE\<close> and
  \<^verbatim>\<open>operating_status\<close> to \<^verbatim>\<open>ONLINE\<close> when the row is enabled and to
  \<^verbatim>\<open>OFFLINE\<close> otherwise; nothing of the caller's input but the id enters the
  update. For a member and a pool the task makes one update that sets
  \<^verbatim>\<open>provisioning_status\<close> alone.
\<close>

theorem mark_active_derives_operating_status:
  "(attempt env (length (trace w)) (Get health_mon_repo (HEALTHMONITOR_ID d))
       (get_health_mon env (HEALTHMONITOR_ID d)) (store w) = Inr (Some hm) \<longrightarrow>
      calls_since w (snd (MarkHealthMonitorActiveInDB_execute env d w)) =
        [Get health_mon_repo (HEALTHMONITOR_ID d),
         Update health_mon_repo (HEALTHMONITOR_ID d)
           [(''provisioning_status'', ACTIVE),
            (''operating_status'', if hm_enabled hm then ONLINE else OFFLINE)]])
 \<and> (attempt env (length (trace w)) (Get l7policy_repo (L7POLICY_ID d))
       (get_l7policy env (L7POLICY_ID d)) (store w) = Inr (Some l7p) \<longrightarrow>
      calls_since w (snd (MarkL7PolicyActiveInDB_execute env d w)) =
        [Get l7policy_repo (L7POLICY_ID d),
         Update l7policy_repo (L7POLICY_ID d)
           [(''provisioning_status'', ACTIVE),
            (''operating_status'', if l7policy_enabled l7p then ONLINE else OFFLINE)]])
 \<and> (attempt env (length (trace w)) (Get l7rule_repo (L7RULE_ID d))
       (get_l7rule env (L7RULE_ID d)) (store w) = Inr (Some l7r) \<longrightarrow>
      calls_since w (snd (MarkL7RuleActiveInDB_execute env d w)) =
        [Get l7rule_repo (L7RULE_ID d),
         Update l7rule_repo (L7RULE_ID d)
           [(''provisioning_status'', ACTIVE),
            (''operating_status'', if l7rule_enabled l7r then ONLINE else OFFLINE)]])
 \<and> calls_since w (snd (MarkMemberActiveInDB_execute env d w)) =
        [Update member_repo (MEMBER_ID d) [(''provisioning_status'', ACTIVE)]]
 \<and> calls_since w (snd (MarkPoolActiveInDB_execute env pool_id' w)) =
        [Update pool_repo pool_id' [(''provisioning_status'', ACTIVE)]]"
  using hm_active l7policy_active l7rule_active member_pool_active by blast

theorem mark_active_derives_operating_status_witness:
  "attempt (ref_env no_faults) (length (trace hm_world)) (Get health_mon_repo (VStr ''hm1''))
       (get_health_mon (ref_env no_faults) (VStr ''hm1'')) (store hm_world)
     = Inr (Some \<lparr>health_monitor_id = VStr ''hm1'', hm_enabled = False\<rparr>)
  \<and> calls_since hm_world (snd (MarkHealthMonitorActiveInDB_execute (ref_env no_faults)
        (provider_dict_of (VStr ''hm1'')) hm_world)) =
        [Get health_mon_repo (VStr ''hm1''),
         Update health_mon_repo (VStr ''hm1'')
           [(''provisioning_status'', ACTIVE), (''operating_status'', OFFLINE)]]"
proof -
  have h: "attempt (ref_env no_faults) (length (trace hm_world))
       (Get health_mon_repo (HEALTHMONITOR_ID (provider_dict_of (VStr ''hm1''))))
       (get_health_mon (ref_env no_faults) (HEALTHMONITOR_ID (provider_dict_of (VStr ''hm1''))))
       (store hm_world)
     = Inr (Some \<lparr>health_monitor_id = VStr ''hm1'', hm_enabled = False\<rparr>)"
    by (simp add: ref_defs hm_world_def ref_enabled_def)
  from mark_active_derives_operating_status [where env = "ref_env no_faults" and w = hm_world
      and d = "provider_dict_of (VStr ''hm1'')"
      and hm = "\<lparr>health_monitor_id = VStr ''hm1'', hm_enabled = False\<rparr>",
      THEN conjunct1, THEN mp, OF h] h
  show ?thesis by (simp add: provider_dict_of_def)
qed

text \<open>
  Claim C5 as stated fails for the member: \<^verbatim>\<open>MarkMemberActiveInDB.execute\<close>
  makes one update, and the only column it writes is \<^verbatim>\<open>provisioning_status\<close>.
\<close>

theorem mark_active_derives_operating_status_counterexample:
  "calls_since empty_world (snd (MarkMemberActiveInDB_execute (ref_env no_faults)
        (provider_dict_of (VStr ''member1'')) empty_world))
     = [Update member_repo (VStr ''member1'') [(''provisioning_status'', ACTIVE)]]
 \<and> written_columns (calls_since empty_world (snd (MarkMemberActiveInDB_execute
        (ref_env no_faults) (provider_dict_of (VStr ''member1'')) empty_world)))
     = [''provisioning_status'']"
  by (simp add: MarkMemberActiveInDB_execute_def repo_update_def write_call_simps
      calls_since_def provider_dict_of_def empty_world_def)

section \<open>A missing row on delete\<close>

lemma delete_hm_not_found:
  assumes "attempt env (length (trace w)) (Delete health_mon_repo (HEALTHMONITOR_ID d))
       (delete_row env health_mon_repo (HEALTHMONITOR_ID d)) (store w) = Inl NoResultFound"
  shows "fst (DeleteHealthMonitorInDB_execute env d w) = Inr ()
    \<and> store (snd (DeleteHealthMonitorInDB_execute env d w)) = store w
    \<and> quota (snd (DeleteHealthMonitorInDB_execute env d w)) = quota w"
  using assms
  by (simp add: DeleteHealthMonitorInDB_execute_def try_except_def repo_delete_def
      write_call_fails returnM_def)

lemma disable_amp_health_not_found:
  assumes "attempt env (length (trace w)) (Delete amp_health_repo (ID d))
       (delete_row env amp_health_repo (ID d)) (store w)
         \<in> {Inl NoResultFound, Inl UnmappedInstanceError}"
  shows "fst (DisableAmphoraHealthMonitoring_execute env d w) = Inr ()
    \<and> store (snd (DisableAmphoraHealthMonitoring_execute env d w)) = store w
    \<and> quota (snd (DisableAmphoraHealthMonitoring_execute env d w)) = quota w"
  using assms
  by (auto simp: DisableAmphoraHealthMonitoring_execute_def delete_from_amp_health_def
      try_except_def repo_delete_def write_call_fails returnM_def)

lemma other_deletes_raise:
  assumes "attempt env (length (trace w)) (Delete r i) (delete_row env r i) (store w) = Inl e"
  shows "fst (repo_delete env r i w) = Inl e \<and> store (snd (repo_delete env r i w)) = store w"
  using assms by (simp add: repo_delete_def write_call_fails)

text \<open>
  Claim C6, as amended. When the delete of the health monitor raises
  \<^verbatim>\<open>NoResultFound\<close>, \<^verbatim>\<open>DeleteHealthMonitorInDB.execute\<close> returns
  normally and the rows and counters are as before; so does
  \<^verbatim>\<open>DisableAmphoraHealthMonitoring.execute\<close> when the delete of the amphora
  health record raises \<^verbatim>\<open>NoResultFound\<close> or
  \<^verbatim>\<open>UnmappedInstanceError\<close>. The execute of the member, pool, listener,
  L7 policy and L7 rule delete tasks raises whatever the delete raises.
\<close>

theorem not_found_on_delete_is_success:
  "(attempt env (length (trace w)) (Delete health_mon_repo (HEALTHMONITOR_ID d))
       (delete_row env health_mon_repo (HEALTHMONITOR_ID d)) (store w) = Inl NoResultFound \<longrightarrow>
      fst (DeleteHealthMonitorInDB_execute env d w) = Inr ()
    \<and> store (snd (DeleteHealthMonitorInDB_execute env d w)) = store w
    \<and> quota (snd (DeleteHealthMonitorInDB_execute env d w)) = quota w)
 \<and> (attempt env (length (trace w)) (Delete amp_health_repo (ID d))
       (delete_row env amp_health_repo (ID d)) (store w)
         \<in> {Inl NoResultFound, Inl UnmappedInstanceError} \<longrightarrow>
      fst (DisableAmphoraHealthMonitoring_execute env d w) = Inr ()
    \<and> store (snd (DisableAmphoraHealthMonitoring_execute env d w)) = store w
    \<and> quota (snd (DisableAmphoraHealthMonitoring_execute env d w)) = quota w)
 \<and> (attempt env (length (trace w)) (Delete member_repo (MEMBER_ID d))
       (delete_row env member_repo (MEMBER_ID d)) (store w) = Inl e \<longrightarrow>
      fst (DeleteMemberInDB_execute env d w) = Inl e)
 \<and> (attempt env (length (trace w)) (Delete pool_repo pool_id')
       (delete_row env pool_repo pool_id') (store w) = Inl e \<longrightarrow>
      fst (DeletePoolInDB_execute env pool_id' w) = Inl e)
 \<and> (attempt env (length (trace w)) (Delete listener_repo (LISTENER_ID d))
       (delete_row env listener_repo (LISTENER_ID d)) (store w) = Inl e \<longrightarrow>
      fst (DeleteListenerInDB_execute env d w) = Inl e)
 \<and> (attempt env (length (trace w)) (Delete l7policy_repo (L7POLICY_ID d))
       (delete_row env l7policy_repo (L7POLICY_ID d)) (store w) = Inl e \<longrightarrow>
      fst (DeleteL7PolicyInDB_execute env d w) = Inl e)
 \<and> (attempt env (length (trace w)) (Delete l7rule_repo (L7RULE_ID d))
       (delete_row env l7rule_repo (L7RULE_ID d)) (store w) = Inl e \<longrightarrow>
      fst (DeleteL7RuleInDB_execute env d w) = Inl e)"
  using delete_hm_not_found [of env w d] disable_amp_health_not_found [of env w d]
    other_deletes_raise [of env w _ _ e]
  unfolding DeleteMemberInDB_execute_def DeletePoolInDB_execute_def
    DeleteListenerInDB_execute_def DeleteL7PolicyInDB_execute_def DeleteL7RuleInDB_execute_def
  by blast

theorem not_found_on_delete_is_success_witness:
  "rows (store empty_world) amp_health_repo (VStr ''amp1'') = None
 \<and> fst (DisableAmphoraHealthMonitoring_execute (ref_env no_faults)
          (provider_dict_of (VStr ''amp1'')) empty_world) = Inr ()
 \<and> store (snd (DisableAmphoraHealthMonitoring_execute (ref_env no_faults)
          (provider_dict_of (VStr ''amp1'')) empty_world)) = store empty_world"
proof -
  have h: "attempt (ref_env no_faults) (length (trace empty_world))
       (Delete amp_health_repo (ID (provider_dict_of (VStr ''amp1''))))
       (delete_row (ref_env no_faults) amp_health_repo (ID (provider_dict_of (VStr ''amp1''))))
       (store empty_world) \<in> {Inl NoResultFound, Inl UnmappedInstanceError}"
    by (simp add: ref_defs)
  have r: "rows (store empty_world) amp_health_repo (VStr ''amp1'') = None"
    by (simp add: ref_defs)
  from not_found_on_delete_is_success [where env = "ref_env no_faults" and w = empty_world
      and d = "provider_dict_of (VStr ''amp1'')", THEN conjunct2, THEN conjunct1, THEN mp, OF h] r
  show ?thesis by simp
qed

text \<open>
  Claim C6 as stated fails for the member: on a database without the member, where the
  delete raises \<^verbatim>\<open>NoResultFound\<close>, \<^verbatim>\<open>DeleteMemberInDB.execute\<close>
  raises it to the caller.
\<close>

theorem not_found_on_delete_is_success_counterexample:
  "rows (store empty_world) member_repo (VStr ''member1'') = None
 \<and> fst (DeleteMemberInDB_execute (ref_env no_faults) (provider_dict_of (VStr ''member1''))
        empty_world) = Inl NoResultFound"
  by (simp add: DeleteMemberInDB_execute_def repo_delete_def write_call_simps ref_defs)

section \<open>A revert that raises\<close>

text \<open>
  Claim C2 at a failing input. With a persistence layer in which every call raises,
  \<^verbatim>\<open>DeleteHealthMonitorInDB.revert\<close> and
  \<^verbatim>\<open>DeleteHealthMonitorInDBByPool.revert\<close> raise to the caller, while their
  siblings \<^verbatim>\<open>DeleteMemberInDB.revert\<close> and \<^verbatim>\<open>DeletePoolInDB.revert\<close>,
  whose update is inside a \<^verbatim>\<open>try\<close>, return normally.
\<close>

theorem delete_health_monitor_revert_raises:
  "fst (DeleteHealthMonitorInDB_revert (ref_env db_down) (provider_dict_of (VStr ''hm1''))
         (Returned VNone) hm_world) = Inl (OtherException ''database is down'')
 \<and> fst (DeleteHealthMonitorInDBByPool_revert (ref_env db_down) (VStr ''pool1'')
         (Returned VNone) hm_world) = Inl (OtherException ''database is down'')
 \<and> fst (DeleteMemberInDB_revert (ref_env db_down) (provider_dict_of (VStr ''member1''))
         (Returned VNone) hm_world) = Inr ()
 \<and> fst (DeletePoolInDB_revert (ref_env db_down) (VStr ''pool1'')
         (Returned VNone) hm_world) = Inr ()"
  by (simp add: DeleteHealthMonitorInDB_revert_def DeleteHealthMonitorInDBByPool_revert_def
      DeleteMemberInDB_revert_def DeletePoolInDB_revert_def try_except_def bindM_def
      returnM_def repo_update_def write_call_def read_call_def Let_def attempt_def ref_env_def
      db_down_def)

section \<open>A forward decrement that fails\<close>

lemmas forward_defs = bindM_def seqM_def try_except_def raiseM_def returnM_def
  save_and_reraise_exception_def get_session_eq decrement_quota_eq rollback_eq read_call_eq
  attempt_Inr raised_after_rollback_def eval_nat_numeral

lemma one_fails:
  assumes opened: "faults env (length (trace w)) (GetSession False) = None"
    and fails: "attempt env (length (trace w) + 1)
                  (DecrementQuota (length (trace w)) k project_id 1)
                  (decrement_quota_sem env k project_id 1) (quota w) = Inl e"
  shows "decrement_one env k project_id w =
           (Inl (raised_after_rollback env (length (trace w) + 2) (length (trace w)) e),
            w\<lparr>trace := trace w @ [GetSession False,
                 DecrementQuota (length (trace w)) k project_id 1,
                 Rollback (length (trace w))]\<rparr>)"
  using assms
  by (simp add: decrement_one_def forward_defs split: option.split)

lemma pool_first_fails:
  assumes opened: "faults env (length (trace w)) (GetSession False) = None"
    and fails: "attempt env (length (trace w) + 1)
                  (DecrementQuota (length (trace w)) Pool project_id 1)
                  (decrement_quota_sem env Pool project_id 1) (quota w) = Inl e"
  shows "DecrementPoolQuota_execute env project_id pcc w =
           (Inl (raised_after_rollback env (length (trace w) + 2) (length (trace w)) e),
            w\<lparr>trace := trace w @ [GetSession False,
                 DecrementQuota (length (trace w)) Pool project_id 1,
                 Rollback (length (trace w))]\<rparr>)"
  using assms
  by (simp add: DecrementPoolQuota_execute_def forward_defs split: option.split)

lemma pool_hm_fails:
  assumes opened: "faults env (length (trace w)) (GetSession False) = None"
    and first: "attempt env (length (trace w) + 1)
                  (DecrementQuota (length (trace w)) Pool project_id 1)
                  (decrement_quota_sem env Pool project_id 1) (quota w) = Inr q1"
    and hm: "HM pcc > 0"
    and fails: "attempt env (length (trace w) + 2)
                  (DecrementQuota (length (trace w)) HealthMonitor project_id 1)
                  (decrement_quota_sem env HealthMonitor project_id 1) q1 = Inl e"
  shows "DecrementPoolQuota_execute env project_id pcc w =
           (Inl (raised_after_rollback env (length (trace w) + 3) (length (trace w)) e),
            w\<lparr>trace := trace w @ [GetSession False,
                 DecrementQuota (length (trace w)) Pool project_id 1,
                 DecrementQuota (length (trace w)) HealthMonitor project_id 1,
                 Rollback (length (trace w))]\<rparr>)"
  using assms
  by (simp add: DecrementPoolQuota_execute_def forward_defs split: option.split)

lemma pool_member_fails:
  assumes opened: "faults env (length (trace w)) (GetSession False) = None"
    and first: "attempt env (length (trace w) + 1)
                  (DecrementQuota (length (trace w)) Pool project_id 1)
                  (decrement_quota_sem env Pool project_id 1) (quota w) = Inr q1"
    and second: "(if HM pcc > 0
                  then attempt env (length (trace w) + 2)
                         (DecrementQuota (length (trace w)) HealthMonitor project_id 1)
                         (decrement_quota_sem env HealthMonitor project_id 1) q1
                  else Inr q1) = Inr q2"
    and mem: "member pcc > 0"
    and fails: "attempt env (length (trace w) + (if HM pcc > 0 then 3 else 2))
                  (DecrementQuota (length (trace w)) Member project_id (member pcc))
                  (decrement_quota_sem env Member project_id (member pcc)) q2 = Inl e"
  shows "DecrementPoolQuota_execute env project_id pcc w =
           (Inl (raised_after_rollback env (length (trace w) + (if HM pcc > 0 then 4 else 3))
                   (length (trace w)) e),
            w\<lparr>trace := trace w @ [GetSession False,
                 DecrementQuota (length (trace w)) Pool project_id 1]
               @ (if HM pcc > 0
                  then [DecrementQuota (length (trace w)) HealthMonitor project_id 1] else [])
               @ [DecrementQuota (length (trace w)) Member project_id (member pcc),
                  Rollback (length (trace w))]\<rparr>)"
proof (cases "HM pcc > 0")
  case True
  with assms show ?thesis
    by (simp add: DecrementPoolQuota_execute_def forward_defs split: option.split)
next
  case False
  with assms show ?thesis
    by (simp add: DecrementPoolQuota_execute_def forward_defs split: option.split)
qed

lemma l7policy_first_fails:
  assumes opened: "faults env (length (trace w)) (GetSession False) = None"
    and fails: "attempt env (length (trace w) + 1)
                  (DecrementQuota (length (trace w)) L7Policy (PROJECT_ID l7policy) 1)
                  (decrement_quota_sem env L7Policy (PROJECT_ID l7policy) 1) (quota w) = Inl e"
  shows "DecrementL7policyQuota_execute env l7policy w =
           (Inl (raised_after_rollback env (length (trace w) + 2) (length (trace w)) e),
            w\<lparr>trace := trace w @ [GetSession False,
                 DecrementQuota (length (trace w)) L7Policy (PROJECT_ID l7policy) 1,
                 Rollback (length (trace w))]\<rparr>)"
  using assms
  by (simp add: DecrementL7policyQuota_execute_def forward_defs split: option.split)

lemma l7policy_rules_fail:
  assumes opened: "faults env (length (trace w)) (GetSession False) = None"
    and first: "attempt env (length (trace w) + 1)
                  (DecrementQuota (length (trace w)) L7Policy (PROJECT_ID l7policy) 1)
                  (decrement_quota_sem env L7Policy (PROJECT_ID l7policy) 1) (quota w) = Inr q1"
    and got: "attempt env (length (trace w) + 2) (Get l7policy_repo (L7POLICY_ID l7policy))
                  (get_l7policy env (L7POLICY_ID l7policy)) (store w) = Inr (Some db_l7policy)"
    and rules: "l7rules db_l7policy \<noteq> []"
    and fails: "attempt env (length (trace w) + 3)
                  (DecrementQuota (length (trace w)) L7Rule (PROJECT_ID l7policy)
                     (int (length (l7rules db_l7policy))))
                  (decrement_quota_sem env L7Rule (PROJECT_ID l7policy)
                     (int (length (l7rules db_l7policy)))) q1 = Inl e"
  shows "DecrementL7policyQuota_execute env l7policy w =
           (Inl (raised_after_rollback env (length (trace w) + 4) (length (trace w)) e),
            w\<lparr>trace := trace w @ [GetSession False,
                 DecrementQuota (length (trace w)) L7Policy (PROJECT_ID l7policy) 1,
                 Get l7policy_repo (L7POLICY_ID l7policy),
                 DecrementQuota (length (trace w)) L7Rule (PROJECT_ID l7policy)
                   (int (length (l7rules db_l7policy))),
                 Rollback (length (trace w))]\<rparr>)"
  using assms
  by (simp add: DecrementL7policyQuota_execute_def forward_defs split: option.split)


text \<open>
  Claim C7, as amended. The lock session of a forward decrement has been opened, and a
  decrement made on it raises \<open>e\<close>. Whichever decrement that is
  \<^item> the one decrement of \<^verbatim>\<open>DecrementHealthMonitorQuota\<close>,
    \<^verbatim>\<open>DecrementListenerQuota\<close>, \<^verbatim>\<open>DecrementLoadBalancerQuota\<close>,
    \<^verbatim>\<open>DecrementMemberQuota\<close> and \<^verbatim>\<open>DecrementL7ruleQuota\<close>;
  \<^item> in \<^verbatim>\<open>DecrementPoolQuota\<close> the decrement of the pool counter, that of the
    health monitor counter after it, or that of the member counter after those;
  \<^item> in \<^verbatim>\<open>DecrementL7policyQuota\<close> the decrement of the policy counter, or that
    of the rule counter after the policy has been read,

  the next call is the rollback of that session and it is the last call: there is no
  commit, and the world that execute leaves is the world before with a longer trace, so the
  committed counters and the rows are as before. Execute raises: it raises \<open>e\<close>,
  unless the rollback raises in its turn, and then it raises what the rollback raised.
\<close>

theorem failed_decrement_rolls_back_and_reraises:
  assumes opened: "faults env (length (trace w)) (GetSession False) = None"
  shows "(\<forall>t k. (t, k) \<in> set
             [(DecrementHealthMonitorQuota_execute env project_id, HealthMonitor),
              (DecrementListenerQuota_execute env project_id, Listener),
              (DecrementLoadBalancerQuota_execute env project_id, LoadBalancer),
              (DecrementMemberQuota_execute env project_id, Member),
              (DecrementL7ruleQuota_execute env (l7rule\<lparr>PROJECT_ID := project_id\<rparr>), L7Rule)] \<longrightarrow>
            attempt env (length (trace w) + 1)
              (DecrementQuota (length (trace w)) k project_id 1)
              (decrement_quota_sem env k project_id 1) (quota w) = Inl e \<longrightarrow>
            t w =
              (Inl (raised_after_rollback env (length (trace w) + 2) (length (trace w)) e),
               w\<lparr>trace := trace w @ [GetSession False,
                    DecrementQuota (length (trace w)) k project_id 1,
                    Rollback (length (trace w))]\<rparr>))
       \<and> (attempt env (length (trace w) + 1)
              (DecrementQuota (length (trace w)) Pool project_id 1)
              (decrement_quota_sem env Pool project_id 1) (quota w) = Inl e \<longrightarrow>
            DecrementPoolQuota_execute env project_id pcc w =
              (Inl (raised_after_rollback env (length (trace w) + 2) (length (trace w)) e),
               w\<lparr>trace := trace w @ [GetSession False,
                    DecrementQuota (length (trace w)) Pool project_id 1,
                    Rollback (length (trace w))]\<rparr>))
       \<and> (attempt env (length (trace w) + 1)
              (DecrementQuota (length (trace w)) Pool project_id 1)
              (decrement_quota_sem env Pool project_id 1) (quota w) = Inr qa \<longrightarrow>
            HM pcc > 0 \<longrightarrow>
            attempt env (length (trace w) + 2)
              (DecrementQuota (length (trace w)) HealthMonitor project_id 1)
              (decrement_quota_sem env HealthMonitor project_id 1) qa = Inl e \<longrightarrow>
            DecrementPoolQuota_execute env project_id pcc w =
              (Inl (raised_after_rollback env (length (trace w) + 3) (length (trace w)) e),
               w\<lparr>trace := trace w @ [GetSession False,
                    DecrementQuota (length (trace w)) Pool project_id 1,
                    DecrementQuota (length (trace w)) HealthMonitor project_id 1,
                    Rollback (length (trace w))]\<rparr>))
       \<and> (attempt env (length (trace w) + 1)
              (DecrementQuota (length (trace w)) Pool project_id 1)
              (decrement_quota_sem env Pool project_id 1) (quota w) = Inr qa \<longrightarrow>
            (if HM pcc > 0
             then attempt env (length (trace w) + 2)
                    (DecrementQuota (length (trace w)) HealthMonitor project_id 1)
                    (decrement_quota_sem env HealthMonitor project_id 1) qa
             else Inr qa) = Inr qb \<longrightarrow>
            member pcc > 0 \<longrightarrow>
            attempt env (length (trace w) + (if HM pcc > 0 then 3 else 2))
              (DecrementQuota (length (trace w)) Member project_id (member pcc))
              (decrement_quota_sem env Member project_id (member pcc)) qb = Inl e \<longrightarrow>
            DecrementPoolQuota_execute env project_id pcc w =
              (Inl (raised_after_rollback env (length (trace w) + (if HM pcc > 0 then 4 else 3))
                      (length (trace w)) e),
               w\<lparr>trace := trace w @ [GetSession False,
                    DecrementQuota (length (trace w)) Pool project_id 1]
                  @ (if HM pcc > 0
                     then [DecrementQuota (length (trace w)) HealthMonitor project_id 1] else [])
                  @ [DecrementQuota (length (trace w)) Member project_id (member pcc),
                     Rollback (length (trace w))]\<rparr>))
       \<and> (attempt env (length (trace w) + 1)
              (DecrementQuota (length (trace w)) L7Policy (PROJECT_ID l7policy) 1)
              (decrement_quota_sem env L7Policy (PROJECT_ID l7policy) 1) (quota w) = Inl e \<longrightarrow>
            DecrementL7policyQuota_execute env l7policy w =
              (Inl (raised_after_rollback env (length (trace w) + 2) (length (trace w)) e),
               w\<lparr>trace := trace w @ [GetSession False,
                    DecrementQuota (length (trace w)) L7Policy (PROJECT_ID l7policy) 1,
                    Rollback (length (trace w))]\<rparr>))
       \<and> (attempt env (length (trace w) + 1)
              (DecrementQuota (length (trace w)) L7Policy (PROJECT_ID l7policy) 1)
              (decrement_quota_sem env L7Policy (PROJECT_ID l7policy) 1) (quota w) = Inr qa \<longrightarrow>
            attempt env (length (trace w) + 2) (Get l7policy_repo (L7POLICY_ID l7policy))
              (get_l7policy env (L7POLICY_ID l7policy)) (store w) = Inr (Some db_l7policy) \<longrightarrow>
            l7rules db_l7policy \<noteq> [] \<longrightarrow>
            attempt env (length (trace w) + 3)
              (DecrementQuota (length (trace w)) L7Rule (PROJECT_ID l7policy)
                 (int (length (l7rules db_l7policy))))
              (decrement_quota_sem env L7Rule (PROJECT_ID l7policy)
                 (int (length (l7rules db_l7policy)))) qa = Inl e \<longrightarrow>
            DecrementL7policyQuota_execute env l7policy w =
              (Inl (raised_after_rollback env (length (trace w) + 4) (length (trace w)) e),
               w\<lparr>trace := trace w @ [GetSession False,
                    DecrementQuota (length (trace w)) L7Policy (PROJECT_ID l7policy) 1,
                    Get l7policy_repo (L7POLICY_ID l7policy),
                    DecrementQuota (length (trace w)) L7Rule (PROJECT_ID l7policy)
                      (int (length (l7rules db_l7policy))),
                    Rollback (length (trace w))]\<rparr>))"
proof -
  have one: "\<forall>t k. (t, k) \<in> set
             [(DecrementHealthMonitorQuota_execute env project_id, HealthMonitor),
              (DecrementListenerQuota_execute env project_id, Listener),
              (DecrementLoadBalancerQuota_execute env project_id, LoadBalancer),
              (DecrementMemberQuota_execute env project_id, Member),
              (DecrementL7ruleQuota_execute env (l7rule\<lparr>PROJECT_ID := project_id\<rparr>), L7Rule)] \<longrightarrow>
            attempt env (length (trace w) + 1)
              (DecrementQuota (length (trace w)) k project_id 1)
              (decrement_quota_sem env k project_id 1) (quota w) = Inl e \<longrightarrow>
            t w =
              (Inl (raised_after_rollback env (length (trace w) + 2) (length (trace w)) e),
               w\<lparr>trace := trace w @ [GetSession False,
                    DecrementQuota (length (trace w)) k project_id 1,
                    Rollback (length (trace w))]\<rparr>)"
    using one_fails [OF opened, of _ project_id e]
    by (auto simp: DecrementHealthMonitorQuota_execute_def DecrementListenerQuota_execute_def
        DecrementLoadBalancerQuota_execute_def DecrementMemberQuota_execute_def
        DecrementL7ruleQuota_execute_def)
  from one pool_first_fails [OF opened, of project_id e pcc]
    pool_hm_fails [OF opened, of project_id qa pcc e]
    pool_member_fails [OF opened, of project_id qa pcc qb e]
    l7policy_first_fails [OF opened, of l7policy e]
    l7policy_rules_fail [OF opened, of l7policy qa db_l7policy e]
  show ?thesis by blast
qed

text \<open>
  The member decrement of the pool task fails on a project that has five of everything: the
  two decrements made before it on the session are given up with it.
\<close>

theorem failed_decrement_rolls_back_and_reraises_witness:
  "faults (ref_env member_quota_outage) (length (trace pool_world)) (GetSession False) = None
 \<and> attempt (ref_env member_quota_outage) 3
      (DecrementQuota 0 Member (VStr ''project1'') 3)
      (decrement_quota_sem (ref_env member_quota_outage) Member (VStr ''project1'') 3)
      ((\<lambda>k p. 5)(Pool := (\<lambda>p. 5)(VStr ''project1'' := 4),
                  HealthMonitor := (\<lambda>p. 5)(VStr ''project1'' := 4)))
     = Inl (OtherException ''deadlock'')
 \<and> DecrementPoolQuota_execute (ref_env member_quota_outage) (VStr ''project1'')
      \<lparr>HM = 1, member = 3\<rparr> pool_world =
     (Inl (OtherException ''deadlock''),
      pool_world\<lparr>trace := [GetSession False,
         DecrementQuota 0 Pool (VStr ''project1'') 1,
         DecrementQuota 0 HealthMonitor (VStr ''project1'') 1,
         DecrementQuota 0 Member (VStr ''project1'') 3,
         Rollback 0]\<rparr>)"
proof -
  let ?env = "ref_env member_quota_outage"
  let ?p = "VStr ''project1''"
  let ?q1 = "(\<lambda>k p. 5::int)(Pool := (\<lambda>p. 5)(?p := 4))"
  let ?q2 = "?q1(HealthMonitor := (\<lambda>p. 5)(?p := 4))"
  have o: "faults ?env (length (trace pool_world)) (GetSession False) = None"
    by (simp add: ref_env_def member_quota_outage_def)
  have a: "attempt ?env (length (trace pool_world) + 1)
              (DecrementQuota (length (trace pool_world)) Pool ?p 1)
              (decrement_quota_sem ?env Pool ?p 1) (quota pool_world) = Inr ?q1"
    by (simp add: attempt_def ref_env_def member_quota_outage_def ref_decrement_def
        pool_world_simps fun_eq_iff)
  have b: "(if HM \<lparr>HM = 1, member = 3\<rparr> > 0
             then attempt ?env (length (trace pool_world) + 2)
                    (DecrementQuota (length (trace pool_world)) HealthMonitor ?p 1)
                    (decrement_quota_sem ?env HealthMonitor ?p 1) ?q1
             else Inr ?q1) = Inr ?q2"
    by (simp add: attempt_def ref_env_def member_quota_outage_def ref_decrement_def
        pool_world_simps fun_eq_iff)
  have c: "member \<lparr>HM = 1, member = 3\<rparr> > 0" by simp
  have d: "attempt ?env (length (trace pool_world)
                + (if HM \<lparr>HM = 1, member = 3\<rparr> > 0 then 3 else 2))
              (DecrementQuota (length (trace pool_world)) Member ?p
                 (member \<lparr>HM = 1, member = 3\<rparr>))
              (decrement_quota_sem ?env Member ?p (member \<lparr>HM = 1, member = 3\<rparr>)) ?q2
            = Inl (OtherException ''deadlock'')"
    by (simp add: attempt_def ref_env_def member_quota_outage_def)
  have r: "\<And>n s e. raised_after_rollback ?env n s e = e"
    by (simp add: raised_after_rollback_def ref_env_def member_quota_outage_def)
  from failed_decrement_rolls_back_and_reraises [OF o, where project_id = ?p and qa = ?q1
      and qb = ?q2 and pcc = "\<lparr>HM = 1, member = 3\<rparr>" and e = "OtherException ''deadlock''",
      THEN conjunct2, THEN conjunct2, THEN conjunct2, THEN conjunct1, THEN mp, THEN mp,
      THEN mp, THEN mp, OF a b c d] o d
  show ?thesis by (simp add: r pool_world_simps)
qed

text \<open>
  Claim C7 as stated fails where it says that the exception of the decrement is raised again.
  The decrement of \<^verbatim>\<open>DecrementLoadBalancerQuota.execute\<close> raises a deadlock and
  the rollback that follows raises as well: what reaches the caller is the exception of the
  rollback, and the deadlock is lost.
\<close>

theorem failed_decrement_rolls_back_and_reraises_counterexample:
  "attempt (ref_env outage_and_lost_connection) 1
      (DecrementQuota 0 LoadBalancer (VStr ''project1'') 1)
      (decrement_quota_sem (ref_env outage_and_lost_connection) LoadBalancer
         (VStr ''project1'') 1)
      (quota empty_world) = Inl (OtherException ''deadlock'')
 \<and> DecrementLoadBalancerQuota_execute (ref_env outage_and_lost_connection)
      (VStr ''project1'') empty_world =
     (Inl (OtherException ''connection lost''),
      empty_world\<lparr>trace := [GetSession False,
         DecrementQuota 0 LoadBalancer (VStr ''project1'') 1, Rollback 0]\<rparr>)"
  by (simp add: DecrementLoadBalancerQuota_execute_def decrement_one_def bindM_def seqM_def
      try_except_def raiseM_def save_and_reraise_exception_def get_session_eq
      decrement_quota_eq rollback_eq attempt_def ref_env_def outage_and_lost_connection_def
      empty_world_def)

section \<open>The pool decrement is all or nothing\<close>

text \<open>The body of the \<^verbatim>\<open>try\<close> of \<^verbatim>\<open>DecrementPoolQuota.execute\<close>.\<close>

lemma pool_body_spec:
  assumes run: "bindM (decrement_quota env ls Pool p 1)
               (\<lambda>ls1.
             bindM (if HM pcc > 0
                    then decrement_quota env ls1 HealthMonitor p 1
                    else returnM ls1)
               (\<lambda>ls2.
             bindM (if member pcc > 0
                    then decrement_quota env ls2 Member p (member pcc)
                    else returnM ls2)
               (\<lambda>ls3. commit env ls3))) w = (r, w')"
  shows "store w' = store w \<and> (isl r \<longrightarrow> quota w' = quota w)
    \<and> (\<exists>cs. trace w' = trace w @ cs
          \<and> prefix (GetSession False # cs) (pool_decrement_calls (sid ls) p pcc)
          \<and> (\<not> isl r \<longrightarrow> GetSession False # cs = pool_decrement_calls (sid ls) p pcc
                \<and> cascade_decrement env p pcc (pending ls) = Inr (quota w')))"
proof -
  obtain r1 w1 where s1: "decrement_quota env ls Pool p 1 w = (r1, w1)" by force
  note f1 = decrement_spec [OF s1]
  show ?thesis
  proof (cases r1)
    case (Inl e)
    with run s1 have "r = Inl e" "w' = w1" by (simp_all add: bindM_def)
    with f1 show ?thesis by (simp add: pool_decrement_calls_def)
  next
    case (Inr ls1)
    note g1 = f1(4) [OF Inr]
    obtain r2 w2 where s2: "(if HM pcc > 0 then decrement_quota env ls1 HealthMonitor p 1
                            else returnM ls1) w1 = (r2, w2)" by force
    note f2 = opt_decrement_spec [OF s2]
    show ?thesis
    proof (cases r2)
      case (Inl e)
      with run s1 s2 \<open>r1 = Inr ls1\<close> have "r = Inl e" "w' = w2"
        by (simp_all add: bindM_def split del: if_split)
      with f1 f2 g1 show ?thesis by (simp add: pool_decrement_calls_def)
    next
      case (Inr ls2)
      note g2 = f2(4) [OF Inr]
      obtain r3 w3 where s3: "(if member pcc > 0
                    then decrement_quota env ls2 Member p (member pcc)
                    else returnM ls2) w2 = (r3, w3)" by force
      note f3 = opt_decrement_spec [OF s3]
      show ?thesis
      proof (cases r3)
        case (Inl e)
        with run s1 s2 s3 \<open>r1 = Inr ls1\<close> \<open>r2 = Inr ls2\<close> have "r = Inl e" "w' = w3"
          by (simp_all add: bindM_def split del: if_split)
        with f1 f2 f3 g1 g2 show ?thesis by (simp add: pool_decrement_calls_def)
      next
        case (Inr ls3)
        note g3 = f3(4) [OF Inr]
        from run s1 s2 s3 \<open>r1 = Inr ls1\<close> \<open>r2 = Inr ls2\<close> Inr
        have s4: "commit env ls3 w3 = (r, w')"
          by (simp add: bindM_def split del: if_split)
        note f4 = commit_spec [OF s4]
        have casc: "cascade_decrement env p pcc (pending ls) = Inr (pending ls3)"
          using g1 g2 g3 by (simp add: cascade_decrement_def)
        from f1 f2 f3 f4 g1 g2 g3 casc show ?thesis
          by (auto simp: pool_decrement_calls_def)
      qed
    qed
  qed
qed


lemma pool_execute_spec:
  assumes run: "DecrementPoolQuota_execute env p pcc w = (r, w')"
  shows "store w' = store w \<and> (isl r \<longrightarrow> quota w' = quota w)
    \<and> (\<exists>cs. prefix cs (pool_decrement_calls (length (trace w)) p pcc)
          \<and> (calls_since w w' = cs \<or> calls_since w w' = cs @ [Rollback (length (trace w))]))
    \<and> (\<not> isl r \<longrightarrow> calls_since w w' = pool_decrement_calls (length (trace w)) p pcc
          \<and> cascade_decrement env p pcc (quota w) = Inr (quota w'))"
proof -
  obtain r0 w0 where s0: "get_session env False w = (r0, w0)" by force
  note f0 = get_session_spec [OF s0]
  show ?thesis
  proof (cases r0)
    case (Inl e)
    with run s0 have "r = Inl e" "w' = w0"
      by (simp_all add: DecrementPoolQuota_execute_def bindM_def)
    moreover have "prefix [GetSession False] (pool_decrement_calls (length (trace w)) p pcc)"
      by (simp add: pool_decrement_calls_def)
    ultimately have A: "store w' = store w" "isl r" "quota w' = quota w"
        "calls_since w w' = [GetSession False]"
        "prefix [GetSession False] (pool_decrement_calls (length (trace w)) p pcc)"
      using f0 by (simp_all add: calls_since_def)
    then show ?thesis by blast
  next
    case (Inr ls)
    from f0(4) [OF Inr] have ls: "sid ls = length (trace w)" "pending ls = quota w"
      by simp_all
    obtain rb wb where sb: "bindM (decrement_quota env ls Pool p 1)
               (\<lambda>ls1.
             bindM (if HM pcc > 0
                    then decrement_quota env ls1 HealthMonitor p 1
                    else returnM ls1)
               (\<lambda>ls2.
             bindM (if member pcc > 0
                    then decrement_quota env ls2 Member p (member pcc)
                    else returnM ls2)
               (\<lambda>ls3. commit env ls3))) w0 = (rb, wb)" by force
    from pool_body_spec [OF sb] obtain cs where
      b: "store wb = store w0" "isl rb \<longrightarrow> quota wb = quota w0"
        "trace wb = trace w0 @ cs"
        "prefix (GetSession False # cs) (pool_decrement_calls (sid ls) p pcc)"
        "\<not> isl rb \<longrightarrow> GetSession False # cs = pool_decrement_calls (sid ls) p pcc
                \<and> cascade_decrement env p pcc (pending ls) = Inr (quota wb)"
      by blast
    show ?thesis
    proof (cases rb)
      case (Inr u)
      with run s0 sb \<open>r0 = Inr ls\<close> have "r = Inr u" "w' = wb"
        by (simp_all add: DecrementPoolQuota_execute_def bindM_def try_except_def
            split del: if_split)
      have A: "store w' = store w" "\<not> isl r" using \<open>r = Inr u\<close> \<open>w' = wb\<close> b f0 by simp_all
      have C: "calls_since w w' = GetSession False # cs"
        using \<open>w' = wb\<close> b f0 by (simp add: calls_since_def)
      have D: "calls_since w w' = pool_decrement_calls (length (trace w)) p pcc"
        "cascade_decrement env p pcc (quota w) = Inr (quota w')"
        using C b(5) Inr ls \<open>w' = wb\<close> by simp_all
      have P: "prefix (GetSession False # cs) (pool_decrement_calls (length (trace w)) p pcc)"
        using b(4) ls by simp
      from A C D P show ?thesis by blast
    next
      case (Inl e)
      obtain rh :: "exn + unit" and wh
        where sh: "save_and_reraise_exception e (rollback env ls) wb = (rh, wh)"
        by force
      note fh = reraise_rollback_spec [OF sh]
      from run s0 sb sh \<open>r0 = Inr ls\<close> Inl have "r = rh" "w' = wh"
        by (simp_all add: DecrementPoolQuota_execute_def bindM_def try_except_def
            split del: if_split)
      moreover have "calls_since w wh = (GetSession False # cs) @ [Rollback (length (trace w))]"
        using fh b f0 ls by (simp add: calls_since_def)
      ultimately have A: "store w' = store w" "isl r" "quota w' = quota w"
        "calls_since w w' = (GetSession False # cs) @ [Rollback (length (trace w))]"
        using fh b f0 Inl by simp_all
      have P: "prefix (GetSession False # cs) (pool_decrement_calls (length (trace w)) p pcc)"
        using b(4) ls by simp
      from A P show ?thesis by blast
    qed
  qed
qed

text \<open>
  Claim C9. Whatever the persistence layer does, a run of
  \<^verbatim>\<open>DecrementPoolQuota.execute\<close> leaves the rows alone and
  \<^item> when it raises, the committed counters are as before: none of the decrements has
    taken effect;
  \<^item> its calls are a prefix of \<open>pool_decrement_calls\<close> (one lock session, then the
    pool decrement, the health monitor decrement only for a positive count, the member
    decrement with the member count as quantity only for a positive count, one commit, all
    on that session), followed by at most the rollback of that session;
  \<^item> when it returns, the calls are all of \<open>pool_decrement_calls\<close> and the
    committed counters are those of the three decrements applied in turn.
\<close>

theorem pool_decrement_is_all_or_nothing:
  "case DecrementPoolQuota_execute env project_id pcc w of (r, w') \<Rightarrow>
       store w' = store w
     \<and> (isl r \<longrightarrow> quota w' = quota w)
     \<and> (\<exists>cs. prefix cs (pool_decrement_calls (length (trace w)) project_id pcc)
          \<and> (calls_since w w' = cs
              \<or> calls_since w w' = cs @ [Rollback (length (trace w))]))
     \<and> (\<not> isl r \<longrightarrow>
          calls_since w w' = pool_decrement_calls (length (trace w)) project_id pcc
        \<and> cascade_decrement env project_id pcc (quota w) = Inr (quota w'))"
proof -
  obtain r w' where run: "DecrementPoolQuota_execute env project_id pcc w = (r, w')"
    by force
  from pool_execute_spec [OF run] show ?thesis by (simp add: run)
qed

theorem pool_decrement_is_all_or_nothing_witness:
  "case DecrementPoolQuota_execute (ref_env no_faults) (VStr ''project1'')
          \<lparr>HM = 1, member = 3\<rparr> pool_world of (r, w') \<Rightarrow>
       \<not> isl r
     \<and> calls_since pool_world w' =
         [GetSession False, DecrementQuota 0 Pool (VStr ''project1'') 1,
          DecrementQuota 0 HealthMonitor (VStr ''project1'') 1,
          DecrementQuota 0 Member (VStr ''project1'') 3, Commit 0]"
proof -
  have ok: "\<not> isl (fst (DecrementPoolQuota_execute (ref_env no_faults) (VStr ''project1'')
          \<lparr>HM = 1, member = 3\<rparr> pool_world))"
    by (simp add: DecrementPoolQuota_execute_def bindM_def try_except_def get_session_eq
        decrement_quota_eq commit_eq attempt_def ref_env_def no_faults_def ref_decrement_def
        pool_world_simps)
  from pool_decrement_is_all_or_nothing [where env = "ref_env no_faults" and project_id = "VStr ''project1''"
      and pcc = "\<lparr>HM = 1, member = 3\<rparr>" and w = pool_world] ok
  show ?thesis
    by (auto simp: pool_decrement_calls_def pool_world_simps split: prod.splits)
qed

section \<open>The pool scenario: one health monitor and three members\<close>

lemma ended_sessions_append:
  "ended_sessions (xs @ ys) = ended_sessions xs @ ended_sessions ys"
  by (induction xs rule: ended_sessions.induct) simp_all

lemma check_and_commit_spec:
  assumes sessions: "\<forall>n a. faults env n (GetSession a) = None"
    and rollbacks: "\<forall>n s. faults env n (Rollback s) = None"
    and run: "check_and_commit env s k p w = (r, w')"
  shows "r = Inr () \<and> store w' = store w
     \<and> (\<exists>blk. trace w' = trace w @ blk
            \<and> filter is_check_quota_met blk = [CheckQuotaMet (sid s) (length (trace w)) k p]
            \<and> filter is_get_session blk = [GetSession False]
            \<and> set (ended_sessions blk) = {length (trace w)})"
proof -
  from assms have "r = Inr () \<and> store w' = store w
     \<and> (\<exists>t. trace w' = trace w @ [GetSession False,
                  CheckQuotaMet (sid s) (length (trace w)) k p] @ t
            \<and> (t = [Commit (length (trace w))] \<or> t = [Rollback (length (trace w))]
               \<or> t = [Commit (length (trace w)), Rollback (length (trace w))]))"
    by (auto simp: check_and_commit_def bindM_def try_except_def get_session_eq
        check_quota_met_eq commit_eq rollback_eq attempt_Inr map_sum_def
        split: sum.splits)
  then obtain t where t: "r = Inr ()" "store w' = store w"
    "trace w' = trace w @ [GetSession False,
                  CheckQuotaMet (sid s) (length (trace w)) k p] @ t"
    "t = [Commit (length (trace w))] \<or> t = [Rollback (length (trace w))]
               \<or> t = [Commit (length (trace w)), Rollback (length (trace w))]"
    by blast
  from t(4) have "filter is_check_quota_met t = []" "filter is_get_session t = []"
    "set (ended_sessions t) = {length (trace w)}"
    by auto
  with t(1-3) show ?thesis by (intro conjI exI [of _ "[GetSession False,
                  CheckQuotaMet (sid s) (length (trace w)) k p] @ t"]) simp_all
qed

lemma pool_revert_spec:
  assumes pcc: "HM pcc = 1" "member pcc = 3"
    and res: "result \<noteq> Failure"
    and sessions: "\<forall>n a. faults env n (GetSession a) = None"
    and rollbacks: "\<forall>n s. faults env n (Rollback s) = None"
    and run: "DecrementPoolQuota_revert env p pcc result w = (r, w')"
  shows "r = Inr () \<and> store w' = store w
    \<and> filter is_get_session (calls_since w w') =
       [GetSession True, GetSession False, GetSession False, GetSession False,
        GetSession False, GetSession False]
    \<and> (\<exists>s1 s2 s3 s4 s5.
         filter is_check_quota_met (calls_since w w') =
           [CheckQuotaMet (length (trace w)) s1 Pool p,
            CheckQuotaMet (length (trace w)) s2 HealthMonitor p,
            CheckQuotaMet (length (trace w)) s3 Member p,
            CheckQuotaMet (length (trace w)) s4 Member p,
            CheckQuotaMet (length (trace w)) s5 Member p]
       \<and> distinct [s1, s2, s3, s4, s5]
       \<and> set (ended_sessions (calls_since w w')) = {s1, s2, s3, s4, s5})"
proof -
  let ?n = "length (trace w)"
  obtain r0 w0 where s0: "get_session env True w = (r0, w0)" by force
  from s0 sessions obtain session where
    r0: "r0 = Inr session" and sid: "sid session = ?n"
    and t0: "trace w0 = trace w @ [GetSession True]" and st0: "store w0 = store w"
    by (auto simp: get_session_eq attempt_Inr)
  obtain r1 w1 where s1: "check_and_commit env session Pool p w0 = (r1, w1)" by force
  from check_and_commit_spec [OF sessions rollbacks s1] obtain k1 where
    b1: "r1 = Inr ()" "store w1 = store w0" "trace w1 = trace w0 @ k1"
      "filter is_check_quota_met k1 = [CheckQuotaMet ?n (length (trace w0)) Pool p]"
      "filter is_get_session k1 = [GetSession False]"
      "set (ended_sessions k1) = {length (trace w0)}"
    using sid by auto
  obtain r2 w2 where s2: "check_and_commit env session HealthMonitor p w1 = (r2, w2)" by force
  from check_and_commit_spec [OF sessions rollbacks s2] obtain k2 where
    b2: "r2 = Inr ()" "store w2 = store w1" "trace w2 = trace w1 @ k2"
      "filter is_check_quota_met k2 = [CheckQuotaMet ?n (length (trace w1)) HealthMonitor p]"
      "filter is_get_session k2 = [GetSession False]"
      "set (ended_sessions k2) = {length (trace w1)}"
    using sid by auto
  obtain r3 w3 where s3: "check_and_commit env session Member p w2 = (r3, w3)" by force
  from check_and_commit_spec [OF sessions rollbacks s3] obtain k3 where
    b3: "r3 = Inr ()" "store w3 = store w2" "trace w3 = trace w2 @ k3"
      "filter is_check_quota_met k3 = [CheckQuotaMet ?n (length (trace w2)) Member p]"
      "filter is_get_session k3 = [GetSession False]"
      "set (ended_sessions k3) = {length (trace w2)}"
    using sid by auto
  obtain r4 w4 where s4: "check_and_commit env session Member p w3 = (r4, w4)" by force
  from check_and_commit_spec [OF sessions rollbacks s4] obtain k4 where
    b4: "r4 = Inr ()" "store w4 = store w3" "trace w4 = trace w3 @ k4"
      "filter is_check_quota_met k4 = [CheckQuotaMet ?n (length (trace w3)) Member p]"
      "filter is_get_session k4 = [GetSession False]"
      "set (ended_sessions k4) = {length (trace w3)}"
    using sid by auto
  obtain r5 w5 where s5: "check_and_commit env session Member p w4 = (r5, w5)" by force
  from check_and_commit_spec [OF sessions rollbacks s5] obtain k5 where
    b5: "r5 = Inr ()" "store w5 = store w4" "trace w5 = trace w4 @ k5"
      "filter is_check_quota_met k5 = [CheckQuotaMet ?n (length (trace w4)) Member p]"
      "filter is_get_session k5 = [GetSession False]"
      "set (ended_sessions k5) = {length (trace w4)}"
    using sid by auto
  have rng: "[0..<3::nat] = [0, 1, 2]"
    by (simp add: upt_rec)
  have res': "DecrementPoolQuota_revert env p pcc result w = (Inr (), w5)"
    using res pcc s0 r0 s1 s2 s3 s4 s5 b1(1) b2(1) b3(1) b4(1) b5(1)
    by (simp add: DecrementPoolQuota_revert_def rng bindM_def seqM_def try_except_def
        returnM_def)
  with run have rw: "r = Inr ()" "w' = w5" by simp_all
  have ne: "k1 \<noteq> []" "k2 \<noteq> []" "k3 \<noteq> []" "k4 \<noteq> []"
    using b1(5) b2(5) b3(5) b4(5) by auto
  have lt: "length (trace w0) < length (trace w1)" "length (trace w1) < length (trace w2)"
    "length (trace w2) < length (trace w3)" "length (trace w3) < length (trace w4)"
    using ne b1(3) b2(3) b3(3) b4(3) by simp_all
  have cs: "calls_since w w' = [GetSession True] @ k1 @ k2 @ k3 @ k4 @ k5"
    using rw t0 b1(3) b2(3) b3(3) b4(3) b5(3) by (simp add: calls_since_def)
  have A: "filter is_get_session (calls_since w w') =
       [GetSession True, GetSession False, GetSession False, GetSession False,
        GetSession False, GetSession False]"
    by (simp add: cs b1(5) b2(5) b3(5) b4(5) b5(5))
  have B: "filter is_check_quota_met (calls_since w w') =
           [CheckQuotaMet ?n (length (trace w0)) Pool p,
            CheckQuotaMet ?n (length (trace w1)) HealthMonitor p,
            CheckQuotaMet ?n (length (trace w2)) Member p,
            CheckQuotaMet ?n (length (trace w3)) Member p,
            CheckQuotaMet ?n (length (trace w4)) Member p]"
    by (simp add: cs b1(4) b2(4) b3(4) b4(4) b5(4))
  have C: "set (ended_sessions (calls_since w w')) =
      {length (trace w0), length (trace w1), length (trace w2), length (trace w3),
       length (trace w4)}"
    by (auto simp: cs ended_sessions_append b1(6) b2(6) b3(6) b4(6) b5(6))
  have D: "distinct [length (trace w0), length (trace w1), length (trace w2),
       length (trace w3), length (trace w4)]"
    using lt by simp
  have E: "store w' = store w" using rw st0 b1(2) b2(2) b3(2) b4(2) b5(2) by simp
  from rw(1) A B C D E show ?thesis by blast
qed

lemma check_and_commit_run:
  assumes sessions: "\<forall>n a. faults env n (GetSession a) = None"
    and rollbacks: "\<forall>n s. faults env n (Rollback s) = None"
  shows "check_and_commit env s k p w =
     (Inr (), w\<lparr>trace := trace w
                  @ fst (check_and_commit_calls env (sid s) k p (length (trace w)) (quota w)),
               quota := snd (check_and_commit_calls env (sid s) k p (length (trace w)) (quota w))\<rparr>)"
  using assms
  by (auto simp: check_and_commit_def check_and_commit_calls_def bindM_def try_except_def
      get_session_eq check_quota_met_eq commit_eq rollback_eq attempt_Inr map_sum_def
      split: sum.splits option.splits)

lemma reincrement_run:
  assumes sessions: "\<forall>n a. faults env n (GetSession a) = None"
    and rollbacks: "\<forall>n s. faults env n (Rollback s) = None"
  shows "for_each ks (\<lambda>k. check_and_commit env s k p) w =
     (Inr (), w\<lparr>trace := trace w
                  @ fst (reincrement_calls env (sid s) p ks (length (trace w)) (quota w)),
               quota := snd (reincrement_calls env (sid s) p ks (length (trace w)) (quota w))\<rparr>)"
proof (induction ks arbitrary: w)
  case Nil
  show ?case by (simp add: returnM_def)
next
  case (Cons k ks)
  let ?B = "check_and_commit_calls env (sid s) k p (length (trace w)) (quota w)"
  let ?w1 = "w\<lparr>trace := trace w @ fst ?B, quota := snd ?B\<rparr>"
  have step: "check_and_commit env s k p w = (Inr (), ?w1)"
    by (rule check_and_commit_run [OF assms])
  have "for_each (k # ks) (\<lambda>k. check_and_commit env s k p) w =
      for_each ks (\<lambda>k. check_and_commit env s k p) ?w1"
    by (simp add: seqM_def bindM_def step)
  also have "\<dots> = (Inr (), ?w1\<lparr>trace := trace ?w1
                  @ fst (reincrement_calls env (sid s) p ks (length (trace ?w1)) (quota ?w1)),
               quota := snd (reincrement_calls env (sid s) p ks (length (trace ?w1)) (quota ?w1))\<rparr>)"
    by (rule Cons.IH)
  finally show ?case by (simp add: case_prod_beta Let_def)
qed

lemma pool_revert_run:
  assumes pcc: "HM pcc = 1" "member pcc = 3"
    and res: "result \<noteq> Failure"
    and sessions: "\<forall>n a. faults env n (GetSession a) = None"
    and rollbacks: "\<forall>n s. faults env n (Rollback s) = None"
  shows "DecrementPoolQuota_revert env p pcc result w =
     (Inr (), w\<lparr>trace := trace w @ GetSession True
                  # fst (reincrement_calls env (length (trace w)) p
                           [Pool, HealthMonitor, Member, Member, Member]
                           (length (trace w) + 1) (quota w)),
               quota := snd (reincrement_calls env (length (trace w)) p
                           [Pool, HealthMonitor, Member, Member, Member]
                           (length (trace w) + 1) (quota w))\<rparr>)"
proof -
  let ?w0 = "w\<lparr>trace := trace w @ [GetSession True]\<rparr>"
  let ?s = "\<lparr>sid = length (trace w), pending = quota w\<rparr>"
  have rng: "[0..<3::nat] = [0, 1, 2]"
    by (simp add: upt_rec)
  have body: "seqM (check_and_commit env ?s Pool p)
                  (seqM (check_and_commit env ?s HealthMonitor p)
                        (for_each [0..<3] (\<lambda>i. check_and_commit env ?s Member p)))
      = for_each [Pool, HealthMonitor, Member, Member, Member]
          (\<lambda>k. check_and_commit env ?s k p)"
    by (simp add: rng)
  have "DecrementPoolQuota_revert env p pcc result w =
      try_except (for_each [Pool, HealthMonitor, Member, Member, Member]
          (\<lambda>k. check_and_commit env ?s k p)) (\<lambda>e. returnM ()) ?w0"
    using res pcc sessions body
    by (simp add: DecrementPoolQuota_revert_def try_except_def bindM_def get_session_eq
        attempt_Inr)
  also have "\<dots> = (Inr (), ?w0\<lparr>trace := trace ?w0
                  @ fst (reincrement_calls env (sid ?s) p
                           [Pool, HealthMonitor, Member, Member, Member]
                           (length (trace ?w0)) (quota ?w0)),
               quota := snd (reincrement_calls env (sid ?s) p
                           [Pool, HealthMonitor, Member, Member, Member]
                           (length (trace ?w0)) (quota ?w0))\<rparr>)"
    unfolding try_except_def reincrement_run [OF sessions rollbacks] by simp
  finally show ?thesis by simp
qed

lemma pool_execute_goes_through:
  assumes pcc: "HM pcc = 1" "member pcc = 3"
    and nofault: "\<forall>i c. faults env i c = None"
    and casc: "cascade_decrement env p pcc (quota w) = Inr q'"
  shows "DecrementPoolQuota_execute env p pcc w =
     (Inr (), w\<lparr>trace := trace w @ [GetSession False,
                  DecrementQuota (length (trace w)) Pool p 1,
                  DecrementQuota (length (trace w)) HealthMonitor p 1,
                  DecrementQuota (length (trace w)) Member p 3,
                  Commit (length (trace w))],
               quota := q'\<rparr>)"
proof -
  from casc pcc obtain q1 q2 where
    q: "decrement_quota_sem env Pool p 1 (quota w) = Inr q1"
       "decrement_quota_sem env HealthMonitor p 1 q1 = Inr q2"
       "decrement_quota_sem env Member p 3 q2 = Inr q'"
    by (auto simp: cascade_decrement_def split: sum.splits)
  with pcc nofault show ?thesis
    by (simp add: DecrementPoolQuota_execute_def bindM_def try_except_def get_session_eq
        decrement_quota_eq commit_eq attempt_def)
qed


lemma no_faults_calls:
  "check_and_commit_calls (ref_env no_faults) s k p n q =
     ([GetSession False, CheckQuotaMet s n k p, Commit n], q(k := (q k)(p := q k p + 1)))"
  by (simp add: check_and_commit_calls_def attempt_def ref_env_def no_faults_def
      ref_check_quota_met_def)

text \<open>
  Claim C3, as amended. The child count is \<^verbatim>\<open>{'HM': 1, 'member': 3}\<close>.
  \<^item> Forward pass, whatever the persistence layer does: the calls of execute are a
    prefix of the five calls (the lock session, the pool decrement, the health monitor
    decrement, the member decrement with quantity 3, the commit, all on that one session),
    followed by at most the rollback; when execute returns they are the five calls, and the
    committed counters are those of the three decrements applied in turn.
  \<^item> Forward pass that goes through: when the persistence layer makes no call fail and the
    three decrements succeed on the counters, execute returns, has made the five calls, and
    the committed counters are those of the three decrements.
  \<^item> Revert with a result that is not a failure marker, when opening a session and rolling
    one back do not raise: revert returns normally; after the autocommit session its calls
    are five re-increment attempts, for the pool, the health monitor and three times the
    member, each the one \<open>check_and_commit_calls\<close> describes (a lock session of its
    own, the check on it, the commit of it when the check went through, its rollback when
    the check or the commit raised); the committed counters afterwards are those that the
    attempts which were committed leave. So there are exactly five
    \<^verbatim>\<open>check_quota_met\<close> calls, in this order, on five distinct lock sessions,
    and these are the sessions that the revert commits or rolls back.
\<close>

theorem pool_quota_scenario:
  assumes pcc: "HM pcc = 1" "member pcc = 3"
  shows "(case DecrementPoolQuota_execute env p pcc w of (r, w') \<Rightarrow>
            (\<exists>cs. prefix cs
                    [GetSession False,
                     DecrementQuota (length (trace w)) Pool p 1,
                     DecrementQuota (length (trace w)) HealthMonitor p 1,
                     DecrementQuota (length (trace w)) Member p 3,
                     Commit (length (trace w))]
                 \<and> (calls_since w w' = cs
                      \<or> calls_since w w' = cs @ [Rollback (length (trace w))]))
          \<and> (\<not> isl r \<longrightarrow>
                calls_since w w' =
                  [GetSession False,
                   DecrementQuota (length (trace w)) Pool p 1,
                   DecrementQuota (length (trace w)) HealthMonitor p 1,
                   DecrementQuota (length (trace w)) Member p 3,
                   Commit (length (trace w))]
              \<and> cascade_decrement env p pcc (quota w) = Inr (quota w')))
       \<and> ((\<forall>i c. faults env i c = None) \<longrightarrow>
            cascade_decrement env p pcc (quota w) = Inr q' \<longrightarrow>
            DecrementPoolQuota_execute env p pcc w =
              (Inr (), w\<lparr>trace := trace w @ [GetSession False,
                           DecrementQuota (length (trace w)) Pool p 1,
                           DecrementQuota (length (trace w)) HealthMonitor p 1,
                           DecrementQuota (length (trace w)) Member p 3,
                           Commit (length (trace w))],
                        quota := q'\<rparr>))
       \<and> (result \<noteq> Failure \<longrightarrow>
          (\<forall>n a. faults env n (GetSession a) = None) \<longrightarrow>
          (\<forall>n s. faults env n (Rollback s) = None) \<longrightarrow>
            DecrementPoolQuota_revert env p pcc result v =
              (Inr (), v\<lparr>trace := trace v @ GetSession True
                           # fst (reincrement_calls env (length (trace v)) p
                                    [Pool, HealthMonitor, Member, Member, Member]
                                    (length (trace v) + 1) (quota v)),
                        quota := snd (reincrement_calls env (length (trace v)) p
                                    [Pool, HealthMonitor, Member, Member, Member]
                                    (length (trace v) + 1) (quota v))\<rparr>)
          \<and> (case DecrementPoolQuota_revert env p pcc result v of (r, v') \<Rightarrow>
               r = Inr () \<and> store v' = store v
             \<and> filter is_get_session (calls_since v v') =
                 [GetSession True, GetSession False, GetSession False, GetSession False,
                  GetSession False, GetSession False]
             \<and> (\<exists>s1 s2 s3 s4 s5.
                  filter is_check_quota_met (calls_since v v') =
                    [CheckQuotaMet (length (trace v)) s1 Pool p,
                     CheckQuotaMet (length (trace v)) s2 HealthMonitor p,
                     CheckQuotaMet (length (trace v)) s3 Member p,
                     CheckQuotaMet (length (trace v)) s4 Member p,
                     CheckQuotaMet (length (trace v)) s5 Member p]
                \<and> distinct [s1, s2, s3, s4, s5]
                \<and> set (ended_sessions (calls_since v v')) = {s1, s2, s3, s4, s5})))"
proof -
  obtain r w' where ex: "DecrementPoolQuota_execute env p pcc w = (r, w')" by force
  have calls: "pool_decrement_calls (length (trace w)) p pcc =
                [GetSession False,
                 DecrementQuota (length (trace w)) Pool p 1,
                 DecrementQuota (length (trace w)) HealthMonitor p 1,
                 DecrementQuota (length (trace w)) Member p 3,
                 Commit (length (trace w))]"
    using pcc by (simp add: pool_decrement_calls_def)
  have 1: "case DecrementPoolQuota_execute env p pcc w of (r, w') \<Rightarrow>
            (\<exists>cs. prefix cs
                    [GetSession False,
                     DecrementQuota (length (trace w)) Pool p 1,
                     DecrementQuota (length (trace w)) HealthMonitor p 1,
                     DecrementQuota (length (trace w)) Member p 3,
                     Commit (length (trace w))]
                 \<and> (calls_since w w' = cs
                      \<or> calls_since w w' = cs @ [Rollback (length (trace w))]))
          \<and> (\<not> isl r \<longrightarrow>
                calls_since w w' =
                  [GetSession False,
                   DecrementQuota (length (trace w)) Pool p 1,
                   DecrementQuota (length (trace w)) HealthMonitor p 1,
                   DecrementQuota (length (trace w)) Member p 3,
                   Commit (length (trace w))]
              \<and> cascade_decrement env p pcc (quota w) = Inr (quota w'))"
    using pool_execute_spec [OF ex] unfolding calls ex by simp
  have 2: "(\<forall>i c. faults env i c = None) \<longrightarrow>
            cascade_decrement env p pcc (quota w) = Inr q' \<longrightarrow>
            DecrementPoolQuota_execute env p pcc w =
              (Inr (), w\<lparr>trace := trace w @ [GetSession False,
                           DecrementQuota (length (trace w)) Pool p 1,
                           DecrementQuota (length (trace w)) HealthMonitor p 1,
                           DecrementQuota (length (trace w)) Member p 3,
                           Commit (length (trace w))],
                        quota := q'\<rparr>)"
    by (intro impI) (rule pool_execute_goes_through [OF pcc])
  have 3: "result \<noteq> Failure \<longrightarrow>
          (\<forall>n a. faults env n (GetSession a) = None) \<longrightarrow>
          (\<forall>n s. faults env n (Rollback s) = None) \<longrightarrow>
            DecrementPoolQuota_revert env p pcc result v =
              (Inr (), v\<lparr>trace := trace v @ GetSession True
                           # fst (reincrement_calls env (length (trace v)) p
                                    [Pool, HealthMonitor, Member, Member, Member]
                                    (length (trace v) + 1) (quota v)),
                        quota := snd (reincrement_calls env (length (trace v)) p
                                    [Pool, HealthMonitor, Member, Member, Member]
                                    (length (trace v) + 1) (quota v))\<rparr>)"
    by (intro impI) (rule pool_revert_run [OF pcc])
  have 4: "result \<noteq> Failure \<longrightarrow>
          (\<forall>n a. faults env n (GetSession a) = None) \<longrightarrow>
          (\<forall>n s. faults env n (Rollback s) = None) \<longrightarrow>
          (case DecrementPoolQuota_revert env p pcc result v of (r, v') \<Rightarrow>
               r = Inr () \<and> store v' = store v
             \<and> filter is_get_session (calls_since v v') =
                 [GetSession True, GetSession False, GetSession False, GetSession False,
                  GetSession False, GetSession False]
             \<and> (\<exists>s1 s2 s3 s4 s5.
                  filter is_check_quota_met (calls_since v v') =
                    [CheckQuotaMet (length (trace v)) s1 Pool p,
                     CheckQuotaMet (length (trace v)) s2 HealthMonitor p,
                     CheckQuotaMet (length (trace v)) s3 Member p,
                     CheckQuotaMet (length (trace v)) s4 Member p,
                     CheckQuotaMet (length (trace v)) s5 Member p]
                \<and> distinct [s1, s2, s3, s4, s5]
                \<and> set (ended_sessions (calls_since v v')) = {s1, s2, s3, s4, s5}))"
  proof (intro impI)
    assume res: "result \<noteq> Failure"
      and sessions: "\<forall>n a. faults env n (GetSession a) = None"
      and rollbacks: "\<forall>n s. faults env n (Rollback s) = None"
    obtain r2 v' where rv: "DecrementPoolQuota_revert env p pcc result v = (r2, v')" by force
    from pool_revert_spec [OF pcc res sessions rollbacks rv]
    show "case DecrementPoolQuota_revert env p pcc result v of (r, v') \<Rightarrow>
               r = Inr () \<and> store v' = store v
             \<and> filter is_get_session (calls_since v v') =
                 [GetSession True, GetSession False, GetSession False, GetSession False,
                  GetSession False, GetSession False]
             \<and> (\<exists>s1 s2 s3 s4 s5.
                  filter is_check_quota_met (calls_since v v') =
                    [CheckQuotaMet (length (trace v)) s1 Pool p,
                     CheckQuotaMet (length (trace v)) s2 HealthMonitor p,
                     CheckQuotaMet (length (trace v)) s3 Member p,
                     CheckQuotaMet (length (trace v)) s4 Member p,
                     CheckQuotaMet (length (trace v)) s5 Member p]
                \<and> distinct [s1, s2, s3, s4, s5]
                \<and> set (ended_sessions (calls_since v v')) = {s1, s2, s3, s4, s5})"
      by (simp add: rv)
  qed
  have 34: "result \<noteq> Failure \<longrightarrow>
          (\<forall>n a. faults env n (GetSession a) = None) \<longrightarrow>
          (\<forall>n s. faults env n (Rollback s) = None) \<longrightarrow>
            DecrementPoolQuota_revert env p pcc result v =
              (Inr (), v\<lparr>trace := trace v @ GetSession True
                           # fst (reincrement_calls env (length (trace v)) p
                                    [Pool, HealthMonitor, Member, Member, Member]
                                    (length (trace v) + 1) (quota v)),
                        quota := snd (reincrement_calls env (length (trace v)) p
                                    [Pool, HealthMonitor, Member, Member, Member]
                                    (length (trace v) + 1) (quota v))\<rparr>)
          \<and> (case DecrementPoolQuota_revert env p pcc result v of (r, v') \<Rightarrow>
               r = Inr () \<and> store v' = store v
             \<and> filter is_get_session (calls_since v v') =
                 [GetSession True, GetSession False, GetSession False, GetSession False,
                  GetSession False, GetSession False]
             \<and> (\<exists>s1 s2 s3 s4 s5.
                  filter is_check_quota_met (calls_since v v') =
                    [CheckQuotaMet (length (trace v)) s1 Pool p,
                     CheckQuotaMet (length (trace v)) s2 HealthMonitor p,
                     CheckQuotaMet (length (trace v)) s3 Member p,
                     CheckQuotaMet (length (trace v)) s4 Member p,
                     CheckQuotaMet (length (trace v)) s5 Member p]
                \<and> distinct [s1, s2, s3, s4, s5]
                \<and> set (ended_sessions (calls_since v v')) = {s1, s2, s3, s4, s5}))"
    using 3 4 by (intro impI conjI) (erule (1) impE, erule (1) impE, erule (1) impE, assumption)+
  show ?thesis by (rule conjI [OF 1 conjI [OF 2 34]])
qed

text \<open>
  The scenario on a project with five of everything and a persistence layer that makes no
  call fail: the forward pass brings the member counter to 2, and the revert, run on the
  same project, commits each of its five attempts.
\<close>

theorem pool_quota_scenario_witness:
  "HM \<lparr>HM = 1, member = 3\<rparr> = 1 \<and> member \<lparr>HM = 1, member = 3\<rparr> = 3
 \<and> Returned VNone \<noteq> Failure
 \<and> (\<forall>i c. faults (ref_env no_faults) i c = None)
 \<and> fst (DecrementPoolQuota_execute (ref_env no_faults) (VStr ''project1'')
           \<lparr>HM = 1, member = 3\<rparr> pool_world) = Inr ()
 \<and> trace (snd (DecrementPoolQuota_execute (ref_env no_faults) (VStr ''project1'')
           \<lparr>HM = 1, member = 3\<rparr> pool_world)) =
      [GetSession False,
       DecrementQuota 0 Pool (VStr ''project1'') 1,
       DecrementQuota 0 HealthMonitor (VStr ''project1'') 1,
       DecrementQuota 0 Member (VStr ''project1'') 3,
       Commit 0]
 \<and> quota (snd (DecrementPoolQuota_execute (ref_env no_faults) (VStr ''project1'')
           \<lparr>HM = 1, member = 3\<rparr> pool_world)) Member (VStr ''project1'') = 2
 \<and> fst (DecrementPoolQuota_revert (ref_env no_faults) (VStr ''project1'')
           \<lparr>HM = 1, member = 3\<rparr> (Returned VNone) pool_world) = Inr ()
 \<and> trace (snd (DecrementPoolQuota_revert (ref_env no_faults) (VStr ''project1'')
           \<lparr>HM = 1, member = 3\<rparr> (Returned VNone) pool_world)) =
      [GetSession True,
       GetSession False, CheckQuotaMet 0 1 Pool (VStr ''project1''), Commit 1,
       GetSession False, CheckQuotaMet 0 4 HealthMonitor (VStr ''project1''), Commit 4,
       GetSession False, CheckQuotaMet 0 7 Member (VStr ''project1''), Commit 7,
       GetSession False, CheckQuotaMet 0 10 Member (VStr ''project1''), Commit 10,
       GetSession False, CheckQuotaMet 0 13 Member (VStr ''project1''), Commit 13]
 \<and> quota (snd (DecrementPoolQuota_revert (ref_env no_faults) (VStr ''project1'')
           \<lparr>HM = 1, member = 3\<rparr> (Returned VNone) pool_world)) Member (VStr ''project1'') = 8
 \<and> quota (snd (DecrementPoolQuota_revert (ref_env no_faults) (VStr ''project1'')
           \<lparr>HM = 1, member = 3\<rparr> (Returned VNone) pool_world)) Pool (VStr ''project1'') = 6"
proof -
  let ?env = "ref_env no_faults"
  let ?p = "VStr ''project1''"
  let ?pcc = "\<lparr>HM = 1, member = 3\<rparr>"
  let ?q = "(\<lambda>k p. 5::int)(Pool := (\<lambda>p. 5)(?p := 4), HealthMonitor := (\<lambda>p. 5)(?p := 4),
              Member := (\<lambda>p. 5)(?p := 2))"
  have h: "HM ?pcc = 1" "member ?pcc = 3" by simp_all
  have res: "Returned VNone \<noteq> Failure" by simp
  have nf: "\<forall>i c. faults ?env i c = None" by (simp add: ref_env_def no_faults_def)
  have nf1: "\<forall>n a. faults ?env n (GetSession a) = None" using nf by simp
  have nf2: "\<forall>n s. faults ?env n (Rollback s) = None" using nf by simp
  have casc: "cascade_decrement ?env ?p ?pcc (quota pool_world) = Inr ?q"
    by (simp add: cascade_decrement_def ref_env_def ref_decrement_def pool_world_simps
        fun_eq_iff)
  note T = pool_quota_scenario [OF h, where env = ?env and p = ?p and w = pool_world
      and v = pool_world and q' = ?q and result = "Returned VNone"]
  from T [THEN conjunct2, THEN conjunct1, THEN mp, THEN mp, OF nf casc]
  have ex: "DecrementPoolQuota_execute ?env ?p ?pcc pool_world =
      (Inr (), pool_world\<lparr>trace := [GetSession False,
                           DecrementQuota 0 Pool ?p 1,
                           DecrementQuota 0 HealthMonitor ?p 1,
                           DecrementQuota 0 Member ?p 3,
                           Commit 0],
                        quota := ?q\<rparr>)"
    by (simp add: pool_world_simps)
  from T [THEN conjunct2, THEN conjunct2, THEN mp, THEN mp, THEN mp, OF res nf1 nf2,
      THEN conjunct1]
  have rv: "DecrementPoolQuota_revert ?env ?p ?pcc (Returned VNone) pool_world =
      (Inr (), pool_world\<lparr>trace := GetSession True
                           # fst (reincrement_calls ?env 0 ?p
                                    [Pool, HealthMonitor, Member, Member, Member] 1
                                    (\<lambda>k p. 5)),
                        quota := snd (reincrement_calls ?env 0 ?p
                                    [Pool, HealthMonitor, Member, Member, Member] 1
                                    (\<lambda>k p. 5))\<rparr>)"
    by (simp add: pool_world_simps)
  show ?thesis
    unfolding ex rv using h res nf
    by (simp add: no_faults_calls)
qed

text \<open>
  Claim C3 as stated fails when a session cannot be opened. The fifth call of the revert is
  the opening of the lock session for the health monitor; it raises, the outer
  \<^verbatim>\<open>try\<close> of revert swallows the exception, and revert returns having made one
  \<^verbatim>\<open>check_quota_met\<close> call, not five.
\<close>

theorem pool_quota_scenario_counterexample:
  "fst (DecrementPoolQuota_revert (ref_env fifth_call_fails) (VStr ''project1'')
           \<lparr>HM = 1, member = 3\<rparr> (Returned VNone) pool_world) = Inr ()
 \<and> trace (snd (DecrementPoolQuota_revert (ref_env fifth_call_fails) (VStr ''project1'')
           \<lparr>HM = 1, member = 3\<rparr> (Returned VNone) pool_world)) =
      [GetSession True,
       GetSession False, CheckQuotaMet 0 1 Pool (VStr ''project1''), Commit 1,
       GetSession False]
 \<and> filter is_check_quota_met
      (trace (snd (DecrementPoolQuota_revert (ref_env fifth_call_fails) (VStr ''project1'')
           \<lparr>HM = 1, member = 3\<rparr> (Returned VNone) pool_world))) =
      [CheckQuotaMet 0 1 Pool (VStr ''project1'')]"
proof -
  have "DecrementPoolQuota_revert (ref_env fifth_call_fails) (VStr ''project1'')
           \<lparr>HM = 1, member = 3\<rparr> (Returned VNone) pool_world =
        (Inr (), pool_world\<lparr>trace := [GetSession True,
            GetSession False, CheckQuotaMet 0 1 Pool (VStr ''project1''), Commit 1,
            GetSession False],
          quota := (\<lambda>k p. 5)(Pool := (\<lambda>p. 5)(VStr ''project1'' := 6))\<rparr>)"
    by (simp add: DecrementPoolQuota_revert_def check_and_commit_def bindM_def seqM_def
        try_except_def returnM_def get_session_eq check_quota_met_eq commit_eq
        attempt_def ref_env_def fifth_call_fails_def ref_check_quota_met_def pool_world_simps
        fun_eq_iff)
  then show ?thesis by simp
qed

section \<open>The cascading status walk under failures\<close>

lemma extends_traceD: "extends_trace m \<Longrightarrow> m w = (r, w') \<Longrightarrow> \<exists>t. trace w' = trace w @ t"
  unfolding extends_trace_def by (metis snd_conv)

lemma extends_returnM [simp]: "extends_trace (returnM x)"
  by (simp add: extends_trace_def returnM_def)

lemma extends_raiseM [simp]: "extends_trace (raiseM e)"
  by (simp add: extends_trace_def raiseM_def)

lemma extends_bindM:
  assumes "extends_trace m" and "\<And>x. extends_trace (f x)"
  shows "extends_trace (bindM m f)"
  unfolding extends_trace_def
proof
  fix w
  obtain r w1 where m: "m w = (r, w1)" by force
  from extends_traceD [OF assms(1) m] obtain t where t: "trace w1 = trace w @ t" by blast
  show "\<exists>t. trace (snd (bindM m f w)) = trace w @ t"
  proof (cases r)
    case (Inl e)
    with m t show ?thesis by (simp add: bindM_def)
  next
    case (Inr x)
    obtain r2 w2 where f: "f x w1 = (r2, w2)" by force
    from extends_traceD [OF assms(2) f] obtain t2 where "trace w2 = trace w1 @ t2" by blast
    with m t f Inr show ?thesis by (simp add: bindM_def)
  qed
qed

lemma extends_seqM:
  "extends_trace m1 \<Longrightarrow> extends_trace m2 \<Longrightarrow> extends_trace (seqM m1 m2)"
  by (simp add: seqM_def extends_bindM)

lemma extends_try_except:
  assumes "extends_trace m" and "\<And>e. extends_trace (h e)"
  shows "extends_trace (try_except m h)"
  unfolding extends_trace_def
proof
  fix w
  obtain r w1 where m: "m w = (r, w1)" by force
  from extends_traceD [OF assms(1) m] obtain t where t: "trace w1 = trace w @ t" by blast
  show "\<exists>t. trace (snd (try_except m h w)) = trace w @ t"
  proof (cases r)
    case (Inr x)
    with m t show ?thesis by (simp add: try_except_def)
  next
    case (Inl e)
    obtain r2 w2 where f: "h e w1 = (r2, w2)" by force
    from extends_traceD [OF assms(2) f] obtain t2 where "trace w2 = trace w1 @ t2" by blast
    with m t f Inl show ?thesis by (simp add: try_except_def)
  qed
qed

lemma extends_for_each:
  "(\<And>x. extends_trace (body x)) \<Longrightarrow> extends_trace (for_each xs body)"
  by (induction xs) (simp_all add: extends_seqM)

lemma extends_repo_update [simp]: "extends_trace (repo_update env r i kw)"
  by (simp add: extends_trace_def repo_update_def write_call_simps)

lemma extends_mark_pool_status [simp]: "extends_trace (mark_pool_status env pool st)"
  by (auto simp: mark_pool_status_def mark_hm_status_def mark_member_status_def
      intro!: extends_seqM extends_for_each split: option.split)

lemma extends_mark_l7policy_status [simp]:
  "extends_trace (mark_l7policy_status env l7policy st)"
  by (auto simp: mark_l7policy_status_def mark_l7rule_status_def
      intro!: extends_seqM extends_for_each split: option.split)

lemma listener_first_call:
  assumes "mark_listener_status env l st w = (r, w')"
  shows "\<exists>t. trace w' = trace w
            @ Update listener_repo (listener_id l) [(''provisioning_status'', st)] # t"
proof -
  let ?c = "Update listener_repo (listener_id l) [(''provisioning_status'', st)]"
  let ?rest = "seqM (for_each (l7policies l)
             (\<lambda>l7policy. mark_l7policy_status env l7policy st))
          (case default_pool l of
             Some pool \<Rightarrow> mark_pool_status env pool st
           | None \<Rightarrow> returnM ())"
  have rest: "extends_trace ?rest"
    by (auto intro!: extends_seqM extends_for_each split: option.split)
  obtain r1 w1 where u: "repo_update env listener_repo (listener_id l)
      [(''provisioning_status'', st)] w = (r1, w1)" by force
  then have t1: "trace w1 = trace w @ [?c]"
    using write_call_simps(1) [of env ?c "update_row env listener_repo (listener_id l)
      [(''provisioning_status'', st)]" w] by (simp add: repo_update_def)
  show ?thesis
  proof (cases r1)
    case (Inl e)
    with u assms t1 show ?thesis
      by (simp add: mark_listener_status_def seqM_def bindM_def)
  next
    case (Inr x)
    with u assms have "?rest w1 = (r, w')"
      by (simp add: mark_listener_status_def seqM_def bindM_def)
    from extends_traceD [OF rest this] t1 show ?thesis by auto
  qed
qed

lemma revert_loop:
  assumes "for_each ls (\<lambda>l. try_except (mark_listener_status env l ERROR)
                             (\<lambda>e. returnM ())) w = (r, w')"
  shows "r = Inr () \<and> (\<exists>t. trace w' = trace w @ t
      \<and> (\<forall>l\<in>set ls. Update listener_repo (listener_id l) [(''provisioning_status'', ERROR)]
            \<in> set t))"
  using assms
proof (induction ls arbitrary: w r w')
  case Nil
  then show ?case by (simp add: returnM_def)
next
  case (Cons l ls)
  obtain r0 w0 where m: "mark_listener_status env l ERROR w = (r0, w0)" by force
  from listener_first_call [OF m] obtain t0 where
    t0: "trace w0 = trace w @ Update listener_repo (listener_id l)
           [(''provisioning_status'', ERROR)] # t0" by blast
  from m have b: "try_except (mark_listener_status env l ERROR) (\<lambda>e. returnM ()) w
      = (Inr (), w0)"
    by (cases r0) (simp_all add: try_except_def returnM_def)
  with Cons.prems have rest: "for_each ls (\<lambda>l. try_except (mark_listener_status env l ERROR)
                             (\<lambda>e. returnM ())) w0 = (r, w')"
    by (simp add: seqM_def bindM_def)
  from Cons.IH [OF rest] t0 show ?case by auto
qed

lemma mark_lb_error_spec:
  "fst (mark_loadbalancer_prov_status_error env i w) = Inr ()"
  "trace (snd (mark_loadbalancer_prov_status_error env i w))
     = trace w @ [Update loadbalancer_repo i [(''provisioning_status'', ERROR)]]"
  by (simp_all add: mark_loadbalancer_prov_status_error_def mark_prov_status_error_def
      try_except_def returnM_def repo_update_def write_call_def Let_def split: sum.split)

lemma get_db_lb_ok:
  assumes "attempt env (length (trace w)) (Get loadbalancer_repo i)
             (get_loadbalancer env i) (store w) = Inr (Some db_lb)"
  shows "get_db_lb env i w = (Inr db_lb, w\<lparr>trace := trace w @ [Get loadbalancer_repo i]\<rparr>)"
  using assms by (simp add: get_db_lb_def bindM_def read_call_eq returnM_def)

lemma lb_revert_spec:
  assumes got: "attempt env (length (trace w)) (Get loadbalancer_repo (LOADBALANCER_ID lb))
             (get_loadbalancer env (LOADBALANCER_ID lb)) (store w) = Inr (Some db_lb)"
    and run: "MarkLBActiveInDB_revert env True lb result w = (r, w')"
  shows "r = Inr ()
     \<and> (\<forall>l\<in>set (listeners db_lb).
           Update listener_repo (listener_id l) [(''provisioning_status'', ERROR)]
             \<in> set (calls_since w w'))
     \<and> last (calls_since w w') =
         Update loadbalancer_repo (LOADBALANCER_ID lb) [(''provisioning_status'', ERROR)]"
proof -
  let ?w0 = "w\<lparr>trace := trace w @ [Get loadbalancer_repo (LOADBALANCER_ID lb)]\<rparr>"
  obtain r1 w1 where loop: "for_each (listeners db_lb)
      (\<lambda>l. try_except (mark_listener_status env l ERROR) (\<lambda>e. returnM ())) ?w0 = (r1, w1)"
    by force
  from revert_loop [OF loop] obtain t where
    t: "r1 = Inr ()" "trace w1 = trace ?w0 @ t"
      "\<forall>l\<in>set (listeners db_lb).
           Update listener_repo (listener_id l) [(''provisioning_status'', ERROR)] \<in> set t"
    by blast
  have "MarkLBActiveInDB_revert env True lb result w =
      mark_loadbalancer_prov_status_error env (LOADBALANCER_ID lb) w1"
    using get_db_lb_ok [OF got] loop t(1)
    by (simp add: MarkLBActiveInDB_revert_def seqM_def bindM_def)
  with run mark_lb_error_spec [of env "LOADBALANCER_ID lb" w1]
  have "r = Inr ()" "trace w' = trace w1
      @ [Update loadbalancer_repo (LOADBALANCER_ID lb) [(''provisioning_status'', ERROR)]]"
    by simp_all
  with t show ?thesis by (simp add: calls_since_def)
qed

lemma lb_execute_aborts:
  assumes got: "attempt env (length (trace w)) (Get loadbalancer_repo (LOADBALANCER_ID lb))
             (get_loadbalancer env (LOADBALANCER_ID lb)) (store w) = Inr (Some db_lb)"
    and first: "listeners db_lb = l # ls"
    and fails: "attempt env (Suc (length (trace w)))
             (Update listener_repo (listener_id l) [(''provisioning_status'', ACTIVE)])
             (update_row env listener_repo (listener_id l) [(''provisioning_status'', ACTIVE)])
             (store w) = Inl e"
  shows "MarkLBActiveInDB_execute env True lb w =
     (Inl e, w\<lparr>trace := trace w @ [Get loadbalancer_repo (LOADBALANCER_ID lb),
        Update listener_repo (listener_id l) [(''provisioning_status'', ACTIVE)]]\<rparr>)"
  using fails
  by (simp add: MarkLBActiveInDB_execute_def seqM_def bindM_def get_db_lb_ok [OF got] first
      mark_listener_status_def repo_update_def write_call_def Let_def)

lemma seqM_assoc: "seqM (seqM a b) c = seqM a (seqM b c)"
  by (rule ext) (simp add: seqM_def bindM_def split: prod.splits sum.splits)

lemma seqM_returnM_left: "seqM (returnM x) m = m"
  by (rule ext) (simp add: seqM_def bindM_def returnM_def)

lemma seqM_returnM_right: "seqM m (returnM ()) = (m :: ('s, 'q, unit) task)"
  by (rule ext) (simp add: seqM_def bindM_def returnM_def split: prod.splits sum.splits)

lemma for_each_append:
  "for_each (xs @ ys) body = seqM (for_each xs body) (for_each ys body)"
  by (induction xs) (simp_all add: seqM_returnM_left seqM_assoc)

lemma for_each_map: "for_each (map f xs) body = for_each xs (\<lambda>x. body (f x))"
  by (induction xs) simp_all

lemma for_each_concat_map:
  "for_each (concat (map g xs)) body = for_each xs (\<lambda>x. for_each (g x) body)"
  by (induction xs) (simp_all add: for_each_append)

lemma pool_walk_eq: "mark_pool_status env pool st = perform_all env (pool_walk pool st)"
  by (simp add: mark_pool_status_def perform_all_def pool_walk_def for_each_append
      for_each_map mark_hm_status_def mark_member_status_def seqM_returnM_right
      split: option.split)

lemma l7policy_walk_eq:
  "mark_l7policy_status env l7policy st = perform_all env (l7policy_walk l7policy st)"
  by (simp add: mark_l7policy_status_def l7policy_walk_def for_each_append
      for_each_map mark_l7rule_status_def seqM_returnM_right pool_walk_eq
      split: option.split) (simp add: perform_all_def for_each_append for_each_map seqM_returnM_right)

lemma listener_walk_eq:
  "mark_listener_status env listener st = perform_all env (listener_walk listener st)"
  by (simp add: mark_listener_status_def listener_walk_def l7policy_walk_eq pool_walk_eq
      split: option.split)
     (simp add: perform_all_def for_each_append for_each_concat_map seqM_returnM_right)


lemma walk_updates:
  "\<forall>c\<in>set (pool_walk pool st). \<exists>r i kw. c = Update r i kw"
  "\<forall>c\<in>set (l7policy_walk l7policy st). \<exists>r i kw. c = Update r i kw"
  "\<forall>c\<in>set (listener_walk listener st). \<exists>r i kw. c = Update r i kw"
  "\<forall>c\<in>set (lb_walk db_lb st). \<exists>r i kw. c = Update r i kw"
proof -
  show p: "\<forall>c\<in>set (pool_walk pool st). \<exists>r i kw. c = Update r i kw" for pool
    by (auto simp: pool_walk_def split: option.splits)
  show l7: "\<forall>c\<in>set (l7policy_walk l7policy st). \<exists>r i kw. c = Update r i kw" for l7policy
    using p by (auto simp: l7policy_walk_def split: option.splits)
  show l: "\<forall>c\<in>set (listener_walk listener st). \<exists>r i kw. c = Update r i kw" for listener
    using p l7 by (auto simp: listener_walk_def split: option.splits)
  show "\<forall>c\<in>set (lb_walk db_lb st). \<exists>r i kw. c = Update r i kw"
    using l by (auto simp: lb_walk_def)
qed

lemma perform_update_run:
  assumes "perform env (Update r0 i kw) w = (r1, w1)"
  shows "trace w1 = trace w @ [Update r0 i kw]"
    "isl r1 \<Longrightarrow> w1 = w\<lparr>trace := trace w @ [Update r0 i kw]\<rparr>"
  using assms
  by (auto simp: repo_update_def write_call_def Let_def split: sum.splits)

lemma perform_all_spec:
  assumes upd: "\<forall>c\<in>set cs. \<exists>r i kw. c = Update r i kw"
    and run: "perform_all env cs w = (r, w')"
  shows "\<exists>t. trace w' = trace w @ t \<and> prefix t cs \<and> (\<not> isl r \<longrightarrow> t = cs)
     \<and> (isl r \<longrightarrow> t \<noteq> []
          \<and> fst (perform env (last t) (w'\<lparr>trace := butlast (trace w')\<rparr>)) = r)"
  using assms
proof (induction cs arbitrary: w)
  case Nil
  then show ?case by (auto simp: perform_all_def returnM_def)
next
  case (Cons c cs)
  from Cons.prems(1) obtain r0 i kw where c: "c = Update r0 i kw" by auto
  obtain r1 w1 where s1: "perform env c w = (r1, w1)" by force
  note f1 = perform_update_run [OF s1 [unfolded c]]
  show ?case
  proof (cases r1)
    case (Inl e)
    with s1 Cons.prems(2) have rw: "r = Inl e" "w' = w1"
      by (simp_all add: perform_all_def seqM_def bindM_def)
    from f1(2) Inl have w1: "w1 = w\<lparr>trace := trace w @ [c]\<rparr>" by (simp add: c)
    have "w'\<lparr>trace := butlast (trace w')\<rparr> = w" using rw w1 by simp
    with s1 rw Inl have "fst (perform env c (w'\<lparr>trace := butlast (trace w')\<rparr>)) = r" by simp
    with rw w1 show ?thesis by (intro exI [of _ "[c]"]) simp
  next
    case (Inr u)
    with s1 Cons.prems(2) have rest: "perform_all env cs w1 = (r, w')"
      by (simp add: perform_all_def seqM_def bindM_def)
    from Cons.prems(1) have "\<forall>c\<in>set cs. \<exists>r i kw. c = Update r i kw" by simp
    from Cons.IH [OF this rest] obtain t where
      t: "trace w' = trace w1 @ t" "prefix t cs" "\<not> isl r \<longrightarrow> t = cs"
        "isl r \<longrightarrow> t \<noteq> []
          \<and> fst (perform env (last t) (w'\<lparr>trace := butlast (trace w')\<rparr>)) = r"
      by blast
    with f1(1) show ?thesis by (intro exI [of _ "c # t"]) (auto simp: c)
  qed
qed

lemma bindM_assoc: "bindM (bindM m f) g = bindM m (\<lambda>x. bindM (f x) g)"
  by (rule ext) (simp add: bindM_def split: prod.splits sum.splits)

lemma bind_get_db_lb:
  assumes "attempt env (length (trace w)) (Get loadbalancer_repo i)
             (get_loadbalancer env i) (store w) = Inr (Some db_lb)"
  shows "bindM (get_db_lb env i) f w = f db_lb (w\<lparr>trace := trace w @ [Get loadbalancer_repo i]\<rparr>)"
  by (simp add: bindM_def get_db_lb_ok [OF assms])

lemma lb_execute_flat:
  assumes got: "attempt env (length (trace w)) (Get loadbalancer_repo (LOADBALANCER_ID lb))
             (get_loadbalancer env (LOADBALANCER_ID lb)) (store w) = Inr (Some db_lb)"
  shows "MarkLBActiveInDB_execute env True lb w =
     perform_all env (lb_walk db_lb ACTIVE
        @ [Update loadbalancer_repo (LOADBALANCER_ID lb) [(''provisioning_status'', ACTIVE)]])
       (w\<lparr>trace := trace w @ [Get loadbalancer_repo (LOADBALANCER_ID lb)]\<rparr>)"
proof -
  have "MarkLBActiveInDB_execute env True lb w =
      seqM (for_each (listeners db_lb) (\<lambda>listener. mark_listener_status env listener ACTIVE))
           (repo_update env loadbalancer_repo (LOADBALANCER_ID lb)
              [(''provisioning_status'', ACTIVE)])
        (w\<lparr>trace := trace w @ [Get loadbalancer_repo (LOADBALANCER_ID lb)]\<rparr>)"
    by (simp add: MarkLBActiveInDB_execute_def seqM_def bindM_assoc
        bind_get_db_lb [OF got])
  then show ?thesis
    by (simp add: listener_walk_eq perform_all_def lb_walk_def for_each_append
        for_each_concat_map seqM_returnM_right)
qed

lemma lb_execute_walk:
  assumes got: "attempt env (length (trace w)) (Get loadbalancer_repo (LOADBALANCER_ID lb))
             (get_loadbalancer env (LOADBALANCER_ID lb)) (store w) = Inr (Some db_lb)"
    and run: "MarkLBActiveInDB_execute env True lb w = (r, w')"
  shows "prefix (calls_since w w')
           (Get loadbalancer_repo (LOADBALANCER_ID lb) # lb_walk db_lb ACTIVE
            @ [Update loadbalancer_repo (LOADBALANCER_ID lb) [(''provisioning_status'', ACTIVE)]])
       \<and> (\<not> isl r \<longrightarrow> calls_since w w' =
            Get loadbalancer_repo (LOADBALANCER_ID lb) # lb_walk db_lb ACTIVE
            @ [Update loadbalancer_repo (LOADBALANCER_ID lb) [(''provisioning_status'', ACTIVE)]])
       \<and> (isl r \<longrightarrow>
            fst (perform env (last (trace w')) (w'\<lparr>trace := butlast (trace w')\<rparr>)) = r)"
proof -
  let ?cs = "lb_walk db_lb ACTIVE
        @ [Update loadbalancer_repo (LOADBALANCER_ID lb) [(''provisioning_status'', ACTIVE)]]"
  let ?w0 = "w\<lparr>trace := trace w @ [Get loadbalancer_repo (LOADBALANCER_ID lb)]\<rparr>"
  have upd: "\<forall>c\<in>set ?cs. \<exists>r i kw. c = Update r i kw"
    using walk_updates(4) [of db_lb ACTIVE] by auto
  from run lb_execute_flat [OF got] have "perform_all env ?cs ?w0 = (r, w')" by simp
  from perform_all_spec [OF upd this] obtain t where
    t: "trace w' = trace ?w0 @ t" "prefix t ?cs" "\<not> isl r \<longrightarrow> t = ?cs"
      "isl r \<longrightarrow> t \<noteq> []
          \<and> fst (perform env (last t) (w'\<lparr>trace := butlast (trace w')\<rparr>)) = r"
    by blast
  from t(1) have cs: "calls_since w w' = Get loadbalancer_repo (LOADBALANCER_ID lb) # t"
    by (simp add: calls_since_def)
  have l: "t \<noteq> [] \<Longrightarrow> last (trace w') = last t" using t(1) by simp
  from cs t(2,3,4) l show ?thesis by auto
qed

lemma lb_revert_flat:
  assumes got: "attempt env (length (trace w)) (Get loadbalancer_repo (LOADBALANCER_ID lb))
             (get_loadbalancer env (LOADBALANCER_ID lb)) (store w) = Inr (Some db_lb)"
  shows "MarkLBActiveInDB_revert env True lb result w =
     seqM (for_each (listeners db_lb)
             (\<lambda>listener. try_except (perform_all env (listener_walk listener ERROR))
                            (\<lambda>e. returnM ())))
          (mark_loadbalancer_prov_status_error env (LOADBALANCER_ID lb))
       (w\<lparr>trace := trace w @ [Get loadbalancer_repo (LOADBALANCER_ID lb)]\<rparr>)"
  by (simp add: MarkLBActiveInDB_revert_def seqM_def bindM_assoc
      bind_get_db_lb [OF got] listener_walk_eq)

lemma revert_blocks:
  assumes "for_each ls (\<lambda>l. try_except (perform_all env (listener_walk l ERROR))
                             (\<lambda>e. returnM ())) w = (r, w')"
  shows "r = Inr () \<and> (\<exists>bs. trace w' = trace w @ concat bs
      \<and> list_all2 (\<lambda>b l. b \<noteq> [] \<and> prefix b (listener_walk l ERROR)) bs ls)"
  using assms
proof (induction ls arbitrary: w)
  case Nil
  then show ?case by (simp add: returnM_def)
next
  case (Cons l ls)
  obtain r0 w0 where m: "perform_all env (listener_walk l ERROR) w = (r0, w0)" by force
  from perform_all_spec [OF walk_updates(3) m] obtain t where
    t: "trace w0 = trace w @ t" "prefix t (listener_walk l ERROR)"
      "\<not> isl r0 \<longrightarrow> t = listener_walk l ERROR" "isl r0 \<longrightarrow> t \<noteq> []"
    by blast
  have ne: "t \<noteq> []" using t(3,4) by (cases "isl r0") (auto simp: listener_walk_def)
  from m have b: "try_except (perform_all env (listener_walk l ERROR)) (\<lambda>e. returnM ()) w
      = (Inr (), w0)"
    by (cases r0) (simp_all add: try_except_def returnM_def)
  with Cons.prems have rest: "for_each ls (\<lambda>l. try_except (perform_all env (listener_walk l ERROR))
                             (\<lambda>e. returnM ())) w0 = (r, w')"
    by (simp add: seqM_def bindM_def)
  from Cons.IH [OF rest] obtain bs where
    bs: "r = Inr ()" "trace w' = trace w0 @ concat bs"
      "list_all2 (\<lambda>b l. b \<noteq> [] \<and> prefix b (listener_walk l ERROR)) bs ls"
    by blast
  with t ne show ?case by (intro conjI exI [of _ "t # bs"]) simp_all
qed

lemma lb_revert_blocks:
  assumes got: "attempt env (length (trace w)) (Get loadbalancer_repo (LOADBALANCER_ID lb))
             (get_loadbalancer env (LOADBALANCER_ID lb)) (store w) = Inr (Some db_lb)"
    and run: "MarkLBActiveInDB_revert env True lb result w = (r, w')"
  shows "\<exists>bs. calls_since w w' =
           Get loadbalancer_repo (LOADBALANCER_ID lb) # concat bs
           @ [Update loadbalancer_repo (LOADBALANCER_ID lb) [(''provisioning_status'', ERROR)]]
       \<and> list_all2 (\<lambda>b l. b \<noteq> [] \<and> prefix b (listener_walk l ERROR)) bs (listeners db_lb)"
proof -
  let ?w0 = "w\<lparr>trace := trace w @ [Get loadbalancer_repo (LOADBALANCER_ID lb)]\<rparr>"
  obtain r1 w1 where loop: "for_each (listeners db_lb)
      (\<lambda>l. try_except (perform_all env (listener_walk l ERROR)) (\<lambda>e. returnM ())) ?w0 = (r1, w1)"
    by force
  from revert_blocks [OF loop] obtain bs where
    bs: "r1 = Inr ()" "trace w1 = trace ?w0 @ concat bs"
      "list_all2 (\<lambda>b l. b \<noteq> [] \<and> prefix b (listener_walk l ERROR)) bs (listeners db_lb)"
    by blast
  have "MarkLBActiveInDB_revert env True lb result w =
      mark_loadbalancer_prov_status_error env (LOADBALANCER_ID lb) w1"
    using lb_revert_flat [OF got, of result] loop bs(1) by (simp add: seqM_def bindM_def)
  with run mark_lb_error_spec(2) [of env "LOADBALANCER_ID lb" w1]
  have "trace w' = trace w1
      @ [Update loadbalancer_repo (LOADBALANCER_ID lb) [(''provisioning_status'', ERROR)]]"
    by simp
  with bs show ?thesis by (intro exI [of _ bs]) (simp add: calls_since_def)
qed


text \<open>
  Claim C4, as amended. \<^verbatim>\<open>MarkLBActiveInDB\<close> runs with
  \<^verbatim>\<open>mark_subobjects=True\<close> and the load balancer has been read. The nodes are
  walked depth first, and the status update of each node is a call of its own on the
  persistence layer: \<open>lb_walk\<close> is the list of these calls.
  \<^item> In the \<^verbatim>\<open>ERROR\<close> direction (revert) the walk of one listener and of what
    is beneath it is inside one \<^verbatim>\<open>try\<close>: it is the list of the updates of
    that subtree, made one after the other and ended by the first that raises; the
    exception is caught and the walk goes on with the next listener. So, after the read,
    the calls of revert are one block per listener, in order, each a prefix of the walk of
    that listener and never empty: every listener's own update is attempted, whichever
    updates raise. The last call marks the load balancer itself \<^verbatim>\<open>ERROR\<close>,
    and revert returns normally.
  \<^item> In the \<^verbatim>\<open>ACTIVE\<close> direction (execute) nothing is caught: execute is the
    list of the updates of the whole tree followed by the update of the load balancer, made
    one after the other and ended by the first that raises. Its calls are a prefix of that
    list, and all of it when execute returns; when execute raises, its last call is the one
    that raised, and what that call raised is what execute raises. In particular, when the
    update of the first listener raises, execute raises the same exception and makes no
    further call.
\<close>

theorem cascading_walk_isolates_listeners_on_revert:
  assumes got: "attempt env (length (trace w)) (Get loadbalancer_repo (LOADBALANCER_ID lb))
             (get_loadbalancer env (LOADBALANCER_ID lb)) (store w) = Inr (Some db_lb)"
  shows "(case MarkLBActiveInDB_revert env True lb result w of (r, w') \<Rightarrow>
            r = Inr ()
          \<and> (\<forall>l\<in>set (listeners db_lb).
                Update listener_repo (listener_id l) [(''provisioning_status'', ERROR)]
                  \<in> set (calls_since w w'))
          \<and> last (calls_since w w') =
              Update loadbalancer_repo (LOADBALANCER_ID lb) [(''provisioning_status'', ERROR)]
          \<and> (\<exists>bs. calls_since w w' =
                 Get loadbalancer_repo (LOADBALANCER_ID lb) # concat bs
                 @ [Update loadbalancer_repo (LOADBALANCER_ID lb)
                      [(''provisioning_status'', ERROR)]]
               \<and> list_all2 (\<lambda>b l. b \<noteq> [] \<and> prefix b (listener_walk l ERROR))
                    bs (listeners db_lb)))
       \<and> MarkLBActiveInDB_revert env True lb result w =
           seqM (for_each (listeners db_lb)
                   (\<lambda>listener. try_except (perform_all env (listener_walk listener ERROR))
                                  (\<lambda>e. returnM ())))
                (mark_loadbalancer_prov_status_error env (LOADBALANCER_ID lb))
             (w\<lparr>trace := trace w @ [Get loadbalancer_repo (LOADBALANCER_ID lb)]\<rparr>)
       \<and> MarkLBActiveInDB_execute env True lb w =
           perform_all env (lb_walk db_lb ACTIVE
              @ [Update loadbalancer_repo (LOADBALANCER_ID lb)
                   [(''provisioning_status'', ACTIVE)]])
             (w\<lparr>trace := trace w @ [Get loadbalancer_repo (LOADBALANCER_ID lb)]\<rparr>)
       \<and> (case MarkLBActiveInDB_execute env True lb w of (r, w') \<Rightarrow>
            prefix (calls_since w w')
              (Get loadbalancer_repo (LOADBALANCER_ID lb) # lb_walk db_lb ACTIVE
               @ [Update loadbalancer_repo (LOADBALANCER_ID lb)
                    [(''provisioning_status'', ACTIVE)]])
          \<and> (\<not> isl r \<longrightarrow> calls_since w w' =
               Get loadbalancer_repo (LOADBALANCER_ID lb) # lb_walk db_lb ACTIVE
               @ [Update loadbalancer_repo (LOADBALANCER_ID lb)
                    [(''provisioning_status'', ACTIVE)]])
          \<and> (isl r \<longrightarrow>
               fst (perform env (last (trace w')) (w'\<lparr>trace := butlast (trace w')\<rparr>)) = r))
       \<and> (\<forall>l ls e. listeners db_lb = l # ls \<longrightarrow>
             attempt env (Suc (length (trace w)))
               (Update listener_repo (listener_id l) [(''provisioning_status'', ACTIVE)])
               (update_row env listener_repo (listener_id l)
                  [(''provisioning_status'', ACTIVE)])
               (store w) = Inl e \<longrightarrow>
             MarkLBActiveInDB_execute env True lb w =
               (Inl e, w\<lparr>trace := trace w @ [Get loadbalancer_repo (LOADBALANCER_ID lb),
                  Update listener_repo (listener_id l) [(''provisioning_status'', ACTIVE)]]\<rparr>))"
proof -
  obtain r w' where run: "MarkLBActiveInDB_revert env True lb result w = (r, w')" by force
  obtain r2 w2 where ex: "MarkLBActiveInDB_execute env True lb w = (r2, w2)" by force
  note A = lb_revert_spec [OF got run]
  note B = lb_revert_blocks [OF got run]
  note C = lb_revert_flat [OF got, of result]
  note D = lb_execute_flat [OF got]
  note E = lb_execute_walk [OF got ex]
  note F = lb_execute_aborts [OF got]
  have 1: "case MarkLBActiveInDB_revert env True lb result w of (r, w') \<Rightarrow>
            r = Inr ()
          \<and> (\<forall>l\<in>set (listeners db_lb).
                Update listener_repo (listener_id l) [(''provisioning_status'', ERROR)]
                  \<in> set (calls_since w w'))
          \<and> last (calls_since w w') =
              Update loadbalancer_repo (LOADBALANCER_ID lb) [(''provisioning_status'', ERROR)]
          \<and> (\<exists>bs. calls_since w w' =
                 Get loadbalancer_repo (LOADBALANCER_ID lb) # concat bs
                 @ [Update loadbalancer_repo (LOADBALANCER_ID lb)
                      [(''provisioning_status'', ERROR)]]
               \<and> list_all2 (\<lambda>b l. b \<noteq> [] \<and> prefix b (listener_walk l ERROR))
                    bs (listeners db_lb))"
    using A B by (simp add: run)
  have 2: "case MarkLBActiveInDB_execute env True lb w of (r, w') \<Rightarrow>
            prefix (calls_since w w')
              (Get loadbalancer_repo (LOADBALANCER_ID lb) # lb_walk db_lb ACTIVE
               @ [Update loadbalancer_repo (LOADBALANCER_ID lb)
                    [(''provisioning_status'', ACTIVE)]])
          \<and> (\<not> isl r \<longrightarrow> calls_since w w' =
               Get loadbalancer_repo (LOADBALANCER_ID lb) # lb_walk db_lb ACTIVE
               @ [Update loadbalancer_repo (LOADBALANCER_ID lb)
                    [(''provisioning_status'', ACTIVE)]])
          \<and> (isl r \<longrightarrow>
               fst (perform env (last (trace w')) (w'\<lparr>trace := butlast (trace w')\<rparr>)) = r)"
    using E unfolding ex by simp
  from 1 C D 2 F show ?thesis by blast
qed

text \<open>
  A load balancer with two listeners, the first with a pool of one member. When the updates
  of the first listener raise, revert still marks the second listener. When the updates of
  the member raise, execute stops there and raises: the second listener and the load
  balancer are not marked \<^verbatim>\<open>ACTIVE\<close>.
\<close>

theorem cascading_walk_isolates_listeners_on_revert_witness:
  "attempt (ref_env listener1_fails) (length (trace lb_world))
      (Get loadbalancer_repo (VStr ''lb1''))
      (get_loadbalancer (ref_env listener1_fails) (VStr ''lb1'')) (store lb_world)
     = Inr (Some lb1_tree)
 \<and> fst (MarkLBActiveInDB_revert (ref_env listener1_fails) True
          (provider_dict_of (VStr ''lb1'')) (Returned VNone) lb_world) = Inr ()
 \<and> Update listener_repo (VStr ''listener2'') [(''provisioning_status'', ERROR)]
      \<in> set (calls_since lb_world (snd (MarkLBActiveInDB_revert (ref_env listener1_fails) True
          (provider_dict_of (VStr ''lb1'')) (Returned VNone) lb_world)))
 \<and> attempt (ref_env member1_fails) (length (trace lb_world))
      (Get loadbalancer_repo (VStr ''lb1''))
      (get_loadbalancer (ref_env member1_fails) (VStr ''lb1'')) (store lb_world)
     = Inr (Some lb1_tree)
 \<and> fst (MarkLBActiveInDB_execute (ref_env member1_fails) True
          (provider_dict_of (VStr ''lb1'')) lb_world) = Inl (OtherException ''update failed'')
 \<and> trace (snd (MarkLBActiveInDB_execute (ref_env member1_fails) True
          (provider_dict_of (VStr ''lb1'')) lb_world)) =
      [Get loadbalancer_repo (VStr ''lb1''),
       Update listener_repo (VStr ''listener1'') [(''provisioning_status'', ACTIVE)],
       Update pool_repo (VStr ''pool1'') [(''provisioning_status'', ACTIVE)],
       Update member_repo (VStr ''member1'') [(''provisioning_status'', ACTIVE)]]"
proof -
  have g: "attempt (ref_env listener1_fails) (length (trace lb_world))
      (Get loadbalancer_repo (LOADBALANCER_ID (provider_dict_of (VStr ''lb1''))))
      (get_loadbalancer (ref_env listener1_fails)
         (LOADBALANCER_ID (provider_dict_of (VStr ''lb1'')))) (store lb_world)
     = Inr (Some lb1_tree)"
    by (simp add: attempt_def ref_env_def listener1_fails_def provider_dict_of_def
        lb_world_def empty_world_def)
  have h: "attempt (ref_env member1_fails) (length (trace lb_world))
      (Get loadbalancer_repo (LOADBALANCER_ID (provider_dict_of (VStr ''lb1''))))
      (get_loadbalancer (ref_env member1_fails)
         (LOADBALANCER_ID (provider_dict_of (VStr ''lb1'')))) (store lb_world)
     = Inr (Some lb1_tree)"
    by (simp add: attempt_def ref_env_def member1_fails_def provider_dict_of_def
        lb_world_def empty_world_def)
  note R = cascading_walk_isolates_listeners_on_revert [OF g, where result = "Returned VNone", THEN conjunct1]
  note X = cascading_walk_isolates_listeners_on_revert [OF h, where result = "Returned VNone",
      THEN conjunct2, THEN conjunct2, THEN conjunct1]
  have walk: "lb_walk lb1_tree ACTIVE =
      [Update listener_repo (VStr ''listener1'') [(''provisioning_status'', ACTIVE)],
       Update pool_repo (VStr ''pool1'') [(''provisioning_status'', ACTIVE)],
       Update member_repo (VStr ''member1'') [(''provisioning_status'', ACTIVE)],
       Update listener_repo (VStr ''listener2'') [(''provisioning_status'', ACTIVE)]]"
    by (simp add: lb_walk_def listener_walk_def pool_walk_def lb1_tree_def)
  from R g have 1: "fst (MarkLBActiveInDB_revert (ref_env listener1_fails) True
          (provider_dict_of (VStr ''lb1'')) (Returned VNone) lb_world) = Inr ()
     \<and> Update listener_repo (VStr ''listener2'') [(''provisioning_status'', ERROR)]
      \<in> set (calls_since lb_world (snd (MarkLBActiveInDB_revert (ref_env listener1_fails) True
          (provider_dict_of (VStr ''lb1'')) (Returned VNone) lb_world)))"
    by (simp add: provider_dict_of_def lb1_tree_def split: prod.splits)
  have 2: "fst (MarkLBActiveInDB_execute (ref_env member1_fails) True
          (provider_dict_of (VStr ''lb1'')) lb_world) = Inl (OtherException ''update failed'')
     \<and> trace (snd (MarkLBActiveInDB_execute (ref_env member1_fails) True
          (provider_dict_of (VStr ''lb1'')) lb_world)) =
      [Get loadbalancer_repo (VStr ''lb1''),
       Update listener_repo (VStr ''listener1'') [(''provisioning_status'', ACTIVE)],
       Update pool_repo (VStr ''pool1'') [(''provisioning_status'', ACTIVE)],
       Update member_repo (VStr ''member1'') [(''provisioning_status'', ACTIVE)]]"
    unfolding X walk
    by (simp add: perform_all_def monad_defs call_defs ref_defs lb_world_def member1_fails_def)
  from 1 2 g h show ?thesis by (simp add: provider_dict_of_def)
qed

lemmas walk_defs = MarkLBActiveInDB_execute_def MarkLBActiveInDB_revert_def get_db_lb_def
  mark_listener_status_def mark_l7policy_status_def mark_l7rule_status_def
  mark_pool_status_def mark_hm_status_def mark_member_status_def
  mark_loadbalancer_prov_status_error_def mark_prov_status_error_def

text \<open>
  Claim C4 as stated fails in both directions. The update of the first listener raises.
  In execute the exception reaches the caller: the second listener and the load balancer
  are never marked \<^verbatim>\<open>ACTIVE\<close>. In revert the failure is caught per listener,
  not per node: the second listener and the load balancer are marked
  \<^verbatim>\<open>ERROR\<close>, the pool and the member under the first listener are not.
\<close>

theorem cascading_walk_isolates_listeners_on_revert_counterexample:
  "fst (MarkLBActiveInDB_execute (ref_env listener1_fails) True
          (provider_dict_of (VStr ''lb1'')) lb_world) = Inl (OtherException ''update failed'')
 \<and> trace (snd (MarkLBActiveInDB_execute (ref_env listener1_fails) True
          (provider_dict_of (VStr ''lb1'')) lb_world)) =
      [Get loadbalancer_repo (VStr ''lb1''),
       Update listener_repo (VStr ''listener1'') [(''provisioning_status'', ACTIVE)]]
 \<and> fst (MarkLBActiveInDB_revert (ref_env listener1_fails) True
          (provider_dict_of (VStr ''lb1'')) (Returned VNone) lb_world) = Inr ()
 \<and> trace (snd (MarkLBActiveInDB_revert (ref_env listener1_fails) True
          (provider_dict_of (VStr ''lb1'')) (Returned VNone) lb_world)) =
      [Get loadbalancer_repo (VStr ''lb1''),
       Update listener_repo (VStr ''listener1'') [(''provisioning_status'', ERROR)],
       Update listener_repo (VStr ''listener2'') [(''provisioning_status'', ERROR)],
       Update loadbalancer_repo (VStr ''lb1'') [(''provisioning_status'', ERROR)]]"
  by (simp add: walk_defs monad_defs call_defs ref_defs lb_world_def lb1_tree_def
      listener1_fails_def)

section \<open>Load balancer and listeners ACTIVE, unless in ERROR\<close>

lemma ACTIVE_neq_ERROR [simp]: "ACTIVE \<noteq> ERROR" "ERROR \<noteq> ACTIVE"
  by (simp_all add: ACTIVE_def ERROR_def)


lemma ref_update_rows:
  assumes "ref_update r' j kw s = Inr s'" and "r \<noteq> r'"
  shows "rows s' r i = rows s r i"
  using assms by (auto simp: ref_update_def set_row_def split: option.splits)















end
